theory Spec2Isabelle
  imports Complex_Main "HOL-Library.Sublist"
begin

section \<open>Python values that travel over the wire\<close>

text \<open>
  \<^verbatim>\<open>server.py\<close> talks JSON-RPC to the modelling application. Every value it
  receives comes out of \<^verbatim>\<open>json.loads\<close>, every value it sends goes into
  \<^verbatim>\<open>json.dumps\<close>. Byte strings and Python strings are both \<open>char list\<close>
  (a Python \<^verbatim>\<open>str\<close> is kept in its UTF-8 encoding). A float is the rational
  number it denotes; NaN and the infinities are not represented. An object lists each
  key once, as \<^verbatim>\<open>json.loads\<close> and a dict literal deliver it; lookup is
  \<open>map_of\<close>.
\<close>

type_synonym bytes = string

datatype json =
    JNull
  | JBool bool
  | JInt int
  | JFloat rat
  | JStr string
  | JArr "json list"
  | JObj "(string \<times> json) list"

type_synonym dict = "(string \<times> json) list"

text \<open>Truth value of a Python object, as \<^verbatim>\<open>if x:\<close> tests it.\<close>

fun truthy :: "json \<Rightarrow> bool" where
  "truthy JNull = False"
| "truthy (JBool b) = b"
| "truthy (JInt i) = (i \<noteq> 0)"
| "truthy (JFloat r) = (r \<noteq> 0)"
| "truthy (JStr s) = (s \<noteq> [])"
| "truthy (JArr xs) = (xs \<noteq> [])"
| "truthy (JObj kvs) = (kvs \<noteq> [])"

text \<open>
  Python's \<^verbatim>\<open>==\<close> on such values: numbers compare by value across
  \<^verbatim>\<open>bool\<close>, \<^verbatim>\<open>int\<close> and \<^verbatim>\<open>float\<close> (\<^verbatim>\<open>True == 1\<close>,
  \<^verbatim>\<open>1 == 1.0\<close>), lists element by element, dicts key by key.
\<close>

fun num_val :: "json \<Rightarrow> rat option" where
  "num_val (JBool b) = Some (if b then 1 else 0)"
| "num_val (JInt i) = Some (of_int i)"
| "num_val (JFloat r) = Some r"
| "num_val _ = None"

fun py_eq :: "json \<Rightarrow> json \<Rightarrow> bool"
  and py_eq_list :: "json list \<Rightarrow> json list \<Rightarrow> bool"
  and py_eq_items :: "dict \<Rightarrow> dict \<Rightarrow> bool" where
  "py_eq JNull b = (b = JNull)"
| "py_eq (JStr s) b = (b = JStr s)"
| "py_eq (JBool x) b = (num_val b = Some (if x then 1 else 0))"
| "py_eq (JInt i) b = (num_val b = Some (of_int i))"
| "py_eq (JFloat r) b = (num_val b = Some r)"
| "py_eq (JArr xs) b = (case b of JArr ys \<Rightarrow> py_eq_list xs ys | _ \<Rightarrow> False)"
| "py_eq (JObj m) b =
     (case b of JObj n \<Rightarrow> length m = length n \<and> py_eq_items m n | _ \<Rightarrow> False)"
| "py_eq_list [] ys = (ys = [])"
| "py_eq_list (x # xs) ys =
     (case ys of [] \<Rightarrow> False | y # ys' \<Rightarrow> py_eq x y \<and> py_eq_list xs ys')"
| "py_eq_items [] n = True"
| "py_eq_items ((k, v) # m) n =
     (case map_of n k of None \<Rightarrow> False | Some v' \<Rightarrow> py_eq v v' \<and> py_eq_items m n)"

text \<open>\<^verbatim>\<open>needle in haystack\<close> on two strings: the substring test.\<close>

fun contains :: "string \<Rightarrow> string \<Rightarrow> bool" where
  "contains needle [] = (needle = [])"
| "contains needle (c # cs) = (prefix needle (c # cs) \<or> contains needle cs)"

definition quoted :: "string \<Rightarrow> string" where
  "quoted s = [CHR 0x27] @ s @ [CHR 0x27]"

text \<open>The name Python prints for the type of a value (\<^verbatim>\<open>type(x).__name__\<close>).\<close>

fun type_name :: "json \<Rightarrow> string" where
  "type_name JNull = ''NoneType''"
| "type_name (JBool b) = ''bool''"
| "type_name (JInt i) = ''int''"
| "type_name (JFloat r) = ''float''"
| "type_name (JStr s) = ''str''"
| "type_name (JArr xs) = ''list''"
| "type_name (JObj kvs) = ''dict''"

section \<open>Exceptions\<close>

text \<open>
  The \<^verbatim>\<open>except\<close> clauses of the source tell four classes apart:
  \<^verbatim>\<open>socket.timeout\<close>, \<^verbatim>\<open>ConnectionError\<close> (with its subclasses
  \<^verbatim>\<open>BrokenPipeError\<close> and \<^verbatim>\<open>ConnectionResetError\<close>),
  \<^verbatim>\<open>json.JSONDecodeError\<close>, and every other \<^verbatim>\<open>Exception\<close>.
  \<^verbatim>\<open>UnicodeDecodeError\<close> is kept apart because \<^verbatim>\<open>receive_full_response\<close>
  names it. Each exception carries the text \<^verbatim>\<open>str(e)\<close> gives. The texts of the
  errors the interpreter raises by itself (\<^verbatim>\<open>TypeError\<close>,
  \<^verbatim>\<open>AttributeError\<close>) are those of CPython 3.11.
\<close>

datatype exc =
    SocketTimeout
  | ConnectionError string
  | JSONDecodeError string
  | UnicodeDecodeError string
  | Exception string

fun str_exc :: "exc \<Rightarrow> string" where
  "str_exc SocketTimeout = ''timed out''"
| "str_exc (ConnectionError m) = m"
| "str_exc (JSONDecodeError m) = m"
| "str_exc (UnicodeDecodeError m) = m"
| "str_exc (Exception m) = m"

definition attribute_error :: "json \<Rightarrow> string \<Rightarrow> exc" where
  "attribute_error x attr =
     Exception (quoted (type_name x) @ '' object has no attribute '' @ quoted attr)"

section \<open>The Python library, as a parameter\<close>

text \<open>
  The library functions the source calls are not part of the repository. The model takes
  them as a parameter, so every theorem below holds whatever they compute:
  \<^item> \<open>loads data\<close> is \<^verbatim>\<open>json.loads(data.decode('utf-8'))\<close>: the parsed value,
    or one of the two errors the source catches;
  \<^item> \<open>str_of x\<close> is \<^verbatim>\<open>str(x)\<close> for a value that is not itself a string;
  \<^item> \<open>capitalize s\<close> is \<^verbatim>\<open>s.capitalize()\<close> and \<open>upper_of s\<close> is
    \<^verbatim>\<open>s.upper()\<close>;
  \<^item> \<open>float_2f x\<close> is \<^verbatim>\<open>f"{float(x):.2f}"\<close>: the text, or the exception
    \<^verbatim>\<open>float(x)\<close> raises.
\<close>

datatype loads_result = Parsed json | BadJSON string | BadUTF8 string

record pylib =
  loads :: "bytes \<Rightarrow> loads_result"
  str_of :: "json \<Rightarrow> string"
  capitalize :: "string \<Rightarrow> string"
  upper_of :: "string \<Rightarrow> string"
  float_2f :: "json \<Rightarrow> exc + string"

definition py_str :: "pylib \<Rightarrow> json \<Rightarrow> string" where
  "py_str L x = (case x of JStr s \<Rightarrow> s | _ \<Rightarrow> str_of L x)"

text \<open>\<^verbatim>\<open>key in x\<close>, \<^verbatim>\<open>x.get(key, default)\<close> and \<^verbatim>\<open>x[key]\<close> for a string key.\<close>

definition py_in :: "string \<Rightarrow> json \<Rightarrow> exc + bool" where
  "py_in k x =
     (case x of
        JObj kvs \<Rightarrow> Inr (map_of kvs k \<noteq> None)
      | JArr xs \<Rightarrow> Inr (JStr k \<in> set xs)
      | JStr s \<Rightarrow> Inr (contains k s)
      | _ \<Rightarrow> Inl (Exception (''argument of type '' @ quoted (type_name x) @ '' is not iterable'')))"

definition py_get :: "json \<Rightarrow> string \<Rightarrow> json \<Rightarrow> exc + json" where
  "py_get x k dflt =
     (case x of
        JObj kvs \<Rightarrow> Inr (case map_of kvs k of Some v \<Rightarrow> v | None \<Rightarrow> dflt)
      | _ \<Rightarrow> Inl (attribute_error x ''get''))"

definition py_item :: "json \<Rightarrow> string \<Rightarrow> exc + json" where
  "py_item x k =
     (case x of
        JObj kvs \<Rightarrow> (case map_of kvs k of Some v \<Rightarrow> Inr v | None \<Rightarrow> Inl (Exception (quoted k)))
      | JArr xs \<Rightarrow> Inl (Exception ''list indices must be integers or slices, not str'')
      | JStr s \<Rightarrow> Inl (Exception (''string indices must be integers, not '' @ quoted ''str''))
      | _ \<Rightarrow> Inl (Exception (quoted (type_name x) @ '' object is not subscriptable'')))"

section \<open>The world outside the process\<close>

text \<open>
  The peer, the network and the clock are a script the model consumes. \<open>clock\<close> is what
  \<^verbatim>\<open>time.time()\<close> returns; only \<^verbatim>\<open>recv\<close> and \<^verbatim>\<open>time.sleep\<close> advance it,
  a \<^verbatim>\<open>recv\<close> by the duration the script gives it. \<open>sock\<close> tells whether
  \<^verbatim>\<open>self.sock\<close> is a socket (\<open>True\<close>) or \<^verbatim>\<open>None\<close>, \<open>global_conn\<close> whether
  \<^verbatim>\<open>_sketchup_connection\<close> is set. Each script lists the outcomes of the successive
  calls of one kind; past its end the peer is gone: \<^verbatim>\<open>recv\<close> returns \<^verbatim>\<open>b''\<close>,
  \<^verbatim>\<open>sendall\<close> raises \<^verbatim>\<open>BrokenPipeError\<close>, the probe and
  \<^verbatim>\<open>socket.connect\<close> fail. \<open>trace\<close> records what the process did to the outside.
\<close>

datatype recv_result = Chunk bytes | RecvTimeout | RecvConnError string

datatype send_result = SendOk | SendTimeout | SendConnError string

datatype action =
    Connected
  | Closed
  | Sendall json send_result
  | Slept rat

record world =
  clock :: rat
  sock :: bool
  global_conn :: bool
  recv_script :: "(rat \<times> recv_result) list"
  send_script :: "send_result list"
  connect_script :: "bool list"
  probe_script :: "bool list"
  trace :: "action list"

definition sleep :: "rat \<Rightarrow> world \<Rightarrow> world" where
  "sleep d w = w\<lparr>clock := clock w + d, trace := trace w @ [Slept d]\<rparr>"

subsection \<open>\<^verbatim>\<open>SketchupConnection.disconnect\<close> and \<^verbatim>\<open>connect\<close>\<close>

definition disconnect :: "world \<Rightarrow> world" where
  "disconnect w = (if sock w then w\<lparr>sock := False, trace := trace w @ [Closed]\<rparr> else w)"

text \<open>The second half of \<^verbatim>\<open>connect\<close>: a new socket and \<^verbatim>\<open>socket.connect\<close>.\<close>

definition new_socket :: "world \<Rightarrow> bool \<times> world" where
  "new_socket w =
     (case connect_script w of
        True # cs \<Rightarrow> (True, w\<lparr>sock := True, connect_script := cs, trace := trace w @ [Connected]\<rparr>)
      | _ \<Rightarrow> (False, w\<lparr>sock := False, connect_script := tl (connect_script w)\<rparr>))"

definition connect :: "world \<Rightarrow> bool \<times> world" where
  "connect w =
     (if sock w then
        (case probe_script w of
           True # ps \<Rightarrow> (True, w\<lparr>probe_script := ps\<rparr>)
         | _ \<Rightarrow> new_socket (disconnect (w\<lparr>probe_script := tl (probe_script w)\<rparr>)))
      else new_socket w)"

subsection \<open>\<^verbatim>\<open>SketchupConnection.receive_full_response\<close>\<close>

definition max_response_time :: rat where
  "max_response_time = 120.0"

text \<open>Lines 158 to 176: what is done with the chunks once the loop is left.\<close>

definition parse_received :: "pylib \<Rightarrow> bytes list \<Rightarrow> exc + bytes" where
  "parse_received L chunks =
     (if chunks \<noteq> [] then
        (case loads L (concat chunks) of
           Parsed v \<Rightarrow> Inr (concat chunks)
         | BadJSON m \<Rightarrow> Inl (Exception ''Incomplete JSON response received'')
         | BadUTF8 m \<Rightarrow> Inl (Exception ''Invalid response encoding''))
      else Inl (Exception ''No data received''))"

text \<open>
  The \<^verbatim>\<open>while\<close> loop of lines 94 to 150, one \<^verbatim>\<open>recv\<close> per round. \<open>start\<close> is
  \<^verbatim>\<open>response_start_time\<close>, \<open>t\<close> the clock. The result is what the function returns
  or raises, the clock and the rest of the script.
\<close>

fun recv_chunks ::
  "pylib \<Rightarrow> rat \<Rightarrow> bytes list \<Rightarrow> rat \<Rightarrow> (rat \<times> recv_result) list
     \<Rightarrow> (exc + bytes) \<times> rat \<times> (rat \<times> recv_result) list" where
  "recv_chunks L start chunks t [] =
     (if t - start < max_response_time then
        (if chunks = [] then
           (Inl (Exception ''Connection closed before receiving any data''), t, [])
         else (parse_received L chunks, t, []))
      else (parse_received L chunks, t, []))"
| "recv_chunks L start chunks t ((d, r) # rest) =
     (if t - start < max_response_time then
        (case r of
           Chunk c \<Rightarrow>
             (if c = [] then
                (if chunks = [] then
                   (Inl (Exception ''Connection closed before receiving any data''), t + d, rest)
                 else (parse_received L chunks, t + d, rest))
              else
                (case loads L (concat (chunks @ [c])) of
                   Parsed v \<Rightarrow> (Inr (concat (chunks @ [c])), t + d, rest)
                 | _ \<Rightarrow> recv_chunks L start (chunks @ [c]) (t + d) rest))
         | RecvTimeout \<Rightarrow>
             (if chunks \<noteq> [] then
                (case loads L (concat chunks) of
                   Parsed v \<Rightarrow> (Inr (concat chunks), t + d, rest)
                 | _ \<Rightarrow> recv_chunks L start chunks (t + d) rest)
              else (parse_received L chunks, t + d, rest))
         | RecvConnError m \<Rightarrow>
             (if chunks \<noteq> [] then
                (case loads L (concat chunks) of
                   Parsed v \<Rightarrow> (Inr (concat chunks), t + d, rest)
                 | _ \<Rightarrow> (Inl (ConnectionError m), t + d, rest))
              else (Inl (ConnectionError m), t + d, rest)))
      else (parse_received L chunks, t, (d, r) # rest))"

definition receive_full_response :: "pylib \<Rightarrow> world \<Rightarrow> (exc + bytes) \<times> world" where
  "receive_full_response L w =
     (case recv_chunks L (clock w) [] (clock w) (recv_script w) of
        (r, t, s) \<Rightarrow> (r, w\<lparr>clock := t, recv_script := s\<rparr>))"

subsection \<open>\<^verbatim>\<open>SketchupConnection.send_command\<close>: envelope and timeout\<close>

text \<open>\<^verbatim>\<open>params\<close> is a dict or \<^verbatim>\<open>None\<close>; it is true when it is a non-empty dict.\<close>

definition params_true :: "dict option \<Rightarrow> bool" where
  "params_true params = (case params of None \<Rightarrow> False | Some p \<Rightarrow> p \<noteq> [])"

definition params_get :: "dict option \<Rightarrow> string \<Rightarrow> json" where
  "params_get params k =
     (case params of
        None \<Rightarrow> JNull
      | Some p \<Rightarrow> (case map_of p k of Some v \<Rightarrow> v | None \<Rightarrow> JNull))"

text \<open>Lines 185 to 209: the request that is sent.\<close>

definition build_request :: "string \<Rightarrow> dict option \<Rightarrow> json \<Rightarrow> json" where
  "build_request method params request_id =
     (if method = ''tools/call'' \<and> params_true params
         \<and> map_of (the params) ''name'' \<noteq> None \<and> map_of (the params) ''arguments'' \<noteq> None
      then JObj [(''jsonrpc'', JStr ''2.0''), (''method'', JStr method),
                 (''params'', JObj (the params)), (''id'', request_id)]
      else JObj [(''jsonrpc'', JStr ''2.0''), (''method'', JStr ''tools/call''),
                 (''params'', JObj [(''name'', JStr method),
                                    (''arguments'', JObj (if params_true params then the params else []))]),
                 (''id'', request_id)])"

text \<open>Lines 211 to 220: the timeout of the operation, in seconds.\<close>

definition operation_timeout :: "string \<Rightarrow> dict option \<Rightarrow> rat" where
  "operation_timeout method params =
     (if method = ''tools/call'' \<and> params_true params then
        (let tool_name = params_get params ''name'' in
         if py_eq tool_name (JStr ''create_component'') then 60.0
         else if list_ex (py_eq tool_name)
                   [JStr ''boolean_operation'', JStr ''create_dovetail'',
                    JStr ''create_mortise_tenon'', JStr ''create_finger_joint'']
           then 180.0
         else if py_eq tool_name (JStr ''eval_ruby'') then 300.0
         else 120.0)
      else 120.0)"

definition max_retries :: nat where
  "max_retries = 3"

subsection \<open>\<^verbatim>\<open>send_command\<close>: one response\<close>

text \<open>
  Lines 255 to 284, the body of the receive loop after a response has been parsed. The
  response either ends the call with a value (\<open>Done\<close>), raises (\<open>Fail\<close>), or leaves
  the loop waiting (\<open>Wait\<close>, with the value of \<^verbatim>\<open>operation_id\<close>).
\<close>

datatype step = Done json | Fail exc | Wait json

definition handle_status :: "pylib \<Rightarrow> json \<Rightarrow> step" where
  "handle_status L response =
     (case py_get response ''params'' (JObj []) of
        Inl e \<Rightarrow> Fail e
      | Inr status_params \<Rightarrow>
          (case py_get status_params ''operation_id'' JNull of
             Inl e \<Rightarrow> Fail e
           | Inr operation_id \<Rightarrow>
               (case py_get status_params ''status'' JNull of
                  Inl e \<Rightarrow> Fail e
                | Inr status \<Rightarrow>
                    (case py_get status_params ''message'' (JStr []) of
                       Inl e \<Rightarrow> Fail e
                     | Inr message \<Rightarrow>
                         if py_eq status (JStr ''failed'') then
                           Fail (Exception (''Operation failed: '' @ py_str L message))
                         else if py_eq status (JStr ''completed'') then
                           (case py_get status_params ''result'' (JObj []) of
                              Inl e \<Rightarrow> Fail e
                            | Inr r \<Rightarrow> Done r)
                         else Wait operation_id))))"

definition handle_response :: "pylib \<Rightarrow> json \<Rightarrow> json \<Rightarrow> json \<Rightarrow> step" where
  "handle_response L request_id response operation_id =
     (case py_in ''error'' response of
        Inl e \<Rightarrow> Fail e
      | Inr True \<Rightarrow>
          (case py_item response ''error'' of
             Inl e \<Rightarrow> Fail e
           | Inr err \<Rightarrow>
               (case py_get err ''message'' (JStr ''Unknown error from Sketchup'') of
                  Inl e \<Rightarrow> Fail e
                | Inr m \<Rightarrow> Fail (Exception (py_str L m))))
      | Inr False \<Rightarrow>
          (case py_get response ''method'' JNull of
             Inl e \<Rightarrow> Fail e
           | Inr m \<Rightarrow>
               if py_eq m (JStr ''operation/status'') then handle_status L response
               else
                 (case py_in ''result'' response of
                    Inl e \<Rightarrow> Fail e
                  | Inr False \<Rightarrow> Wait operation_id
                  | Inr True \<Rightarrow>
                      (case py_get response ''id'' JNull of
                         Inl e \<Rightarrow> Fail e
                       | Inr i \<Rightarrow>
                           if py_eq i request_id then
                             (case py_get response ''result'' (JObj []) of
                                Inl e \<Rightarrow> Fail e
                              | Inr r \<Rightarrow> Done r)
                           else Wait operation_id))))"

subsection \<open>\<^verbatim>\<open>send_command\<close>: the receive loop\<close>

text \<open>
  One round of the loop of lines 247 to 296: the \<^verbatim>\<open>try\<close> body and its two
  \<^verbatim>\<open>except\<close> clauses. The round returns, raises out of the loop, goes round again
  or breaks out of the loop.
\<close>

datatype round = Returned json | Raised exc | Again json | Break json

definition inner_except ::
  "string \<Rightarrow> dict option \<Rightarrow> rat \<Rightarrow> json \<Rightarrow> exc \<Rightarrow> world \<Rightarrow> round \<times> world" where
  "inner_except method params start operation_id e w =
     (case e of
        SocketTimeout \<Rightarrow>
          (if method = ''tools/call'' \<and> params_true params
              \<and> py_eq (params_get params ''name'') (JStr ''create_component'')
              \<and> clock w - start > 30.0
           then (Break operation_id, w) else (Again operation_id, w))
      | JSONDecodeError m \<Rightarrow> (Again operation_id, w)
      | _ \<Rightarrow> (Raised e, w))"

definition one_round ::
  "pylib \<Rightarrow> string \<Rightarrow> dict option \<Rightarrow> json \<Rightarrow> rat \<Rightarrow> json \<Rightarrow> world \<Rightarrow> round \<times> world" where
  "one_round L method params request_id start operation_id w =
     (case receive_full_response L w of
        (Inl e, w1) \<Rightarrow> inner_except method params start operation_id e w1
      | (Inr response_data, w1) \<Rightarrow>
          (case loads L response_data of
             BadJSON m \<Rightarrow> inner_except method params start operation_id (JSONDecodeError m) w1
           | BadUTF8 m \<Rightarrow> inner_except method params start operation_id (UnicodeDecodeError m) w1
           | Parsed response \<Rightarrow>
               (case handle_response L request_id response operation_id of
                  Done v \<Rightarrow> (Returned v, w1)
                | Fail e \<Rightarrow> inner_except method params start operation_id e w1
                | Wait operation_id' \<Rightarrow> (Again operation_id', w1))))"

text \<open>Lines 298 to 302: the loop was left without a final result.\<close>

definition timed_out :: "pylib \<Rightarrow> json \<Rightarrow> rat \<Rightarrow> exc" where
  "timed_out L operation_id tmo =
     (if truthy operation_id then
        Exception (''Operation '' @ py_str L operation_id @ '' timed out after ''
                    @ str_of L (JFloat tmo) @ '' seconds'')
      else Exception (''No response received within '' @ str_of L (JFloat tmo) @ '' seconds''))"

lemma recv_chunks_shorter:
  "recv_chunks L start chunks t s = (r, t', s') \<Longrightarrow> length s' \<le> length s"
proof (induction L start chunks t s arbitrary: r t' s' rule: recv_chunks.induct)
  case (1 L start chunks t)
  then show ?case by (auto split: if_splits)
next
  case (2 L start chunks t d r0 rest)
  show ?case
  proof (cases "t - start < max_response_time")
    case False
    with 2(5) show ?thesis by simp
  next
    case True
    show ?thesis
    proof (cases r0)
      case (Chunk c)
      with True 2(1,2)[OF True Chunk] 2(5) show ?thesis
        by (auto split: if_splits loads_result.splits dest: le_SucI)
    next
      case RecvTimeout
      with True 2(3,4)[OF True RecvTimeout] 2(5) show ?thesis
        by (auto split: if_splits loads_result.splits dest: le_SucI)
    next
      case (RecvConnError m)
      with True 2(5) show ?thesis
        by (auto split: if_splits loads_result.splits)
    qed
  qed
qed

lemma parse_received_raises:
  "parse_received L chunks = Inl e \<Longrightarrow> \<exists>m. e = Exception m"
  by (auto simp: parse_received_def split: if_splits loads_result.splits)

lemma recv_chunks_raises:
  "recv_chunks L start chunks t s = (Inl e, t', s') \<Longrightarrow>
     (\<exists>m. e = Exception m) \<or> (\<exists>m. e = ConnectionError m)"
proof (induction L start chunks t s arbitrary: e t' s' rule: recv_chunks.induct)
  case (1 L start chunks t)
  then show ?case by (auto split: if_splits dest: parse_received_raises)
next
  case (2 L start chunks t d r0 rest)
  show ?case
  proof (cases "t - start < max_response_time")
    case False
    with 2(5) show ?thesis by (auto dest: parse_received_raises)
  next
    case True
    show ?thesis
    proof (cases r0)
      case (Chunk c)
      with True 2(1,2)[OF True Chunk] 2(5) show ?thesis
        by (auto split: if_splits loads_result.splits dest: parse_received_raises)
    next
      case RecvTimeout
      with True 2(3,4)[OF True RecvTimeout] 2(5) show ?thesis
        by (auto split: if_splits loads_result.splits dest: parse_received_raises)
    next
      case (RecvConnError m)
      with True 2(5) show ?thesis
        by (auto split: if_splits loads_result.splits)
    qed
  qed
qed

lemma recv_chunks_consumes:
  "recv_chunks L start [] t s = (Inr data, t', s') \<Longrightarrow> length s' < length s"
proof (cases s)
  case Nil
  then show "recv_chunks L start [] t s = (Inr data, t', s') \<Longrightarrow> length s' < length s"
    by (auto simp: parse_received_def split: if_splits)
next
  case (Cons a rest)
  obtain d r0 where a: "a = (d, r0)" by (cases a)
  assume h: "recv_chunks L start [] t s = (Inr data, t', s')"
  show "length s' < length s"
  proof (cases r0)
    case (Chunk c)
    with h Cons a show ?thesis
      by (auto simp: parse_received_def less_Suc_eq_le split: if_splits loads_result.splits
               dest: recv_chunks_shorter)
  next
    case RecvTimeout
    with h Cons a show ?thesis
      by (auto simp: parse_received_def split: if_splits)
  next
    case (RecvConnError m)
    with h Cons a show ?thesis
      by (auto simp: parse_received_def split: if_splits)
  qed
qed

lemma one_round_again:
  "one_round L method params request_id start operation_id w = (Again op', w1) \<Longrightarrow>
     length (recv_script w1) < length (recv_script w)"
  unfolding one_round_def receive_full_response_def inner_except_def
  by (auto split: prod.splits sum.splits loads_result.splits step.splits exc.splits if_splits
           dest: recv_chunks_consumes recv_chunks_raises)

text \<open>
  The loop itself: \<^verbatim>\<open>while time.time() - start_time < operation_timeout\<close>. Every
  round that goes round again has taken at least one entry of the receive script, so the
  recursion ends.
\<close>

function wait_response ::
  "pylib \<Rightarrow> string \<Rightarrow> dict option \<Rightarrow> json \<Rightarrow> rat \<Rightarrow> rat \<Rightarrow> json \<Rightarrow> world
     \<Rightarrow> (exc + json) \<times> world" where
  "wait_response L method params request_id tmo start operation_id w =
     (if clock w - start < tmo then
        (case one_round L method params request_id start operation_id w of
           (Returned v, w1) \<Rightarrow> (Inr v, w1)
         | (Raised e, w1) \<Rightarrow> (Inl e, w1)
         | (Again operation_id', w1) \<Rightarrow>
             wait_response L method params request_id tmo start operation_id' w1
         | (Break operation_id', w1) \<Rightarrow> (Inl (timed_out L operation_id' tmo), w1))
      else (Inl (timed_out L operation_id tmo), w))"
  by pat_completeness auto
termination
  by (relation "measure (\<lambda>(L, method, params, request_id, tmo, start, operation_id, w).
                  length (recv_script w))")
     (auto dest: one_round_again [OF sym])

declare wait_response.simps [simp del]


subsection \<open>\<^verbatim>\<open>send_command\<close>: attempts and retries\<close>

text \<open>
  The \<^verbatim>\<open>try\<close> body of lines 227 to 302: the request is written, then the receive
  loop runs. \<^verbatim>\<open>self.sock.settimeout\<close> raises \<^verbatim>\<open>AttributeError\<close> when
  \<^verbatim>\<open>self.sock\<close> is \<^verbatim>\<open>None\<close>.
\<close>

definition next_send :: "world \<Rightarrow> send_result" where
  "next_send w =
     (case send_script w of [] \<Rightarrow> SendConnError ''[Errno 32] Broken pipe'' | r # rs \<Rightarrow> r)"

definition attempt ::
  "pylib \<Rightarrow> string \<Rightarrow> dict option \<Rightarrow> json \<Rightarrow> world \<Rightarrow> (exc + json) \<times> world" where
  "attempt L method params request_id w =
     (if \<not> sock w then (Inl (attribute_error JNull ''settimeout''), w)
      else
        (let w1 = w\<lparr>send_script := tl (send_script w),
                    trace := trace w @ [Sendall (build_request method params request_id) (next_send w)]\<rparr>
         in case next_send w of
              SendOk \<Rightarrow>
                wait_response L method params request_id (operation_timeout method params)
                  (clock w1) JNull w1
            | SendTimeout \<Rightarrow> (Inl SocketTimeout, w1)
            | SendConnError m \<Rightarrow> (Inl (ConnectionError m), w1)))"

text \<open>
  The three \<^verbatim>\<open>except\<close> clauses of lines 304 to 338. \<open>retry_count\<close> is the counter
  before the clause runs; \<open>Retry\<close> means the loop goes on with the counter one higher.
\<close>

datatype verdict = Retry | GiveUp exc

definition on_transport_error :: "exc \<Rightarrow> nat \<Rightarrow> world \<Rightarrow> verdict \<times> world" where
  "on_transport_error e retry_count w =
     (if Suc retry_count \<le> max_retries then
        (case connect (sleep (min (of_nat (Suc retry_count) * 0.5) 2.0) (disconnect w)) of
           (ok, w1) \<Rightarrow> (Retry, w1))
      else
        (GiveUp (Exception (''Connection to Sketchup lost after 4 attempts: '' @ str_exc e)),
         w\<lparr>sock := False\<rparr>))"

definition on_other_error :: "exc \<Rightarrow> nat \<Rightarrow> world \<Rightarrow> verdict \<times> world" where
  "on_other_error e retry_count w =
     (if contains ''Connection closed'' (str_exc e) \<and> retry_count < max_retries then
        (case connect (sleep 0.5 (disconnect w)) of
           (True, w1) \<Rightarrow> (Retry, w1)
         | (False, w1) \<Rightarrow>
             (GiveUp (Exception (''Communication error with Sketchup: '' @ str_exc e)),
              w1\<lparr>sock := False\<rparr>))
      else
        (GiveUp (Exception (''Communication error with Sketchup: '' @ str_exc e)),
         w\<lparr>sock := False\<rparr>))"

definition handle_failure :: "exc \<Rightarrow> nat \<Rightarrow> world \<Rightarrow> verdict \<times> world" where
  "handle_failure e retry_count w =
     (case e of
        SocketTimeout \<Rightarrow> on_transport_error e retry_count w
      | ConnectionError m \<Rightarrow> on_transport_error e retry_count w
      | JSONDecodeError m \<Rightarrow>
          (GiveUp (Exception (''Invalid response from Sketchup: '' @ m)), w)
      | _ \<Rightarrow> on_other_error e retry_count w)"

text \<open>
  The \<^verbatim>\<open>while retry_count <= max_retries\<close> loop. A loop left by its condition
  would make the function return \<^verbatim>\<open>None\<close>.
\<close>

function send_loop ::
  "pylib \<Rightarrow> string \<Rightarrow> dict option \<Rightarrow> json \<Rightarrow> nat \<Rightarrow> world \<Rightarrow> (exc + json) \<times> world" where
  "send_loop L method params request_id retry_count w =
     (if retry_count \<le> max_retries then
        (case attempt L method params request_id w of
           (Inr v, w1) \<Rightarrow> (Inr v, w1)
         | (Inl e, w1) \<Rightarrow>
             (case handle_failure e retry_count w1 of
                (Retry, w2) \<Rightarrow> send_loop L method params request_id (Suc retry_count) w2
              | (GiveUp e', w2) \<Rightarrow> (Inl e', w2)))
      else (Inr JNull, w))"
  by pat_completeness auto
termination
  by (relation "measure (\<lambda>(L, method, params, request_id, retry_count, w).
                  Suc max_retries - retry_count)") auto

declare send_loop.simps [simp del]

definition send_command ::
  "pylib \<Rightarrow> string \<Rightarrow> dict option \<Rightarrow> json \<Rightarrow> world \<Rightarrow> (exc + json) \<times> world" where
  "send_command L method params request_id w =
     (case connect w of
        (False, w1) \<Rightarrow> (Inl (ConnectionError ''Not connected to Sketchup''), w1)
      | (True, w1) \<Rightarrow> send_loop L method params request_id 0 w1)"


section \<open>The tools\<close>

subsection \<open>\<^verbatim>\<open>get_sketchup_connection\<close>\<close>

text \<open>
  A socket that is closed is dropped at once (\<^verbatim>\<open>disconnect\<close> sets
  \<^verbatim>\<open>self.sock = None\<close>), so a socket that is still held has a valid
  \<^verbatim>\<open>fileno()\<close>: the test of line 351 is the test that a socket is held.
\<close>

definition get_sketchup_connection :: "world \<Rightarrow> (exc + unit) \<times> world" where
  "get_sketchup_connection w =
     (if global_conn w \<and> sock w then (Inr (), w)
      else
        (case connect (w\<lparr>global_conn := True, sock := False\<rparr>) of
           (True, w1) \<Rightarrow> (Inr (), w1)
         | (False, w1) \<Rightarrow>
             (Inl (Exception
                ''Could not connect to Sketchup. Make sure the Sketchup extension is running.''),
              w1\<lparr>global_conn := False\<rparr>)))"

text \<open>What a tool returns: \<^verbatim>\<open>json.dumps\<close> of a value, or a plain string.\<close>

datatype tool_output = Json json | Text string

definition bind_exc :: "exc + 'a \<Rightarrow> ('a \<Rightarrow> exc + 'b) \<Rightarrow> exc + 'b" where
  "bind_exc m f = (case m of Inl e \<Rightarrow> Inl e | Inr x \<Rightarrow> f x)"

definition floats :: "rat list \<Rightarrow> json" where
  "floats xs = JArr (map JFloat xs)"

fun join :: "string \<Rightarrow> string list \<Rightarrow> string" where
  "join sep [] = []"
| "join sep [x] = x"
| "join sep (x # y # ys) = x @ sep @ join sep (y # ys)"

text \<open>\<^verbatim>\<open>str\<close> of a list of plain words, as an f-string prints it.\<close>

definition str_words :: "string list \<Rightarrow> string" where
  "str_words xs = ''['' @ join '', '' (map quoted xs) @ '']''"

subsection \<open>\<^verbatim>\<open>create_component\<close>\<close>

text \<open>Lines 473 and 474: the padding loop.\<close>

function pad :: "rat list \<Rightarrow> rat list" where
  "pad dimensions =
     (if length dimensions < 3 then
        pad (dimensions @ [if dimensions \<noteq> [] then last dimensions else 1.0])
      else dimensions)"
  by pat_completeness auto
termination
  by (relation "measure (\<lambda>dimensions. 3 - length dimensions)") auto

declare pad.simps [simp del]

text \<open>Lines 467 to 477.\<close>

definition normalize_dimensions :: "rat list option \<Rightarrow> string \<Rightarrow> rat list" where
  "normalize_dimensions dimensions type =
     map (\<lambda>d. max 0.1 d)
       (case dimensions of
          None \<Rightarrow> [1, 1, 1]
        | Some ds \<Rightarrow>
            if length ds = 2 \<and> type = ''cylinder'' then [ds ! 0, ds ! 0, ds ! 1]
            else if length ds < 3 then pad ds
            else ds)"

definition valid_directions :: "string list" where
  "valid_directions = [''up'', ''down'', ''forward'', ''back'', ''right'', ''left'', ''auto'']"

definition valid_origin_modes :: "string list" where
  "valid_origin_modes =
     [''center'', ''bottom_center'', ''top_center'', ''min_corner'', ''max_corner'']"

text \<open>Lines 519 to 524: the text of the dimensions in the success message.\<close>

definition dim_2f :: "pylib \<Rightarrow> json \<Rightarrow> string \<Rightarrow> exc + string" where
  "dim_2f L bounds_data k =
     bind_exc (py_get bounds_data k JNull)
       (\<lambda>v. if v \<noteq> JNull then float_2f L v else Inr ''0.00'')"

definition all_in :: "string list \<Rightarrow> json \<Rightarrow> exc + bool" where
  "all_in ks x =
     foldl (\<lambda>acc k. bind_exc acc (\<lambda>b. if b then py_in k x else Inr False)) (Inr True) ks"

definition dims_str :: "pylib \<Rightarrow> json \<Rightarrow> exc + string" where
  "dims_str L bounds_data =
     (if truthy bounds_data then
        bind_exc (all_in [''width'', ''height'', ''depth''] bounds_data)
          (\<lambda>present.
             if present then
               bind_exc (dim_2f L bounds_data ''width'') (\<lambda>width.
               bind_exc (dim_2f L bounds_data ''height'') (\<lambda>height.
               bind_exc (dim_2f L bounds_data ''depth'') (\<lambda>depth.
                 Inr (''['' @ width @ '', '' @ height @ '', '' @ depth @ '']''))))
             else Inr ''N/A'')
      else Inr ''N/A'')"

text \<open>Lines 506 to 528: the success message.\<close>

definition created_message ::
  "pylib \<Rightarrow> string \<Rightarrow> string \<Rightarrow> string \<Rightarrow> json \<Rightarrow> exc + string" where
  "created_message L type direction origin_mode result =
     bind_exc (py_get result ''id'' JNull) (\<lambda>component_id.
     bind_exc (py_get result ''verification'' (JObj [])) (\<lambda>verification.
     bind_exc (py_get verification ''type'' (JStr (capitalize L type))) (\<lambda>comp_type_from_result.
     bind_exc (py_get verification ''bounds'' (JObj [])) (\<lambda>bounds_data.
     bind_exc (py_get bounds_data ''center'' (JStr ''N/A'')) (\<lambda>actual_center.
     bind_exc (dims_str L bounds_data) (\<lambda>dims.
     bind_exc (py_get result ''positioning_explanation'' (JStr [])) (\<lambda>explanation.
       Inr ((case comp_type_from_result of
               JStr s \<Rightarrow> capitalize L s
             | _ \<Rightarrow> capitalize L type)
            @ '' (ID: '' @ py_str L component_id @ '') created. ''
            @ ''Created with direction='' @ quoted direction
            @ '', origin_mode='' @ quoted origin_mode @ ''. ''
            @ ''Actual center: '' @ py_str L actual_center
            @ '', Dimensions (W,H,D): '' @ dims @ ''. '' @ py_str L explanation))))))))"

text \<open>Lines 505 to 544: what is returned for the result of the peer.\<close>

definition component_failed :: "pylib \<Rightarrow> json \<Rightarrow> exc + tool_output" where
  "component_failed L result =
     bind_exc (py_get result ''error'' (JStr ''Unknown error during component creation.''))
       (\<lambda>error_message.
          Inr (Json (JObj [(''message'', JStr (''Failed to create component: ''
                                                @ py_str L error_message)),
                           (''details'', result)])))"

definition component_report ::
  "pylib \<Rightarrow> string \<Rightarrow> string \<Rightarrow> string \<Rightarrow> json \<Rightarrow> exc + tool_output" where
  "component_report L type direction origin_mode result =
     (if truthy result then
        bind_exc (py_get result ''success'' JNull)
          (\<lambda>success.
             if truthy success then
               bind_exc (created_message L type direction origin_mode result)
                 (\<lambda>message. Inr (Json (JObj [(''message'', JStr message), (''details'', result)])))
             else component_failed L result)
      else component_failed L result)"

text \<open>The arguments of the request of lines 490 to 503.\<close>

definition component_params ::
  "string \<Rightarrow> rat list option \<Rightarrow> rat list \<Rightarrow> string \<Rightarrow> string \<Rightarrow> dict" where
  "component_params type position dimensions direction origin_mode =
     [(''name'', JStr ''create_component_with_verification''),
      (''arguments'',
       JObj [(''type'', JStr type),
             (''position'',
              (case position of
                 None \<Rightarrow> JArr [JInt 0, JInt 0, JInt 0]
               | Some p \<Rightarrow> if p = [] then JArr [JInt 0, JInt 0, JInt 0] else floats p)),
             (''dimensions'', floats dimensions),
             (''direction'', JStr direction),
             (''origin_mode'', JStr origin_mode)])]"

text \<open>The \<^verbatim>\<open>try\<close> body, lines 464 to 544.\<close>

definition create_component_body ::
  "pylib \<Rightarrow> json \<Rightarrow> string \<Rightarrow> rat list option \<Rightarrow> rat list option \<Rightarrow> string \<Rightarrow> string
     \<Rightarrow> world \<Rightarrow> (exc + tool_output) \<times> world" where
  "create_component_body L request_id type position dimensions direction origin_mode w =
     (if direction \<notin> set valid_directions then
        (Inl (Exception (''Invalid direction '' @ quoted direction @ ''. Must be one of: ''
                          @ str_words valid_directions)), w)
      else if origin_mode \<notin> set valid_origin_modes then
        (Inl (Exception (''Invalid origin_mode '' @ quoted origin_mode @ ''. Must be one of: ''
                          @ str_words valid_origin_modes)), w)
      else
        (case get_sketchup_connection w of
           (Inl e, w1) \<Rightarrow> (Inl e, w1)
         | (Inr u, w1) \<Rightarrow>
             (case send_command L ''tools/call''
                     (Some (component_params type position
                              (normalize_dimensions dimensions type) direction origin_mode))
                     request_id w1 of
                (Inl e, w2) \<Rightarrow> (Inl e, w2)
              | (Inr result, w2) \<Rightarrow>
                  (component_report L type direction origin_mode result, w2))))"

text \<open>The tool: the body under its \<^verbatim>\<open>except Exception\<close> clause, lines 546 to 553.\<close>

definition create_component ::
  "pylib \<Rightarrow> json \<Rightarrow> string \<Rightarrow> rat list option \<Rightarrow> rat list option \<Rightarrow> string \<Rightarrow> string
     \<Rightarrow> world \<Rightarrow> tool_output \<times> world" where
  "create_component L request_id type position dimensions direction origin_mode w =
     (case create_component_body L request_id type position dimensions direction origin_mode w of
        (Inr out, w1) \<Rightarrow> (out, w1)
      | (Inl e, w1) \<Rightarrow>
          (Json (JObj [(''message'', JStr (''Error creating component: '' @ str_exc e)),
                       (''error'', JBool True), (''details'', JNull)]), w1))"

subsection \<open>\<^verbatim>\<open>transform_component\<close>\<close>

text \<open>
  The parameter \<^verbatim>\<open>id\<close> of the source is \<open>ident\<close> here. \<^verbatim>\<open>position\<close>,
  \<^verbatim>\<open>rotation\<close> and \<^verbatim>\<open>scale\<close> are \<^verbatim>\<open>None\<close> or a value (a list of floats, or
  for the scale a single float).
\<close>

definition transform_argument :: "string \<Rightarrow> json option \<Rightarrow> dict" where
  "transform_argument k v = (case v of None \<Rightarrow> [] | Some x \<Rightarrow> [(k, x)])"

definition applied_transformation :: "pylib \<Rightarrow> string \<Rightarrow> json option \<Rightarrow> string list" where
  "applied_transformation L k v =
     (case v of None \<Rightarrow> [] | Some x \<Rightarrow> [k @ '' to '' @ py_str L x])"

definition transform_report ::
  "pylib \<Rightarrow> string \<Rightarrow> string list \<Rightarrow> json \<Rightarrow> exc + tool_output" where
  "transform_report L ident applied_transformations result =
     (if truthy result then
        bind_exc (py_get result ''success'' JNull)
          (\<lambda>success.
             if truthy success then
               Inr (Json (JObj [(''message'',
                                 JStr (''Component ID '' @ quoted ident
                                       @ '' transformed successfully: ''
                                       @ join '', '' applied_transformations @ ''.'')),
                                (''details'', result)]))
             else
               bind_exc (py_get result ''message''
                           (JStr (''Component ID '' @ quoted ident
                                  @ '' not found or transform failed.'')))
                 (\<lambda>error_reason.
                    Inr (Json (JObj [(''message'',
                                      JStr (''Failed to transform component ID '' @ quoted ident
                                            @ ''. Reason: '' @ py_str L error_reason)),
                                     (''details'', result)]))))
      else
        Inr (Json (JObj [(''message'',
                          JStr (''Received an unexpected or empty response when trying to ''
                                @ ''transform component ID '' @ quoted ident @ ''.'')),
                         (''error'', JBool True), (''details'', JNull)])))"

definition no_transformation :: "string \<Rightarrow> tool_output" where
  "no_transformation ident =
     Json (JObj [(''message'',
                  JStr (''No transformation (position, rotation, or scale) provided. ''
                        @ ''Component not changed.'')),
                 (''details'', JObj [(''success'', JBool True), (''id'', JStr ident),
                                     (''changes_applied'', JBool False)])])"

definition transform_component_body ::
  "pylib \<Rightarrow> json \<Rightarrow> string \<Rightarrow> json option \<Rightarrow> json option \<Rightarrow> json option
     \<Rightarrow> world \<Rightarrow> (exc + tool_output) \<times> world" where
  "transform_component_body L request_id ident position rotation scale w =
     (case get_sketchup_connection w of
        (Inl e, w1) \<Rightarrow> (Inl e, w1)
      | (Inr u, w1) \<Rightarrow>
          (let arguments = [(''id'', JStr ident)] @ transform_argument ''position'' position
                 @ transform_argument ''rotation'' rotation @ transform_argument ''scale'' scale;
               applied_transformations =
                 applied_transformation L ''position'' position
                 @ applied_transformation L ''rotation'' rotation
                 @ applied_transformation L ''scale'' scale
           in if applied_transformations = [] then (Inr (no_transformation ident), w1)
              else
                (case send_command L ''tools/call''
                        (Some [(''name'', JStr ''transform_component''),
                               (''arguments'', JObj arguments)])
                        request_id w1 of
                   (Inl e, w2) \<Rightarrow> (Inl e, w2)
                 | (Inr result, w2) \<Rightarrow>
                     (transform_report L ident applied_transformations result, w2))))"

definition transform_component ::
  "pylib \<Rightarrow> json \<Rightarrow> string \<Rightarrow> json option \<Rightarrow> json option \<Rightarrow> json option
     \<Rightarrow> world \<Rightarrow> tool_output \<times> world" where
  "transform_component L request_id ident position rotation scale w =
     (case transform_component_body L request_id ident position rotation scale w of
        (Inr out, w1) \<Rightarrow> (out, w1)
      | (Inl e, w1) \<Rightarrow>
          (Json (JObj [(''message'',
                        JStr (''Error transforming component ID '' @ quoted ident @ '': ''
                              @ str_exc e)),
                       (''error'', JBool True), (''details'', JNull)]), w1))"

subsection \<open>\<^verbatim>\<open>create_mortise_tenon\<close>\<close>

definition mortise_tenon_params ::
  "string \<Rightarrow> string \<Rightarrow> rat \<Rightarrow> rat \<Rightarrow> rat \<Rightarrow> rat \<Rightarrow> rat \<Rightarrow> rat \<Rightarrow> dict" where
  "mortise_tenon_params mortise_id tenon_id width height depth offset_x offset_y offset_z =
     [(''name'', JStr ''create_mortise_tenon''),
      (''arguments'',
       JObj [(''mortise_id'', JStr mortise_id), (''tenon_id'', JStr tenon_id),
             (''width'', JFloat width), (''height'', JFloat height), (''depth'', JFloat depth),
             (''offset_x'', JFloat offset_x), (''offset_y'', JFloat offset_y),
             (''offset_z'', JFloat offset_z)])]"

definition create_mortise_tenon_body ::
  "pylib \<Rightarrow> json \<Rightarrow> string \<Rightarrow> string \<Rightarrow> rat \<Rightarrow> rat \<Rightarrow> rat \<Rightarrow> rat \<Rightarrow> rat \<Rightarrow> rat
     \<Rightarrow> world \<Rightarrow> (exc + tool_output) \<times> world" where
  "create_mortise_tenon_body L request_id mortise_id tenon_id width height depth
       offset_x offset_y offset_z w =
     (case get_sketchup_connection w of
        (Inl e, w1) \<Rightarrow> (Inl e, w1)
      | (Inr u, w1) \<Rightarrow>
          (case send_command L ''tools/call''
                  (Some (mortise_tenon_params mortise_id tenon_id width height depth
                           offset_x offset_y offset_z))
                  request_id w1 of
             (Inl e, w2) \<Rightarrow> (Inl e, w2)
           | (Inr result, w2) \<Rightarrow> (Inr (Json result), w2)))"

definition create_mortise_tenon ::
  "pylib \<Rightarrow> json \<Rightarrow> string \<Rightarrow> string \<Rightarrow> rat \<Rightarrow> rat \<Rightarrow> rat \<Rightarrow> rat \<Rightarrow> rat \<Rightarrow> rat
     \<Rightarrow> world \<Rightarrow> tool_output \<times> world" where
  "create_mortise_tenon L request_id mortise_id tenon_id width height depth
       offset_x offset_y offset_z w =
     (case create_mortise_tenon_body L request_id mortise_id tenon_id width height depth
             offset_x offset_y offset_z w of
        (Inr out, w1) \<Rightarrow> (out, w1)
      | (Inl e, w1) \<Rightarrow>
          (Text (''Error creating mortise and tenon joint: '' @ str_exc e), w1))"

subsection \<open>The tools with a message\<close>

text \<open>
  Every tool starts alike: it gets the connection and sends one \<^verbatim>\<open>tools/call\<close>
  request with the name of the operation and its arguments. \<open>call_tool\<close> is that
  start; \<open>run_tool\<close> adds what the tool makes of the result (\<open>report\<close>) and its
  \<^verbatim>\<open>except Exception\<close> clause (\<open>handler\<close>).
\<close>

definition call_tool :: "pylib \<Rightarrow> json \<Rightarrow> string \<Rightarrow> dict \<Rightarrow> world \<Rightarrow> (exc + json) \<times> world" where
  "call_tool L request_id name arguments w =
     (case get_sketchup_connection w of
        (Inl e, w1) \<Rightarrow> (Inl e, w1)
      | (Inr u, w1) \<Rightarrow>
          send_command L ''tools/call''
            (Some [(''name'', JStr name), (''arguments'', JObj arguments)]) request_id w1)"

definition run_tool ::
  "pylib \<Rightarrow> json \<Rightarrow> string \<Rightarrow> dict \<Rightarrow> (json \<Rightarrow> exc + tool_output) \<Rightarrow> (exc \<Rightarrow> tool_output)
     \<Rightarrow> world \<Rightarrow> tool_output \<times> world" where
  "run_tool L request_id name arguments report handler w =
     (case call_tool L request_id name arguments w of
        (Inl e, w1) \<Rightarrow> (handler e, w1)
      | (Inr result, w1) \<Rightarrow>
          (case report result of
             Inl e \<Rightarrow> (handler e, w1)
           | Inr out \<Rightarrow> (out, w1)))"

definition message_payload :: "string \<Rightarrow> json \<Rightarrow> tool_output" where
  "message_payload message details =
     Json (JObj [(''message'', JStr message), (''details'', details)])"

definition error_payload :: "string \<Rightarrow> tool_output" where
  "error_payload message =
     Json (JObj [(''message'', JStr message), (''error'', JBool True), (''details'', JNull)])"

text \<open>
  The three-way report that \<^verbatim>\<open>delete_component\<close>, \<^verbatim>\<open>get_selection\<close>,
  \<^verbatim>\<open>set_material\<close> and \<^verbatim>\<open>export_scene\<close> share: success, a failure the peer
  reports with its reason, or an empty result.
\<close>

definition standard_report ::
  "pylib \<Rightarrow> json \<Rightarrow> (exc + string) \<Rightarrow> string \<Rightarrow> string \<Rightarrow> string \<Rightarrow> exc + tool_output" where
  "standard_report L result success_message default_reason failure_text empty_text =
     (if truthy result then
        bind_exc (py_get result ''success'' JNull)
          (\<lambda>success.
             if truthy success then
               bind_exc success_message (\<lambda>message. Inr (message_payload message result))
             else
               bind_exc (py_get result ''message'' (JStr default_reason))
                 (\<lambda>error_reason.
                    Inr (message_payload (failure_text @ py_str L error_reason) result)))
      else Inr (error_payload empty_text))"

definition delete_component :: "pylib \<Rightarrow> json \<Rightarrow> string \<Rightarrow> world \<Rightarrow> tool_output \<times> world" where
  "delete_component L request_id ident w =
     run_tool L request_id ''delete_component'' [(''id'', JStr ident)]
       (\<lambda>result.
          standard_report L result
            (Inr (''Component with ID '' @ quoted ident @ '' deleted successfully.''))
            (''Component ID '' @ quoted ident @ '' not found or another error occurred.'')
            (''Failed to delete component with ID '' @ quoted ident @ ''. Reason: '')
            (''Received an unexpected or empty response when trying to delete component ID ''
             @ quoted ident @ ''.''))
       (\<lambda>e. error_payload (''Error deleting component ID '' @ quoted ident @ '': '' @ str_exc e))
       w"

text \<open>Lines 707 to 716 of \<^verbatim>\<open>get_selection\<close>: the message for a selection.\<close>

definition item_desc :: "pylib \<Rightarrow> json \<Rightarrow> exc + string" where
  "item_desc L item =
     bind_exc (py_get item ''id'' (JStr ''Unknown ID'')) (\<lambda>item_id.
     bind_exc (py_get item ''type'' (JStr ''Entity'')) (\<lambda>item_type.
       Inr (py_str L item_type @ '' (ID: '' @ py_str L item_id @ '')'')))"

fun item_descs :: "pylib \<Rightarrow> json list \<Rightarrow> exc + string list" where
  "item_descs L [] = Inr []"
| "item_descs L (item # items) =
     bind_exc (item_desc L item) (\<lambda>d. bind_exc (item_descs L items) (\<lambda>ds. Inr (d # ds)))"

definition selection_message :: "pylib \<Rightarrow> json \<Rightarrow> exc + string" where
  "selection_message L selected_items =
     (if truthy selected_items then
        (case selected_items of
           JArr items \<Rightarrow>
             bind_exc (item_descs L items)
               (\<lambda>ds. Inr (''Currently selected components (''
                           @ str_of L (JInt (int (length items))) @ ''): ''
                           @ join '', '' ds @ ''.''))
         | JObj kvs \<Rightarrow> Inl (attribute_error (JStr (fst (hd kvs))) ''get'')
         | JStr s \<Rightarrow> Inl (attribute_error (JStr [hd s]) ''get'')
         | _ \<Rightarrow> Inl (Exception (quoted (type_name selected_items) @ '' object is not iterable'')))
      else Inr ''No components are currently selected.'')"

definition get_selection :: "pylib \<Rightarrow> json \<Rightarrow> world \<Rightarrow> tool_output \<times> world" where
  "get_selection L request_id w =
     run_tool L request_id ''get_selection'' []
       (\<lambda>result.
          standard_report L result
            (bind_exc (py_get result ''selection'' (JArr [])) (selection_message L))
            ''Failed to retrieve selection from Sketchup.''
            ''Could not retrieve selection. Reason: ''
            ''Received an unexpected or empty response when trying to get selection.'')
       (\<lambda>e. error_payload (''Error getting selection: '' @ str_exc e))
       w"

definition set_material ::
  "pylib \<Rightarrow> json \<Rightarrow> string \<Rightarrow> string \<Rightarrow> world \<Rightarrow> tool_output \<times> world" where
  "set_material L request_id ident material w =
     run_tool L request_id ''set_material'' [(''id'', JStr ident), (''material'', JStr material)]
       (\<lambda>result.
          standard_report L result
            (Inr (''Material for component ID '' @ quoted ident @ '' successfully set to ''
                  @ quoted material @ ''.''))
            (''Component ID '' @ quoted ident @ '' or material '' @ quoted material
             @ '' not found, or another error occurred.'')
            (''Failed to set material '' @ quoted material @ '' for component ID ''
             @ quoted ident @ ''. Reason: '')
            (''Received an unexpected or empty response when trying to set material for ''
             @ ''component ID '' @ quoted ident @ ''.''))
       (\<lambda>e. error_payload (''Error setting material for component ID '' @ quoted ident @ '': ''
                            @ str_exc e))
       w"

definition export_scene :: "pylib \<Rightarrow> json \<Rightarrow> string \<Rightarrow> world \<Rightarrow> tool_output \<times> world" where
  "export_scene L request_id format w =
     run_tool L request_id ''export'' [(''format'', JStr format)]
       (\<lambda>result.
          standard_report L result
            (bind_exc (py_get result ''file_path'' (JStr ''An unspecified location by SketchUp''))
               (\<lambda>file_path.
                  Inr (''Scene successfully exported in '' @ upper_of L format
                       @ '' format. File saved to: '' @ py_str L file_path @ ''.'')))
            (''Export to '' @ upper_of L format @ '' format failed.'')
            (''Failed to export scene in '' @ upper_of L format @ '' format. Reason: '')
            (''Received an unexpected or empty response when trying to export scene in ''
             @ upper_of L format @ '' format.''))
       (\<lambda>e. error_payload (''Error exporting scene in '' @ upper_of L format @ '' format: ''
                            @ str_exc e))
       w"

subsection \<open>\<^verbatim>\<open>eval_ruby\<close>\<close>

text \<open>Lines 1001 to 1004: the response built from the result.\<close>

definition ruby_response :: "json \<Rightarrow> exc + tool_output" where
  "ruby_response result =
     bind_exc (py_get result ''content'' JNull)
       (\<lambda>content.
          case content of
            JArr (first # others) \<Rightarrow>
              bind_exc (py_get first ''text'' (JStr ''Success''))
                (\<lambda>text. Inr (Json (JObj [(''success'', JBool True), (''result'', text)])))
          | _ \<Rightarrow> Inr (Json (JObj [(''success'', JBool True), (''result'', JStr ''Success'')])))"

definition eval_ruby :: "pylib \<Rightarrow> json \<Rightarrow> string \<Rightarrow> world \<Rightarrow> tool_output \<times> world" where
  "eval_ruby L request_id code w =
     run_tool L request_id ''eval_ruby'' [(''code'', JStr code)] ruby_response
       (\<lambda>e. Json (JObj [(''success'', JBool False), (''error'', JStr (str_exc e))]))
       w"

subsection \<open>The tools that return the result as it is\<close>

text \<open>
  From \<^verbatim>\<open>create_dovetail\<close> to \<^verbatim>\<open>preview_position\<close> the tools return
  \<^verbatim>\<open>json.dumps(result)\<close>, and for a caught exception a sentence that starts with the
  tool's own words. \<open>or_list xs dflt\<close> is \<^verbatim>\<open>xs or dflt\<close> for a list of floats that
  may be \<^verbatim>\<open>None\<close>.
\<close>

definition plain_tool ::
  "pylib \<Rightarrow> json \<Rightarrow> string \<Rightarrow> dict \<Rightarrow> string \<Rightarrow> world \<Rightarrow> tool_output \<times> world" where
  "plain_tool L request_id name arguments error_text w =
     run_tool L request_id name arguments (\<lambda>result. Inr (Json result))
       (\<lambda>e. Text (error_text @ str_exc e)) w"

definition or_list :: "rat list option \<Rightarrow> json \<Rightarrow> json" where
  "or_list xs dflt = (case xs of None \<Rightarrow> dflt | Some p \<Rightarrow> if p = [] then dflt else floats p)"

definition zeros :: json where
  "zeros = JArr [JInt 0, JInt 0, JInt 0]"

definition create_dovetail ::
  "pylib \<Rightarrow> json \<Rightarrow> string \<Rightarrow> string \<Rightarrow> rat \<Rightarrow> rat \<Rightarrow> rat \<Rightarrow> rat \<Rightarrow> int \<Rightarrow> rat \<Rightarrow> rat \<Rightarrow> rat
     \<Rightarrow> world \<Rightarrow> tool_output \<times> world" where
  "create_dovetail L request_id tail_id pin_id width height depth angle num_tails
       offset_x offset_y offset_z w =
     plain_tool L request_id ''create_dovetail''
       [(''tail_id'', JStr tail_id), (''pin_id'', JStr pin_id), (''width'', JFloat width),
        (''height'', JFloat height), (''depth'', JFloat depth), (''angle'', JFloat angle),
        (''num_tails'', JInt num_tails), (''offset_x'', JFloat offset_x),
        (''offset_y'', JFloat offset_y), (''offset_z'', JFloat offset_z)]
       ''Error creating dovetail joint: '' w"

definition create_finger_joint ::
  "pylib \<Rightarrow> json \<Rightarrow> string \<Rightarrow> string \<Rightarrow> rat \<Rightarrow> rat \<Rightarrow> rat \<Rightarrow> int \<Rightarrow> rat \<Rightarrow> rat \<Rightarrow> rat
     \<Rightarrow> world \<Rightarrow> tool_output \<times> world" where
  "create_finger_joint L request_id board1_id board2_id width height depth num_fingers
       offset_x offset_y offset_z w =
     plain_tool L request_id ''create_finger_joint''
       [(''board1_id'', JStr board1_id), (''board2_id'', JStr board2_id),
        (''width'', JFloat width), (''height'', JFloat height), (''depth'', JFloat depth),
        (''num_fingers'', JInt num_fingers), (''offset_x'', JFloat offset_x),
        (''offset_y'', JFloat offset_y), (''offset_z'', JFloat offset_z)]
       ''Error creating finger joint: '' w"

definition calculate_distance ::
  "pylib \<Rightarrow> json \<Rightarrow> rat list \<Rightarrow> rat list \<Rightarrow> world \<Rightarrow> tool_output \<times> world" where
  "calculate_distance L request_id point1 point2 w =
     plain_tool L request_id ''calculate_distance''
       [(''point1'', floats point1), (''point2'', floats point2)]
       ''Error calculating distance: '' w"

definition measure_components ::
  "pylib \<Rightarrow> json \<Rightarrow> string list \<Rightarrow> string \<Rightarrow> world \<Rightarrow> tool_output \<times> world" where
  "measure_components L request_id component_ids type w =
     plain_tool L request_id ''measure_components''
       [(''component_ids'', JArr (map JStr component_ids)), (''type'', JStr type)]
       ''Error measuring components: '' w"

definition inspect_component ::
  "pylib \<Rightarrow> json \<Rightarrow> string \<Rightarrow> world \<Rightarrow> tool_output \<times> world" where
  "inspect_component L request_id component_id w =
     plain_tool L request_id ''inspect_component'' [(''component_id'', JStr component_id)]
       ''Error inspecting component: '' w"

definition create_reference_markers ::
  "pylib \<Rightarrow> json \<Rightarrow> rat list list \<Rightarrow> rat \<Rightarrow> string \<Rightarrow> string \<Rightarrow> world \<Rightarrow> tool_output \<times> world" where
  "create_reference_markers L request_id points size' color label_prefix w =
     plain_tool L request_id ''create_reference_markers''
       [(''points'', JArr (map floats points)), (''size'', JFloat size'), (''color'', JStr color),
        (''label_prefix'', JStr label_prefix)]
       ''Error creating reference markers: '' w"

definition clear_reference_markers ::
  "pylib \<Rightarrow> json \<Rightarrow> string \<Rightarrow> world \<Rightarrow> tool_output \<times> world" where
  "clear_reference_markers L request_id label_prefix w =
     plain_tool L request_id ''clear_reference_markers'' [(''label_prefix'', JStr label_prefix)]
       ''Error clearing reference markers: '' w"

definition snap_align_component ::
  "pylib \<Rightarrow> json \<Rightarrow> string \<Rightarrow> string \<Rightarrow> string \<Rightarrow> rat list option \<Rightarrow> world
     \<Rightarrow> tool_output \<times> world" where
  "snap_align_component L request_id source_component_id target_component_id alignment_type
       offset w =
     plain_tool L request_id ''snap_align_component''
       [(''source_component_id'', JStr source_component_id),
        (''target_component_id'', JStr target_component_id),
        (''alignment_type'', JStr alignment_type), (''offset'', or_list offset zeros)]
       ''Error snapping/aligning component: '' w"

definition create_grid_system ::
  "pylib \<Rightarrow> json \<Rightarrow> rat list option \<Rightarrow> rat \<Rightarrow> rat \<Rightarrow> int \<Rightarrow> int \<Rightarrow> rat \<Rightarrow> bool \<Rightarrow> string
     \<Rightarrow> string \<Rightarrow> world \<Rightarrow> tool_output \<times> world" where
  "create_grid_system L request_id origin x_spacing y_spacing x_count y_count marker_size
       show_labels color label_prefix w =
     plain_tool L request_id ''create_grid_system''
       [(''origin'', or_list origin zeros), (''x_spacing'', JFloat x_spacing),
        (''y_spacing'', JFloat y_spacing), (''x_count'', JInt x_count),
        (''y_count'', JInt y_count), (''marker_size'', JFloat marker_size),
        (''show_labels'', JBool show_labels), (''color'', JStr color),
        (''label_prefix'', JStr label_prefix)]
       ''Error creating grid system: '' w"

definition query_all_components ::
  "pylib \<Rightarrow> json \<Rightarrow> bool \<Rightarrow> string option \<Rightarrow> world \<Rightarrow> tool_output \<times> world" where
  "query_all_components L request_id include_details type_filter w =
     plain_tool L request_id ''query_all_components''
       ([(''include_details'', JBool include_details)]
        @ (case type_filter of
             None \<Rightarrow> []
           | Some t \<Rightarrow> if t = [] then [] else [(''type_filter'', JStr t)]))
       ''Error querying components: '' w"

definition position_relative_to_component ::
  "pylib \<Rightarrow> json \<Rightarrow> string \<Rightarrow> string \<Rightarrow> string \<Rightarrow> rat list option \<Rightarrow> world
     \<Rightarrow> tool_output \<times> world" where
  "position_relative_to_component L request_id source_component_id reference_component_id
       relative_position offset w =
     plain_tool L request_id ''position_relative_to_component''
       [(''source_component_id'', JStr source_component_id),
        (''reference_component_id'', JStr reference_component_id),
        (''relative_position'', JStr relative_position), (''offset'', or_list offset zeros)]
       ''Error positioning component relatively: '' w"

definition position_between_components ::
  "pylib \<Rightarrow> json \<Rightarrow> string \<Rightarrow> string \<Rightarrow> string \<Rightarrow> rat \<Rightarrow> rat list option \<Rightarrow> world
     \<Rightarrow> tool_output \<times> world" where
  "position_between_components L request_id source_component_id component1_id component2_id
       ratio offset w =
     plain_tool L request_id ''position_between_components''
       [(''source_component_id'', JStr source_component_id),
        (''component1_id'', JStr component1_id), (''component2_id'', JStr component2_id),
        (''ratio'', JFloat ratio), (''offset'', or_list offset zeros)]
       ''Error positioning component between others: '' w"

definition show_component_bounds ::
  "pylib \<Rightarrow> json \<Rightarrow> string list \<Rightarrow> bool \<Rightarrow> string \<Rightarrow> string \<Rightarrow> world \<Rightarrow> tool_output \<times> world" where
  "show_component_bounds L request_id component_ids show_wireframe color label_prefix w =
     plain_tool L request_id ''show_component_bounds''
       [(''component_ids'', JArr (map JStr component_ids)),
        (''show_wireframe'', JBool show_wireframe), (''color'', JStr color),
        (''label_prefix'', JStr label_prefix)]
       ''Error showing component bounds: '' w"

definition preview_position ::
  "pylib \<Rightarrow> json \<Rightarrow> string \<Rightarrow> rat list option \<Rightarrow> rat list option \<Rightarrow> world
     \<Rightarrow> tool_output \<times> world" where
  "preview_position L request_id type position dimensions w =
     plain_tool L request_id ''preview_position''
       [(''type'', JStr type), (''position'', or_list position zeros),
        (''dimensions'', or_list dimensions (JArr [JInt 1, JInt 1, JInt 1]))]
       ''Error previewing position: '' w"

section \<open>A fragment of the Python library\<close>

text \<open>
  The examples below run the model on concrete bytes, so they need the library functions
  as programs. \<open>cpython\<close> gives them on a fragment: \<open>json_loads\<close> reads JSON texts whose
  strings have no escape sequence and whose numbers are integers (anything else is
  rejected, which is the library's answer outside the fragment only by accident);
  \<open>str_json\<close> prints \<^verbatim>\<open>None\<close>, booleans, integers, short decimals, and lists and
  dicts of these and of plain words. The theorems do not depend on it: they hold for
  every library.
\<close>

definition is_ws :: "char \<Rightarrow> bool" where
  "is_ws c = (c = CHR '' '' \<or> c = CHR 0x09 \<or> c = CHR 0x0A \<or> c = CHR 0x0D)"

definition skip_ws :: "string \<Rightarrow> string" where
  "skip_ws s = dropWhile is_ws s"

definition is_digit :: "char \<Rightarrow> bool" where
  "is_digit c = (48 \<le> (of_char c :: nat) \<and> (of_char c :: nat) \<le> 57)"

definition digit_val :: "char \<Rightarrow> nat" where
  "digit_val c = of_char c - 48"

definition nat_of_digits :: "string \<Rightarrow> nat" where
  "nat_of_digits s = foldl (\<lambda>n c. 10 * n + digit_val c) 0 s"

text \<open>An integer literal: the value and the rest of the input.\<close>

definition lex_nat :: "string \<Rightarrow> (nat \<times> string) option" where
  "lex_nat s =
     (case s of
        [] \<Rightarrow> None
      | c # cs \<Rightarrow>
          if c = CHR ''0'' then Some (0, cs)
          else if is_digit c then Some (nat_of_digits (takeWhile is_digit s), dropWhile is_digit s)
          else None)"

definition lex_int :: "string \<Rightarrow> (json \<times> string) option" where
  "lex_int s =
     (case (case s of
              c # cs \<Rightarrow> if c = CHR ''-'' then map_option (\<lambda>(n, r). (- int n, r)) (lex_nat cs)
                        else map_option (\<lambda>(n, r). (int n, r)) (lex_nat s)
            | [] \<Rightarrow> None) of
        None \<Rightarrow> None
      | Some (i, r) \<Rightarrow>
          (case r of
             c # cs \<Rightarrow> if c = CHR ''.'' \<or> c = CHR ''e'' \<or> c = CHR ''E'' then None
                       else Some (JInt i, r)
           | [] \<Rightarrow> Some (JInt i, r)))"

definition plain_char :: "char \<Rightarrow> bool" where
  "plain_char c = (c \<noteq> CHR 0x22 \<and> c \<noteq> CHR 0x5C \<and> 32 \<le> (of_char c :: nat))"

text \<open>A string literal, after its opening quote.\<close>

definition lex_string :: "string \<Rightarrow> (string \<times> string) option" where
  "lex_string s =
     (case dropWhile plain_char s of
        c # cs \<Rightarrow> if c = CHR 0x22 then Some (takeWhile plain_char s, cs) else None
      | [] \<Rightarrow> None)"

definition dict_update :: "string \<Rightarrow> json \<Rightarrow> dict \<Rightarrow> dict" where
  "dict_update k v d =
     (if map_of d k = None then d @ [(k, v)]
      else map (\<lambda>(k', v'). if k' = k then (k', v) else (k', v')) d)"

fun parse_value :: "nat \<Rightarrow> string \<Rightarrow> (json \<times> string) option"
  and parse_elements :: "nat \<Rightarrow> json list \<Rightarrow> string \<Rightarrow> (json \<times> string) option"
  and parse_members :: "nat \<Rightarrow> dict \<Rightarrow> string \<Rightarrow> (json \<times> string) option" where
  "parse_value 0 s = None"
| "parse_value (Suc n) s =
     (case s of
        [] \<Rightarrow> None
      | c # cs \<Rightarrow>
          if c = CHR ''{'' then
            (case skip_ws cs of
               c' # cs' \<Rightarrow> if c' = CHR ''}'' then Some (JObj [], cs') else parse_members n [] (c' # cs')
             | [] \<Rightarrow> None)
          else if c = CHR ''['' then
            (case skip_ws cs of
               c' # cs' \<Rightarrow> if c' = CHR '']'' then Some (JArr [], cs') else parse_elements n [] (c' # cs')
             | [] \<Rightarrow> None)
          else if c = CHR 0x22 then map_option (\<lambda>(x, r). (JStr x, r)) (lex_string cs)
          else if prefix ''true'' s then Some (JBool True, drop 4 s)
          else if prefix ''false'' s then Some (JBool False, drop 5 s)
          else if prefix ''null'' s then Some (JNull, drop 4 s)
          else lex_int s)"
| "parse_elements 0 acc s = None"
| "parse_elements (Suc n) acc s =
     (case parse_value n s of
        None \<Rightarrow> None
      | Some (v, r) \<Rightarrow>
          (case skip_ws r of
             c # cs \<Rightarrow>
               if c = CHR '','' then parse_elements n (acc @ [v]) (skip_ws cs)
               else if c = CHR '']'' then Some (JArr (acc @ [v]), cs)
               else None
           | [] \<Rightarrow> None))"
| "parse_members 0 acc s = None"
| "parse_members (Suc n) acc s =
     (case s of
        c # cs \<Rightarrow>
          if c = CHR 0x22 then
            (case lex_string cs of
               None \<Rightarrow> None
             | Some (k, r) \<Rightarrow>
                 (case skip_ws r of
                    c' # cs' \<Rightarrow>
                      if c' = CHR '':'' then
                        (case parse_value n (skip_ws cs') of
                           None \<Rightarrow> None
                         | Some (v, r') \<Rightarrow>
                             (case skip_ws r' of
                                c'' # cs'' \<Rightarrow>
                                  if c'' = CHR '','' then
                                    parse_members n (dict_update k v acc) (skip_ws cs'')
                                  else if c'' = CHR ''}'' then Some (JObj (dict_update k v acc), cs'')
                                  else None
                              | [] \<Rightarrow> None))
                      else None
                  | [] \<Rightarrow> None))
          else None
      | [] \<Rightarrow> None)"

text \<open>Well-formed UTF-8, on the byte values.\<close>

definition cont :: "nat \<Rightarrow> bool" where
  "cont b = (128 \<le> b \<and> b \<le> 191)"

fun utf8 :: "nat list \<Rightarrow> bool" where
  "utf8 [] = True"
| "utf8 (b # bs) =
     (if b < 128 then utf8 bs
      else if 194 \<le> b \<and> b \<le> 223 then
        (case bs of c1 # r \<Rightarrow> cont c1 \<and> utf8 r | _ \<Rightarrow> False)
      else if 224 \<le> b \<and> b \<le> 239 then
        (case bs of
           c1 # c2 # r \<Rightarrow>
             cont c1 \<and> cont c2 \<and> (if b = 224 then 160 \<le> c1 else True)
             \<and> (if b = 237 then c1 \<le> 159 else True) \<and> utf8 r
         | _ \<Rightarrow> False)
      else if 240 \<le> b \<and> b \<le> 244 then
        (case bs of
           c1 # c2 # c3 # r \<Rightarrow>
             cont c1 \<and> cont c2 \<and> cont c3 \<and> (if b = 240 then 144 \<le> c1 else True)
             \<and> (if b = 244 then c1 \<le> 143 else True) \<and> utf8 r
         | _ \<Rightarrow> False)
      else False)"

definition json_loads :: "bytes \<Rightarrow> loads_result" where
  "json_loads data =
     (if \<not> utf8 (map of_char data) then BadUTF8 ''invalid utf-8''
      else
        (case parse_value (Suc (length data)) (skip_ws data) of
           None \<Rightarrow> BadJSON ''Expecting value''
         | Some (v, r) \<Rightarrow> if skip_ws r = [] then Parsed v else BadJSON ''Extra data''))"


text \<open>Decimal digits.\<close>

function show_nat :: "nat \<Rightarrow> string" where
  "show_nat n =
     (if n < 10 then [''0123456789'' ! n]
      else show_nat (n div 10) @ [''0123456789'' ! (n mod 10)])"
  by pat_completeness auto
termination
  by (relation "measure (\<lambda>n. n)") auto

declare show_nat.simps [simp del]

definition show_int :: "int \<Rightarrow> string" where
  "show_int i = (if i < 0 then ''-'' @ show_nat (nat (- i)) else show_nat (nat i))"

fun frac_digits :: "nat \<Rightarrow> rat \<Rightarrow> string" where
  "frac_digits 0 x = []"
| "frac_digits (Suc n) x =
     (if x = 0 then []
      else (''0123456789'' ! nat \<lfloor>x * 10\<rfloor>) # frac_digits n (x * 10 - of_int \<lfloor>x * 10\<rfloor>))"

definition show_float :: "rat \<Rightarrow> string" where
  "show_float r =
     (if r < 0 then ''-'' else []) @ show_nat (nat \<lfloor>\<bar>r\<bar>\<rfloor>) @ ''.''
     @ (if \<bar>r\<bar> = of_int \<lfloor>\<bar>r\<bar>\<rfloor> then ''0'' else frac_digits 17 (\<bar>r\<bar> - of_int \<lfloor>\<bar>r\<bar>\<rfloor>))"

fun str_json :: "json \<Rightarrow> string"
  and repr_json :: "json \<Rightarrow> string"
  and repr_list :: "json list \<Rightarrow> string list"
  and repr_items :: "dict \<Rightarrow> string list" where
  "str_json JNull = ''None''"
| "str_json (JBool b) = (if b then ''True'' else ''False'')"
| "str_json (JInt i) = show_int i"
| "str_json (JFloat r) = show_float r"
| "str_json (JStr s) = s"
| "str_json (JArr xs) = ''['' @ join '', '' (repr_list xs) @ '']''"
| "str_json (JObj kvs) = ''{'' @ join '', '' (repr_items kvs) @ ''}''"
| "repr_json x = (case x of JStr s \<Rightarrow> quoted s | _ \<Rightarrow> str_json x)"
| "repr_list [] = []"
| "repr_list (x # xs) = repr_json x # repr_list xs"
| "repr_items [] = []"
| "repr_items ((k, v) # kvs) = (quoted k @ '': '' @ repr_json v) # repr_items kvs"

definition upper :: "char \<Rightarrow> char" where
  "upper c =
     (if 97 \<le> (of_char c :: nat) \<and> (of_char c :: nat) \<le> 122 then
        (case c of Char b0 b1 b2 b3 b4 b5 b6 b7 \<Rightarrow> Char b0 b1 b2 b3 b4 False b6 b7)
      else c)"

definition lower :: "char \<Rightarrow> char" where
  "lower c =
     (if 65 \<le> (of_char c :: nat) \<and> (of_char c :: nat) \<le> 90 then
        (case c of Char b0 b1 b2 b3 b4 b5 b6 b7 \<Rightarrow> Char b0 b1 b2 b3 b4 True b6 b7)
      else c)"

definition str_capitalize :: "string \<Rightarrow> string" where
  "str_capitalize s = (case s of [] \<Rightarrow> [] | c # cs \<Rightarrow> upper c # map lower cs)"

definition round_half_even :: "rat \<Rightarrow> int" where
  "round_half_even x =
     (if x - of_int \<lfloor>x\<rfloor> < 1 / 2 then \<lfloor>x\<rfloor>
      else if x - of_int \<lfloor>x\<rfloor> > 1 / 2 then \<lfloor>x\<rfloor> + 1
      else if even \<lfloor>x\<rfloor> then \<lfloor>x\<rfloor> else \<lfloor>x\<rfloor> + 1)"

definition show_2f :: "rat \<Rightarrow> string" where
  "show_2f r =
     (let n = nat (round_half_even (\<bar>r\<bar> * 100))
      in (if r < 0 then ''-'' else []) @ show_nat (n div 100) @ ''.''
         @ [''0123456789'' ! (n mod 100 div 10), ''0123456789'' ! (n mod 10)])"

definition str_float_2f :: "json \<Rightarrow> exc + string" where
  "str_float_2f x =
     (case x of
        JInt i \<Rightarrow> Inr (show_2f (of_int i))
      | JFloat r \<Rightarrow> Inr (show_2f r)
      | JBool b \<Rightarrow> Inr (if b then ''1.00'' else ''0.00'')
      | JStr s \<Rightarrow>
          if s \<noteq> [] \<and> list_all is_digit s then Inr (show_2f (of_nat (nat_of_digits s)))
          else Inl (Exception (''could not convert string to float: '' @ quoted s))
      | _ \<Rightarrow>
          Inl (Exception (''float() argument must be a string or a real number, not ''
                           @ quoted (type_name x))))"

definition cpython :: pylib where
  "cpython = \<lparr>loads = json_loads, str_of = str_json, capitalize = str_capitalize,
              upper_of = map upper, float_2f = str_float_2f\<rparr>"

section \<open>The vocabulary of the properties\<close>

text \<open>
  The properties below speak about the model in the words of the specification. Those
  words are defined here, together with the worlds of the examples.
\<close>

subsection \<open>Timeouts, requests and failures\<close>

text \<open>
  The static table as the specification words it: 60 seconds for component creation, 180
  for the boolean operation and the three joinery operations, 300 for script evaluation,
  120 for every other name.
\<close>

definition timeout_table :: "string \<Rightarrow> rat" where
  "timeout_table name =
     (if name = ''create_component'' then 60
      else if name \<in> {''boolean_operation'', ''create_dovetail'', ''create_mortise_tenon'',
                       ''create_finger_joint''} then 180
      else if name = ''eval_ruby'' then 300
      else 120)"

text \<open>
  \<open>requests tr\<close> lists the envelopes handed to \<^verbatim>\<open>sendall\<close> in the trace \<open>tr\<close>, one per
  attempt. A transport failure is a \<^verbatim>\<open>socket.timeout\<close> or a \<^verbatim>\<open>ConnectionError\<close>
  (connection reset, broken pipe).
\<close>

fun requests :: "action list \<Rightarrow> json list" where
  "requests [] = []"
| "requests (Sendall q r # as) = q # requests as"
| "requests (a # as) = requests as"

fun is_transport :: "exc \<Rightarrow> bool" where
  "is_transport SocketTimeout = True"
| "is_transport (ConnectionError m) = True"
| "is_transport e = False"

text \<open>
  \<open>framing_error\<close> collects the three exceptions of lines 158 to 176;
  \<open>communication_error e\<close> is the exception of line 338; \<open>peer_message L err\<close> is the
  message of a peer error, as line 258 takes it from the \<^verbatim>\<open>"error"\<close> object.
\<close>

definition framing_error :: "exc \<Rightarrow> bool" where
  "framing_error e =
     (e = Exception ''Incomplete JSON response received''
      \<or> e = Exception ''Invalid response encoding''
      \<or> e = Exception ''No data received'')"

definition communication_error :: "exc \<Rightarrow> exc" where
  "communication_error e = Exception (''Communication error with Sketchup: '' @ str_exc e)"

definition peer_message :: "pylib \<Rightarrow> dict \<Rightarrow> string" where
  "peer_message L err =
     (case map_of err ''message'' of
        Some v \<Rightarrow> py_str L v
      | None \<Rightarrow> ''Unknown error from Sketchup'')"

subsection \<open>Messages and their arrival\<close>

text \<open>
  A running notification is a JSON object without \<^verbatim>\<open>"error"\<close>, with
  \<^verbatim>\<open>"method": "operation/status"\<close> and with \<^verbatim>\<open>"status": "running"\<close> in its
  \<^verbatim>\<open>"params"\<close>. A final result for \<open>cid\<close> is an object without \<^verbatim>\<open>"error"\<close>
  that is no status notification, has the \<^verbatim>\<open>"result"\<close> \<open>r\<close> and an \<^verbatim>\<open>"id"\<close> equal
  to \<open>cid\<close>. \<open>waits s\<close>: the step \<open>s\<close> leaves the receive loop waiting.
\<close>

definition running_notification :: "json \<Rightarrow> bool" where
  "running_notification response =
     (case response of
        JObj kvs \<Rightarrow>
          map_of kvs ''error'' = None
          \<and> map_of kvs ''method'' = Some (JStr ''operation/status'')
          \<and> (case map_of kvs ''params'' of
                Some (JObj ps) \<Rightarrow> map_of ps ''status'' = Some (JStr ''running'')
              | _ \<Rightarrow> False)
      | _ \<Rightarrow> False)"

definition final_result :: "json \<Rightarrow> json \<Rightarrow> json \<Rightarrow> bool" where
  "final_result cid r response =
     (case response of
        JObj kvs \<Rightarrow>
          map_of kvs ''error'' = None
          \<and> map_of kvs ''method'' \<noteq> Some (JStr ''operation/status'')
          \<and> map_of kvs ''result'' = Some r
          \<and> py_eq (case map_of kvs ''id'' of Some i \<Rightarrow> i | None \<Rightarrow> JNull) cid
      | _ \<Rightarrow> False)"

definition waits :: "step \<Rightarrow> bool" where
  "waits s = (case s of Wait operation_id \<Rightarrow> True | _ \<Rightarrow> False)"

text \<open>
  \<open>parses L data\<close>: the bytes decode and parse as one JSON document. \<open>delivery ds cs\<close>
  is the receive script in which the chunks \<open>cs\<close> arrive one per \<^verbatim>\<open>recv\<close>, the
  \<open>k\<close>-th after the duration \<open>ds ! k\<close>.
\<close>

definition parses :: "pylib \<Rightarrow> bytes \<Rightarrow> bool" where
  "parses L data = (case loads L data of Parsed v \<Rightarrow> True | _ \<Rightarrow> False)"

definition delivery :: "rat list \<Rightarrow> bytes list \<Rightarrow> (rat \<times> recv_result) list" where
  "delivery ds cs = zip ds (map Chunk cs)"

text \<open>
  A message \<open>m\<close> pairs the durations of successive \<^verbatim>\<open>recv\<close> calls with the chunks
  they return. It arrives by itself, \<open>arrives L m\<close>, when its bytes come in chunks of
  their own: there are as many durations as chunks and at least one chunk, no duration is
  negative and no chunk empty, no proper initial run of the chunks parses by itself while
  all of them together do, and the last \<^verbatim>\<open>recv\<close> is called before the ceiling of 120
  seconds. \<open>arrival m\<close> is the stretch of the receive script that delivers it. A running
  message is a running notification that arrives by itself.
\<close>

definition arrives :: "pylib \<Rightarrow> rat list \<times> bytes list \<Rightarrow> bool" where
  "arrives L m =
     (length (fst m) = length (snd m) \<and> snd m \<noteq> []
      \<and> list_all (\<lambda>d. 0 \<le> d) (fst m) \<and> list_all (\<lambda>c. c \<noteq> []) (snd m)
      \<and> list_all (\<lambda>k. \<not> parses L (concat (take k (snd m)))) [1..<length (snd m)]
      \<and> parses L (concat (snd m))
      \<and> sum_list (butlast (fst m)) < max_response_time)"

definition arrival :: "rat list \<times> bytes list \<Rightarrow> (rat \<times> recv_result) list" where
  "arrival m = delivery (fst m) (snd m)"

definition running_message :: "pylib \<Rightarrow> rat list \<times> bytes list \<Rightarrow> bool" where
  "running_message L m =
     (arrives L m
      \<and> (case loads L (concat (snd m)) of
            Parsed response \<Rightarrow> running_notification response
          | _ \<Rightarrow> False))"

subsection \<open>Tools\<close>

text \<open>
  The normalisation of the dimensions in the words of the claim: no dimensions give
  \<open>[1, 1, 1]\<close>; two dimensions of a cylinder, diameter and height, give diameter,
  diameter, height; any other list of fewer than three elements is filled up with its
  last element, or with 1.0 when it is empty; and each element is raised to at least 0.1.
\<close>

definition spec_dimensions :: "rat list option \<Rightarrow> string \<Rightarrow> rat list" where
  "spec_dimensions dimensions type =
     map (max 0.1)
       (case dimensions of
          None \<Rightarrow> [1, 1, 1]
        | Some [] \<Rightarrow> [1.0, 1.0, 1.0]
        | Some [a] \<Rightarrow> [a, a, a]
        | Some [d, h] \<Rightarrow> if type = ''cylinder'' then [d, d, h] else [d, h, h]
        | Some ds \<Rightarrow> ds)"

text \<open>
  \<open>has_message out\<close>: the tool returned the serialisation of a JSON object with a string
  under \<^verbatim>\<open>"message"\<close>. \<open>message_report out\<close>: such an object that also has a
  \<^verbatim>\<open>"details"\<close> member and whose \<^verbatim>\<open>"error"\<close> member is either absent or
  \<^verbatim>\<open>true\<close> next to \<^verbatim>\<open>"details": null\<close>. \<open>has_success out\<close>: the serialisation
  of a JSON object with a boolean under \<^verbatim>\<open>"success"\<close>. \<open>plain_output error_text r\<close>
  is what a tool of the plain kind makes of the outcome \<open>r\<close> of its call, and
  \<open>plain_kind error_text out\<close> says that \<open>out\<close> is of that kind: a serialised JSON value,
  or a plain sentence that starts with the error text.
\<close>

definition has_message :: "tool_output \<Rightarrow> bool" where
  "has_message out =
     (case out of
        Json (JObj kvs) \<Rightarrow> (case map_of kvs ''message'' of Some (JStr m) \<Rightarrow> True | _ \<Rightarrow> False)
      | _ \<Rightarrow> False)"

definition message_report :: "tool_output \<Rightarrow> bool" where
  "message_report out =
     (has_message out
      \<and> (case out of
            Json (JObj kvs) \<Rightarrow>
              map_of kvs ''details'' \<noteq> None
              \<and> (map_of kvs ''error'' = None
                 \<or> map_of kvs ''error'' = Some (JBool True) \<and> map_of kvs ''details'' = Some JNull)
          | _ \<Rightarrow> False))"

definition has_success :: "tool_output \<Rightarrow> bool" where
  "has_success out =
     (case out of
        Json (JObj kvs) \<Rightarrow> (case map_of kvs ''success'' of Some (JBool b) \<Rightarrow> True | _ \<Rightarrow> False)
      | _ \<Rightarrow> False)"

definition plain_output :: "string \<Rightarrow> exc + json \<Rightarrow> tool_output" where
  "plain_output error_text r =
     (case r of Inl e \<Rightarrow> Text (error_text @ str_exc e) | Inr result \<Rightarrow> Json result)"

definition plain_kind :: "string \<Rightarrow> tool_output \<Rightarrow> bool" where
  "plain_kind error_text out =
     (case out of Json result \<Rightarrow> True | Text sentence \<Rightarrow> prefix error_text sentence)"

subsection \<open>Example worlds\<close>

text \<open>
  \<open>connected\<close> is a process that holds a live connection, with empty scripts; the
  examples fill the scripts in. \<open>offline\<close> is a process without a connection whose peer
  is not listening. \<open>call_params\<close> is the \<^verbatim>\<open>params\<close> of a \<^verbatim>\<open>get_selection\<close>
  call and \<open>request1\<close> its envelope with the correlation id 1. \<open>reset\<close> and
  \<open>broken\<close> are two ways for \<^verbatim>\<open>sendall\<close> to fail. \<open>stalled\<close> is a peer that
  sends the start of a document and then nothing for two minutes; \<open>peer_closed\<close> is an
  error response whose message speaks of a closed connection. \<open>cutting\<close> is a running
  notification that comes in two chunks, \<open>still_running\<close> one that comes in a single
  chunk, and \<open>success1\<close> the final result for the correlation id 1.
\<close>

definition connected :: world where
  "connected = \<lparr>clock = 0, sock = True, global_conn = True, recv_script = [], send_script = [],
                  connect_script = [], probe_script = [], trace = []\<rparr>"

definition offline :: world where
  "offline = connected\<lparr>sock := False, global_conn := False\<rparr>"

definition call_params :: dict where
  "call_params = [(''name'', JStr ''get_selection''), (''arguments'', JObj [])]"

definition request1 :: json where
  "request1 = build_request ''tools/call'' (Some call_params) (JInt 1)"

definition reset :: send_result where
  "reset = SendConnError ''[Errno 104] Connection reset by peer''"

definition broken :: send_result where
  "broken = SendConnError ''[Errno 32] Broken pipe''"

definition stalled :: "(rat \<times> recv_result) list" where
  "stalled = [(1, Chunk ''{\"result\"''), (30, RecvTimeout), (30, RecvTimeout),
              (30, RecvTimeout), (30, RecvTimeout)]"

definition peer_closed :: bytes where
  "peer_closed = ''{\"error\": {\"message\": \"Connection closed by user\"}, \"id\": 1}''"

definition cutting :: "rat list \<times> bytes list" where
  "cutting =
     ([2, 3],
      [''{\"method\": \"operation/status\", \"params\": {\"operation_id\": \"op-1\", '',
       ''\"status\": \"running\", \"message\": \"cutting\"}}''])"

definition still_running :: "rat list \<times> bytes list" where
  "still_running =
     ([5], [''{\"method\": \"operation/status\", \"params\": {\"status\": \"running\"}}''])"

definition success1 :: "rat list \<times> bytes list" where
  "success1 = ([1], [''{\"result\": {\"success\": true}, \"id\": 1}''])"

section \<open>Verified properties\<close>

subsection \<open>Operation timeouts\<close>

lemma py_eq_JStr [simp]: "py_eq x (JStr s) = (x = JStr s)"
  by (cases x) auto

text \<open>
  Claim C4, as the code has it. The table is consulted only when \<^verbatim>\<open>method\<close> is
  \<^verbatim>\<open>"tools/call"\<close> and \<^verbatim>\<open>params\<close> is a non-empty dict, and then under the key
  \<^verbatim>\<open>params["name"]\<close>: the timeout is the table's entry when that name is a string,
  120 seconds otherwise. Every other call, a direct command among them, whose operation
  name is the \<^verbatim>\<open>method\<close> argument, runs with 120 seconds whatever its name.
\<close>

theorem operation_timeout_table:
  "operation_timeout method params =
     (if method = ''tools/call'' \<and> params_true params then
        (case params_get params ''name'' of JStr name \<Rightarrow> timeout_table name | _ \<Rightarrow> 120)
      else 120)"
  by (auto simp: operation_timeout_def timeout_table_def Let_def split: json.splits)

theorem operation_timeout_table_witness:
  "operation_timeout ''tools/call''
     (Some [(''name'', JStr ''eval_ruby''), (''arguments'', JObj [(''code'', JStr ''1+1'')])]) = 300
   \<and> operation_timeout ''tools/call''
     (Some [(''name'', JStr ''create_component''), (''arguments'', JObj [])]) = 60
   \<and> operation_timeout ''tools/call''
     (Some [(''name'', JStr ''create_dovetail''), (''arguments'', JObj [])]) = 180
   \<and> operation_timeout ''tools/call''
     (Some [(''name'', JStr ''get_selection''), (''arguments'', JObj [])]) = 120"
  by (simp add: operation_timeout_table params_true_def params_get_def timeout_table_def)

text \<open>
  Claim C4 as stated fails for a direct command: \<^verbatim>\<open>send_command("eval_ruby",
  {"code": "1+1"}, 7)\<close> sends the envelope of the operation \<^verbatim>\<open>eval_ruby\<close>, and its
  timeout is 120 seconds, not the 300 of the table.
\<close>

theorem direct_command_timeout_counterexample:
  "build_request ''eval_ruby'' (Some [(''code'', JStr ''1+1'')]) (JInt 7) =
     JObj [(''jsonrpc'', JStr ''2.0''), (''method'', JStr ''tools/call''),
           (''params'', JObj [(''name'', JStr ''eval_ruby''),
                              (''arguments'', JObj [(''code'', JStr ''1+1'')])]),
           (''id'', JInt 7)]
   \<and> operation_timeout ''eval_ruby'' (Some [(''code'', JStr ''1+1'')]) = 120
   \<and> operation_timeout ''eval_ruby'' (Some [(''code'', JStr ''1+1'')]) \<noteq> 300"
  by (simp add: build_request_def operation_timeout_def params_true_def)

subsection \<open>One framed response in the receive loop\<close>

lemma py_get_JObj [simp]:
  "py_get (JObj kvs) k d = Inr (case map_of kvs k of Some v \<Rightarrow> v | None \<Rightarrow> d)"
  by (simp add: py_get_def)

lemma py_in_JObj [simp]: "py_in k (JObj kvs) = Inr (map_of kvs k \<noteq> None)"
  by (simp add: py_in_def)

lemma py_get_fail: "py_get x k d = Inl e \<Longrightarrow> \<exists>m. e = Exception m"
  by (auto simp: py_get_def attribute_error_def split: json.splits)

lemma py_in_fail: "py_in k x = Inl e \<Longrightarrow> \<exists>m. e = Exception m"
  by (auto simp: py_in_def split: json.splits)

lemma py_item_fail: "py_item x k = Inl e \<Longrightarrow> \<exists>m. e = Exception m"
  by (auto simp: py_item_def split: json.splits option.splits)

lemma handle_status_fail: "handle_status L response = Fail e \<Longrightarrow> \<exists>m. e = Exception m"
  by (auto simp: handle_status_def split: sum.splits if_splits dest: py_get_fail)

lemma handle_response_fail:
  "handle_response L request_id response operation_id = Fail e \<Longrightarrow> \<exists>m. e = Exception m"
  by (auto simp: handle_response_def split: sum.splits if_splits bool.splits
           dest: py_get_fail py_in_fail py_item_fail handle_status_fail)

lemma receive_frame:
  assumes "recv_script w = (d, Chunk data) # rest" and "data \<noteq> []"
    and "loads L data = Parsed v"
  shows "receive_full_response L w = (Inr data, w\<lparr>clock := clock w + d, recv_script := rest\<rparr>)"
  using assms by (simp add: receive_full_response_def max_response_time_def)

lemma wait_response_frame:
  assumes "clock w - start < tmo"
    and "recv_script w = (d, Chunk data) # rest" and "data \<noteq> []"
    and "loads L data = Parsed response"
  shows "wait_response L method params request_id tmo start operation_id w =
           (case handle_response L request_id response operation_id of
              Done v \<Rightarrow> (Inr v, w\<lparr>clock := clock w + d, recv_script := rest\<rparr>)
            | Fail e \<Rightarrow> (Inl e, w\<lparr>clock := clock w + d, recv_script := rest\<rparr>)
            | Wait operation_id' \<Rightarrow>
                wait_response L method params request_id tmo start operation_id'
                  (w\<lparr>clock := clock w + d, recv_script := rest\<rparr>))"
proof -
  have r: "receive_full_response L w =
             (Inr data, w\<lparr>clock := clock w + d, recv_script := rest\<rparr>)"
    using assms(2-4) by (rule receive_frame)
  show ?thesis
    using assms(1,4) r
    by (subst wait_response.simps)
       (auto simp: one_round_def inner_except_def split: step.splits
             dest: handle_response_fail)
qed

subsection \<open>Results and correlation ids\<close>

text \<open>
  Claim C1, as the code has it. Take a response that is a JSON object with no
  \<^verbatim>\<open>"error"\<close> member and whose \<^verbatim>\<open>"method"\<close> is not \<^verbatim>\<open>"operation/status"\<close>,
  arriving as one frame while the operation timeout has not run out. It ends the call,
  with its \<^verbatim>\<open>"result"\<close> as the value, exactly when it has a \<^verbatim>\<open>"result"\<close> member
  and its \<^verbatim>\<open>"id"\<close> (\<^verbatim>\<open>None\<close> when absent) equals the correlation id under Python's
  \<^verbatim>\<open>==\<close>. Otherwise it is ignored: \<^verbatim>\<open>operation_id\<close> is unchanged and the receive
  loop goes on with the rest of the stream.
\<close>

theorem result_needs_matching_id:
  assumes "map_of response ''error'' = None"
    and "map_of response ''method'' \<noteq> Some (JStr ''operation/status'')"
    and "clock w - start < tmo"
    and "recv_script w = (d, Chunk data) # rest" and "data \<noteq> []"
    and "loads L data = Parsed (JObj response)"
  shows "handle_response L cid (JObj response) operation_id =
           (case map_of response ''result'' of
              None \<Rightarrow> Wait operation_id
            | Some r \<Rightarrow>
                if py_eq (case map_of response ''id'' of Some i \<Rightarrow> i | None \<Rightarrow> JNull) cid
                then Done r else Wait operation_id)
       \<and> wait_response L method params cid tmo start operation_id w =
           (case map_of response ''result'' of
              None \<Rightarrow>
                wait_response L method params cid tmo start operation_id
                  (w\<lparr>clock := clock w + d, recv_script := rest\<rparr>)
            | Some r \<Rightarrow>
                if py_eq (case map_of response ''id'' of Some i \<Rightarrow> i | None \<Rightarrow> JNull) cid
                then (Inr r, w\<lparr>clock := clock w + d, recv_script := rest\<rparr>)
                else wait_response L method params cid tmo start operation_id
                       (w\<lparr>clock := clock w + d, recv_script := rest\<rparr>))"
proof -
  have h: "handle_response L cid (JObj response) operation_id =
           (case map_of response ''result'' of
              None \<Rightarrow> Wait operation_id
            | Some r \<Rightarrow>
                if py_eq (case map_of response ''id'' of Some i \<Rightarrow> i | None \<Rightarrow> JNull) cid
                then Done r else Wait operation_id)"
    using assms(1,2) by (auto simp: handle_response_def split: option.splits)
  show ?thesis
    using h wait_response_frame [OF assms(3-6), of "method" params cid operation_id]
    by (auto split: option.splits)
qed


theorem result_needs_matching_id_witness:
  "map_of [(''result'', JObj [(''success'', JBool False)]), (''id'', JInt 2)] ''error'' = None
   \<and> loads cpython ''{\"result\": {\"success\": false}, \"id\": 2}'' =
       Parsed (JObj [(''result'', JObj [(''success'', JBool False)]), (''id'', JInt 2)])
   \<and> handle_response cpython (JInt 1)
         (JObj [(''result'', JObj [(''success'', JBool False)]), (''id'', JInt 2)]) JNull
       = Wait JNull
   \<and> wait_response cpython ''tools/call'' (Some call_params) (JInt 1) 120 0 JNull
         (connected\<lparr>recv_script :=
            [(1, Chunk ''{\"result\": {\"success\": false}, \"id\": 2}''),
             (1, Chunk ''{\"result\": {\"success\": true}, \"id\": 1}'')]\<rparr>)
       = (Inr (JObj [(''success'', JBool True)]), connected\<lparr>clock := 2\<rparr>)"
proof -
  let ?response = "[(''result'', JObj [(''success'', JBool False)]), (''id'', JInt 2)]"
  let ?data = "''{\"result\": {\"success\": false}, \"id\": 2}''"
  let ?rest = "[(1::rat, Chunk ''{\"result\": {\"success\": true}, \"id\": 1}'')]"
  let ?w = "connected\<lparr>recv_script := (1, Chunk ?data) # ?rest\<rparr>"
  have a1: "map_of ?response ''error'' = None" by simp
  have a2: "map_of ?response ''method'' \<noteq> Some (JStr ''operation/status'')" by simp
  have a3: "clock ?w - 0 < 120" by (simp add: connected_def)
  have a4: "recv_script ?w = (1, Chunk ?data) # ?rest" by simp
  have a5: "?data \<noteq> []" by simp
  have a6: "loads cpython ?data = Parsed (JObj ?response)" by code_simp
  have next_round:
    "wait_response cpython ''tools/call'' (Some call_params) (JInt 1) 120 0 JNull
       (?w\<lparr>clock := clock ?w + 1, recv_script := ?rest\<rparr>)
     = (Inr (JObj [(''success'', JBool True)]), connected\<lparr>clock := 2\<rparr>)"
    by code_simp
  from result_needs_matching_id [OF a1 a2 a3 a4 a5 a6,
      of "JInt 1" JNull "''tools/call''" "Some call_params"]
  show ?thesis using a6 next_round by simp
qed

text \<open>
  Claim C1 as stated fails twice over. A response whose id differs from the correlation
  id is not ignored when it carries an \<^verbatim>\<open>"error"\<close> member: the call ends at once, and
  the matching result that follows is never read. And a response that has a
  \<^verbatim>\<open>"result"\<close> member and a foreign id ends the call with success when it is at the
  same time a status notification with status \<^verbatim>\<open>"completed"\<close>.
\<close>

theorem foreign_id_ends_call_counterexample:
  "send_command cpython ''tools/call'' (Some call_params) (JInt 1)
     (connected\<lparr>probe_script := [True], send_script := [SendOk],
        recv_script := [(1, Chunk ''{\"error\": {\"message\": \"boom\"}, \"id\": 2}''),
                        (1, Chunk ''{\"result\": {\"success\": true}, \"id\": 1}'')]\<rparr>) =
   (Inl (Exception ''Communication error with Sketchup: boom''),
    connected\<lparr>clock := 1, sock := False,
        recv_script := [(1, Chunk ''{\"result\": {\"success\": true}, \"id\": 1}'')],
        trace := [Sendall (build_request ''tools/call'' (Some call_params) (JInt 1)) SendOk]\<rparr>)
   \<and> handle_response cpython (JInt 1)
         (JObj [(''method'', JStr ''operation/status''),
                (''params'', JObj [(''status'', JStr ''completed''),
                                   (''result'', JObj [(''success'', JBool True)])]),
                (''result'', JObj [(''success'', JBool True)]), (''id'', JInt 2)]) JNull
       = Done (JObj [(''success'', JBool True)])"
  by code_simp

subsection \<open>Framing and chunk boundaries\<close>

lemma recv_chunks_document:
  assumes "length ds = length cs" and "cs \<noteq> []" and "list_all (\<lambda>c. c \<noteq> []) cs"
    and "\<forall>k. 0 < k \<and> k < length cs \<longrightarrow> \<not> parses L (concat (acc @ take k cs))"
    and "parses L (concat (acc @ cs))"
    and "\<forall>k < length cs. t + sum_list (take k ds) - start < max_response_time"
  shows "recv_chunks L start acc t (delivery ds cs @ rest) =
           (Inr (concat (acc @ cs)), t + sum_list ds, rest)"
  using assms
proof (induction cs arbitrary: ds acc t)
  case Nil
  then show ?case by simp
next
  case (Cons c cs)
  from Cons(2) obtain d ds' where ds: "ds = d # ds'" "length ds' = length cs"
    by (cases ds) auto
  from Cons(7) have now: "t - start < max_response_time" by (auto dest: spec [where x = 0])
  from Cons(4) have c: "c \<noteq> []" and cs_ok: "list_all (\<lambda>c. c \<noteq> []) cs" by simp_all
  show ?case
  proof (cases "cs = []")
    case True
    with Cons(6) ds now c show ?thesis
      by (auto simp: delivery_def parses_def split: loads_result.splits)
  next
    case False
    from Cons(5) False have np: "\<not> parses L (concat (acc @ [c]))"
      by (auto dest: spec [where x = 1])
    have p1: "\<forall>k. 0 < k \<and> k < length cs \<longrightarrow> \<not> parses L (concat ((acc @ [c]) @ take k cs))"
    proof (intro allI impI)
      fix k assume "0 < k \<and> k < length cs"
      with Cons(5) have "\<not> parses L (concat (acc @ take (Suc k) (c # cs)))"
        by (auto dest!: spec [where x = "Suc k"])
      then show "\<not> parses L (concat ((acc @ [c]) @ take k cs))" by simp
    qed
    have p2: "parses L (concat ((acc @ [c]) @ cs))" using Cons(6) by simp
    have p3: "\<forall>k < length cs. (t + d) + sum_list (take k ds') - start < max_response_time"
    proof (intro allI impI)
      fix k assume "k < length cs"
      with Cons(7) ds have "t + sum_list (take (Suc k) (d # ds')) - start < max_response_time"
        by (auto dest!: spec [where x = "Suc k"])
      then show "(t + d) + sum_list (take k ds') - start < max_response_time"
        by (simp add: add.assoc)
    qed
    from Cons.IH [OF ds(2) False cs_ok p1 p2 p3]
    have "recv_chunks L start (acc @ [c]) (t + d) (delivery ds' cs @ rest) =
            (Inr (concat ((acc @ [c]) @ cs)), t + d + sum_list ds', rest)" .
    with ds now c np show ?thesis
      by (auto simp: delivery_def parses_def add.assoc split: loads_result.splits)
  qed
qed

text \<open>
  Claim C8, as the code has it. A document is split into non-empty chunks so that no
  proper initial run of the chunks, joined, parses by itself, and each chunk is asked
  for before the ceiling of 120 seconds is reached. Then the routine returns exactly the
  bytes of the document, whatever the split, and leaves the rest of the stream unread.
\<close>

theorem chunking_invariance:
  assumes "concat cs = doc" and "parses L doc"
    and "cs \<noteq> []" and "list_all (\<lambda>c. c \<noteq> []) cs"
    and "\<forall>k. 0 < k \<and> k < length cs \<longrightarrow> \<not> parses L (concat (take k cs))"
    and "length ds = length cs"
    and "\<forall>k < length cs. sum_list (take k ds) < max_response_time"
    and "recv_script w = delivery ds cs @ rest"
  shows "receive_full_response L w =
           (Inr doc, w\<lparr>clock := clock w + sum_list ds, recv_script := rest\<rparr>)"
proof -
  have "recv_chunks L (clock w) [] (clock w) (delivery ds cs @ rest) =
          (Inr (concat ([] @ cs)), clock w + sum_list ds, rest)"
    using assms(1-7) by (intro recv_chunks_document) simp_all
  with assms(1,8) show ?thesis by (simp add: receive_full_response_def)
qed

theorem chunking_invariance_witness:
  "parses cpython ''{\"result\": {\"n\": 12}, \"id\": 1}''
   \<and> receive_full_response cpython
         (connected\<lparr>recv_script := delivery [1, 2, 3] [''{\"result\": {\"n\": 1'', ''2}, \"id'', ''\": 1}'']\<rparr>)
       = (Inr ''{\"result\": {\"n\": 12}, \"id\": 1}'', connected\<lparr>clock := 6\<rparr>)"
proof -
  let ?cs = "[''{\"result\": {\"n\": 1'', ''2}, \"id'', ''\": 1}'']"
  let ?doc = "''{\"result\": {\"n\": 12}, \"id\": 1}''"
  let ?ds = "[1, 2, 3 :: rat]"
  let ?w = "connected\<lparr>recv_script := delivery ?ds ?cs\<rparr>"
  have a1: "concat ?cs = ?doc" by simp
  have a2: "parses cpython ?doc" by code_simp
  have a3: "?cs \<noteq> []" by simp
  have a4: "list_all (\<lambda>c. c \<noteq> []) ?cs" by simp
  have b1: "\<not> parses cpython (concat (take 1 ?cs))" by code_simp
  have b2: "\<not> parses cpython (concat (take 2 ?cs))" by code_simp
  have a5: "\<forall>k. 0 < k \<and> k < length ?cs \<longrightarrow> \<not> parses cpython (concat (take k ?cs))"
  proof (intro allI impI)
    fix k :: nat assume "0 < k \<and> k < length ?cs"
    then have "k = 1 \<or> k = 2" by auto
    with b1 b2 show "\<not> parses cpython (concat (take k ?cs))" by auto
  qed
  have a6: "length ?ds = length ?cs" by simp
  have a7: "\<forall>k < length ?cs. sum_list (take k ?ds) < max_response_time"
  proof (intro allI impI)
    fix k :: nat assume "k < length ?cs"
    then have "k = 0 \<or> k = 1 \<or> k = 2" by auto
    then show "sum_list (take k ?ds) < max_response_time"
      by (auto simp: max_response_time_def)
  qed
  have a8: "recv_script ?w = delivery ?ds ?cs @ []" by simp
  from chunking_invariance [OF a1 a2 a3 a4 a5 a6 a7 a8] a2
  show ?thesis by (simp add: connected_def)
qed

text \<open>
  Claim C8 as stated fails: the routine returns as soon as the bytes received so far
  parse. The document \<^verbatim>\<open>12\<close> delivered whole is returned whole, but delivered as
  \<^verbatim>\<open>1\<close> and \<^verbatim>\<open>2\<close> it is returned as \<^verbatim>\<open>1\<close>, another JSON value. A
  newline-terminated object whose newline comes in a chunk of its own is returned without
  the newline.
\<close>

theorem chunk_boundary_counterexample:
  "loads cpython ''12'' = Parsed (JInt 12)
   \<and> receive_full_response cpython (connected\<lparr>recv_script := delivery [1] [''12'']\<rparr>)
       = (Inr ''12'', connected\<lparr>clock := 1\<rparr>)
   \<and> receive_full_response cpython (connected\<lparr>recv_script := delivery [1, 1] [''1'', ''2'']\<rparr>)
       = (Inr ''1'', connected\<lparr>clock := 1, recv_script := [(1, Chunk ''2'')]\<rparr>)
   \<and> loads cpython ''1'' = Parsed (JInt 1)
   \<and> loads cpython (''{\"id\": 1}'' @ [CHR 0x0A]) = Parsed (JObj [(''id'', JInt 1)])
   \<and> receive_full_response cpython
         (connected\<lparr>recv_script := delivery [1, 1] [''{\"id\": 1}'', [CHR 0x0A]]\<rparr>)
       = (Inr ''{\"id\": 1}'', connected\<lparr>clock := 1, recv_script := [(1, Chunk [CHR 0x0A])]\<rparr>)"
  by code_simp


subsection \<open>Interim status notifications\<close>

lemma handle_running:
  assumes "running_notification response"
  shows "\<exists>operation_id'. handle_response L cid response operation_id = Wait operation_id'"
proof (cases response)
  case (JObj kvs)
  with assms have e: "map_of kvs ''error'' = None"
    and m: "map_of kvs ''method'' = Some (JStr ''operation/status'')"
    and p: "case map_of kvs ''params'' of
              Some (JObj ps) \<Rightarrow> map_of ps ''status'' = Some (JStr ''running'')
            | _ \<Rightarrow> False"
    by (simp_all add: running_notification_def)
  from p obtain x where x: "map_of kvs ''params'' = Some x"
    by (cases "map_of kvs ''params''") auto
  with p obtain ps where ps: "x = JObj ps" "map_of ps ''status'' = Some (JStr ''running'')"
    by (cases x) auto
  from JObj e m x ps show ?thesis
    by (simp add: handle_response_def handle_status_def)
qed (use assms in \<open>simp_all add: running_notification_def\<close>)


lemma handle_final:
  "final_result cid r response \<Longrightarrow> handle_response L cid response operation_id = Done r"
  by (auto simp: final_result_def handle_response_def split: json.splits option.splits)


lemma connect_live:
  "sock w \<Longrightarrow> probe_script w = True # ps \<Longrightarrow> connect w = (True, w\<lparr>probe_script := ps\<rparr>)"
  by (simp add: connect_def)


lemma sum_take_le:
  "list_all (\<lambda>d. 0 \<le> d) ds \<Longrightarrow> sum_list (take k ds) \<le> sum_list (ds :: rat list)"
proof (induction ds arbitrary: k)
  case Nil
  then show ?case by simp
next
  case (Cons d ds)
  then show ?case by (cases k) (auto intro: add_nonneg_nonneg sum_list_nonneg simp: list_all_iff)
qed

lemma sum_take_butlast:
  assumes "list_all (\<lambda>d. 0 \<le> d) ds" and "k < length ds"
  shows "sum_list (take k ds) \<le> sum_list (butlast (ds :: rat list))"
proof -
  from assms(2) have "take k ds = take k (butlast ds)"
    by (simp add: butlast_conv_take min_def)
  moreover from assms(1) have "list_all (\<lambda>d. 0 \<le> d) (butlast ds)"
    by (auto simp: list_all_iff dest: in_set_butlastD)
  ultimately show ?thesis using sum_take_le [of "butlast ds" k] by simp
qed

lemma arrives_duration: "arrives L m \<Longrightarrow> 0 \<le> sum_list (fst m)"
  by (auto simp: arrives_def list_all_iff intro: sum_list_nonneg)

lemma receive_message:
  assumes "arrives L m" and "recv_script w = arrival m @ rest"
  shows "receive_full_response L w =
           (Inr (concat (snd m)), w\<lparr>clock := clock w + sum_list (fst m), recv_script := rest\<rparr>)"
proof -
  obtain ds cs where m: "m = (ds, cs)" by (cases m)
  from assms(1) m have len: "length ds = length cs" and ne: "cs \<noteq> []"
    and chunks: "list_all (\<lambda>c. c \<noteq> []) cs" and dur: "list_all (\<lambda>d. 0 \<le> d) ds"
    and np: "list_all (\<lambda>k. \<not> parses L (concat (take k cs))) [1..<length cs]"
    and p: "parses L (concat cs)" and ceiling: "sum_list (butlast ds) < max_response_time"
    by (simp_all add: arrives_def)
  have a4: "\<forall>k. 0 < k \<and> k < length cs \<longrightarrow> \<not> parses L (concat ([] @ take k cs))"
    using np by (auto simp: list_all_iff)
  have a5: "parses L (concat ([] @ cs))" using p by simp
  have a6: "\<forall>k < length cs. clock w + sum_list (take k ds) - clock w < max_response_time"
  proof (intro allI impI)
    fix k assume "k < length cs"
    with len sum_take_butlast [OF dur, of k] ceiling
    show "clock w + sum_list (take k ds) - clock w < max_response_time" by simp
  qed
  from recv_chunks_document [OF len ne chunks a4 a5 a6, of rest]
  show ?thesis using assms(2) m by (simp add: receive_full_response_def arrival_def)
qed

lemma wait_response_message:
  assumes "clock w - start < tmo"
    and "arrives L m" and "recv_script w = arrival m @ rest"
    and "loads L (concat (snd m)) = Parsed response"
  shows "wait_response L method params request_id tmo start operation_id w =
           (case handle_response L request_id response operation_id of
              Done v \<Rightarrow> (Inr v, w\<lparr>clock := clock w + sum_list (fst m), recv_script := rest\<rparr>)
            | Fail e \<Rightarrow> (Inl e, w\<lparr>clock := clock w + sum_list (fst m), recv_script := rest\<rparr>)
            | Wait operation_id' \<Rightarrow>
                wait_response L method params request_id tmo start operation_id'
                  (w\<lparr>clock := clock w + sum_list (fst m), recv_script := rest\<rparr>))"
proof -
  have r: "receive_full_response L w =
             (Inr (concat (snd m)), w\<lparr>clock := clock w + sum_list (fst m), recv_script := rest\<rparr>)"
    using assms(2,3) by (rule receive_message)
  show ?thesis
    using assms(1,4) r
    by (subst wait_response.simps)
       (auto simp: one_round_def inner_except_def split: step.splits
             dest: handle_response_fail)
qed

lemma wait_response_messages:
  assumes "list_all (running_message L) ns"
    and "arrives L fin" and "loads L (concat (snd fin)) = Parsed response"
    and "final_result cid r response"
    and "clock w - start + sum_list (map (\<lambda>m. sum_list (fst m)) ns) < tmo"
    and "recv_script w = concat (map arrival ns) @ arrival fin @ rest"
  shows "wait_response L method params cid tmo start operation_id w =
           (Inr r, w\<lparr>clock := clock w + sum_list (map (\<lambda>m. sum_list (fst m)) ns)
                               + sum_list (fst fin),
                    recv_script := rest\<rparr>)"
  using assms
proof (induction ns arbitrary: w operation_id)
  case Nil
  then have "clock w - start < tmo" and "recv_script w = arrival fin @ rest"
    by simp_all
  from wait_response_message [OF this(1) Nil(2) this(2) Nil(3)] handle_final [OF Nil(4)]
  show ?case by simp
next
  case (Cons m ns)
  from Cons(2) have rest_ok: "list_all (running_message L) ns" by simp
  from Cons(2) have m: "arrives L m" by (simp add: running_message_def)
  from Cons(2) obtain resp where resp: "loads L (concat (snd m)) = Parsed resp"
      "running_notification resp"
    by (auto simp: running_message_def split: loads_result.splits)
  have others: "0 \<le> sum_list (map (\<lambda>m. sum_list (fst m)) ns)"
    using rest_ok by (auto simp: list_all_iff running_message_def intro!: sum_list_nonneg arrives_duration)
  from others arrives_duration [OF m] Cons(6)
  have t: "clock w - start < tmo" by simp
  have s: "recv_script w = arrival m @ (concat (map arrival ns) @ arrival fin @ rest)"
    using Cons(7) by simp
  obtain op' where op': "handle_response L cid resp operation_id = Wait op'"
    using handle_running [OF resp(2)] by blast
  let ?w1 = "w\<lparr>clock := clock w + sum_list (fst m),
                recv_script := concat (map arrival ns) @ arrival fin @ rest\<rparr>"
  have step: "wait_response L method params cid tmo start operation_id w =
                wait_response L method params cid tmo start op' ?w1"
    using wait_response_message [OF t m s resp(1)] op' by simp
  have "wait_response L method params cid tmo start op' ?w1 =
          (Inr r, ?w1\<lparr>clock := clock ?w1 + sum_list (map (\<lambda>m. sum_list (fst m)) ns)
                               + sum_list (fst fin), recv_script := rest\<rparr>)"
    using Cons(6) by (intro Cons.IH [OF rest_ok Cons(3,4,5)]) simp_all
  with step show ?case by (simp add: add.assoc)
qed

text \<open>
  Claim C6, as the code has it. The peer answers a request with any number of running
  notifications and then with the final result for the call's correlation id. Every
  message arrives by itself, in one chunk or in several, no \<^verbatim>\<open>recv\<close> times out, and
  the notifications take less than the operation timeout in all. Then
  \<^verbatim>\<open>send_command\<close> returns the final result, having written its one request and
  read the messages up to the result, and each notification, whatever operation id the
  loop holds, leaves the loop waiting.
\<close>

theorem running_is_not_terminal:
  assumes "list_all (running_message L) ns"
    and "arrives L fin" and "loads L (concat (snd fin)) = Parsed response"
    and "final_result cid r response"
    and "sum_list (map (\<lambda>m. sum_list (fst m)) ns) < operation_timeout method params"
    and "sock w" and "probe_script w = True # ps" and "send_script w = SendOk # ss"
    and "recv_script w = concat (map arrival ns) @ arrival fin @ rest"
  shows "send_command L method params cid w =
           (Inr r,
            w\<lparr>clock := clock w + sum_list (map (\<lambda>m. sum_list (fst m)) ns) + sum_list (fst fin),
              probe_script := ps, send_script := ss, recv_script := rest,
              trace := trace w @ [Sendall (build_request method params cid) SendOk]\<rparr>)
       \<and> list_all (\<lambda>m. case loads L (concat (snd m)) of
                          Parsed notification \<Rightarrow>
                            \<forall>operation_id. waits (handle_response L cid notification operation_id)
                        | _ \<Rightarrow> False) ns"
proof -
  let ?w0 = "w\<lparr>probe_script := ps\<rparr>"
  let ?w1 = "?w0\<lparr>send_script := tl (send_script ?w0),
                  trace := trace ?w0 @ [Sendall (build_request method params cid) (next_send ?w0)]\<rparr>"
  let ?total = "sum_list (map (\<lambda>m. sum_list (fst m)) ns) + sum_list (fst fin)"
  have c: "connect w = (True, ?w0)" using assms(6,7) by (rule connect_live)
  have n: "next_send ?w0 = SendOk" using assms(8) by (simp add: next_send_def)
  have "wait_response L method params cid (operation_timeout method params) (clock ?w1) JNull ?w1
          = (Inr r, ?w1\<lparr>clock := clock ?w1 + sum_list (map (\<lambda>m. sum_list (fst m)) ns)
                               + sum_list (fst fin), recv_script := rest\<rparr>)"
    using assms(5,9) by (intro wait_response_messages [OF assms(1-4)]) simp_all
  then have "attempt L method params cid ?w0 =
               (Inr r, ?w1\<lparr>clock := clock ?w1 + sum_list (map (\<lambda>m. sum_list (fst m)) ns)
                               + sum_list (fst fin), recv_script := rest\<rparr>)"
    using assms(6) n by (simp add: attempt_def Let_def)
  then have "send_loop L method params cid 0 ?w0 =
               (Inr r, ?w1\<lparr>clock := clock ?w1 + sum_list (map (\<lambda>m. sum_list (fst m)) ns)
                               + sum_list (fst fin), recv_script := rest\<rparr>)"
    by (subst send_loop.simps) (simp add: max_retries_def)
  then have run: "send_command L method params cid w =
           (Inr r,
            w\<lparr>clock := clock w + sum_list (map (\<lambda>m. sum_list (fst m)) ns) + sum_list (fst fin),
              probe_script := ps, send_script := ss, recv_script := rest,
              trace := trace w @ [Sendall (build_request method params cid) SendOk]\<rparr>)"
    using c n assms(8) by (simp add: send_command_def)
  have "list_all (\<lambda>m. case loads L (concat (snd m)) of
                          Parsed notification \<Rightarrow>
                            \<forall>operation_id. waits (handle_response L cid notification operation_id)
                        | _ \<Rightarrow> False) ns"
    using assms(1)
  proof (induction ns)
    case Nil
    then show ?case by simp
  next
    case (Cons m ns)
    from Cons(2) obtain resp where resp: "loads L (concat (snd m)) = Parsed resp"
      "running_notification resp"
      by (auto simp: running_message_def split: loads_result.splits)
    have "waits (handle_response L cid resp operation_id)" for operation_id
      using handle_running [OF resp(2), of L cid operation_id] by (auto simp: waits_def)
    with resp Cons show ?case by simp
  qed
  with run show ?thesis by simp
qed

theorem running_is_not_terminal_witness:
  "list_all (running_message cpython) [cutting, still_running]
   \<and> arrives cpython success1
   \<and> final_result (JInt 1) (JObj [(''success'', JBool True)])
         (JObj [(''result'', JObj [(''success'', JBool True)]), (''id'', JInt 1)])
   \<and> send_command cpython ''tools/call'' (Some call_params) (JInt 1)
         (connected\<lparr>probe_script := [True], send_script := [SendOk],
            recv_script := arrival cutting @ arrival still_running @ arrival success1\<rparr>)
       = (Inr (JObj [(''success'', JBool True)]),
          connected\<lparr>clock := 11, trace := [Sendall request1 SendOk]\<rparr>)"
proof -
  let ?ns = "[cutting, still_running]"
  let ?response = "JObj [(''result'', JObj [(''success'', JBool True)]), (''id'', JInt 1)]"
  let ?w = "connected\<lparr>probe_script := [True], send_script := [SendOk],
              recv_script := arrival cutting @ arrival still_running @ arrival success1\<rparr>"
  have a1: "list_all (running_message cpython) ?ns" by code_simp
  have a2: "arrives cpython success1" by code_simp
  have a3: "loads cpython (concat (snd success1)) = Parsed ?response" by code_simp
  have a4: "final_result (JInt 1) (JObj [(''success'', JBool True)]) ?response" by code_simp
  have a5: "sum_list (map (\<lambda>m. sum_list (fst m)) ?ns)
              < operation_timeout ''tools/call'' (Some call_params)"
    by code_simp
  have a6: "sock ?w" by (simp add: connected_def)
  have a7: "probe_script ?w = True # []" by simp
  have a8: "send_script ?w = SendOk # []" by simp
  have a9: "recv_script ?w = concat (map arrival ?ns) @ arrival success1 @ []" by simp
  have t: "sum_list (fst cutting) + sum_list (fst still_running) + sum_list (fst success1) = 11"
    by code_simp
  have q: "build_request ''tools/call'' (Some call_params) (JInt 1) = request1"
    by (simp add: request1_def)
  from running_is_not_terminal [OF a1 a2 a3 a4 a5 a6 a7 a8 a9]
  have "send_command cpython ''tools/call'' (Some call_params) (JInt 1) ?w
          = (Inr (JObj [(''success'', JBool True)]),
             connected\<lparr>clock := 11, trace := [Sendall request1 SendOk]\<rparr>)"
    by (simp add: t q connected_def)
  with a1 a2 a4 show ?thesis by blast
qed

text \<open>
  Claim C6 as stated fails. After a running notification the peer stays silent for the 30
  seconds of the socket timeout and then sends the matching result:
  \<^verbatim>\<open>receive_full_response\<close> gives up with \<^verbatim>\<open>No data received\<close>, the call fails
  and the result is left unread. And when the notification and the result come in one
  chunk, the bytes never parse as one document: the call fails with
  \<^verbatim>\<open>Incomplete JSON response received\<close> once the ceiling is reached.
\<close>

theorem silence_ends_call_counterexample:
  "running_message cpython still_running \<and> arrives cpython success1
   \<and> send_command cpython ''tools/call'' (Some call_params) (JInt 1)
       (connected\<lparr>probe_script := [True], send_script := [SendOk],
          recv_script := arrival still_running @ [(30, RecvTimeout)] @ arrival success1\<rparr>)
     = (Inl (Exception ''Communication error with Sketchup: No data received''),
        connected\<lparr>clock := 35, sock := False, recv_script := arrival success1,
          trace := [Sendall request1 SendOk]\<rparr>)
   \<and> send_command cpython ''tools/call'' (Some call_params) (JInt 1)
       (connected\<lparr>probe_script := [True], send_script := [SendOk],
          recv_script :=
            [(5, Chunk (concat (snd still_running) @ [CHR 0x0A] @ concat (snd success1))),
             (30, RecvTimeout), (30, RecvTimeout), (30, RecvTimeout), (30, RecvTimeout)]\<rparr>)
     = (Inl (Exception ''Communication error with Sketchup: Incomplete JSON response received''),
        connected\<lparr>clock := 125, sock := False, trace := [Sendall request1 SendOk]\<rparr>)"
  by code_simp


subsection \<open>Framing failures and the retry logic\<close>

lemma recv_chunks_raises_cases:
  assumes "recv_chunks L start chunks t s = (Inl e, t', s')"
    and conn: "\<And>m. P (ConnectionError m)"
    and closed: "P (Exception ''Connection closed before receiving any data'')"
    and parse: "\<And>L chunks. parse_received L chunks = Inl e \<Longrightarrow> P e"
  shows "P e"
  using assms(1)
proof (induction L start chunks t s arbitrary: t' s' rule: recv_chunks.induct)
  case (1 L start chunks t)
  then show ?case using closed parse by (auto split: if_splits)
next
  case (2 L start chunks t d r0 rest)
  show ?case
  proof (cases "t - start < max_response_time")
    case False
    with 2(5) show ?thesis using parse by auto
  next
    case True
    show ?thesis
    proof (cases r0)
      case (Chunk c)
      with True 2(1,2)[OF True Chunk] 2(5) show ?thesis using closed parse
        by (auto split: if_splits loads_result.splits)
    next
      case RecvTimeout
      with True 2(3,4)[OF True RecvTimeout] 2(5) show ?thesis using parse
        by (auto split: if_splits loads_result.splits)
    next
      case (RecvConnError m)
      with True 2(5) show ?thesis using conn
        by (auto split: if_splits loads_result.splits)
    qed
  qed
qed

lemma parse_received_messages: "parse_received L chunks = Inl e \<Longrightarrow> framing_error e"
  unfolding parse_received_def framing_error_def
  by (cases "chunks = []"; cases "loads L (concat chunks)") auto

lemma recv_chunks_messages:
  assumes "recv_chunks L start chunks t s = (Inl e, t', s')"
  shows "(\<exists>m. e = ConnectionError m)
     \<or> e = Exception ''Connection closed before receiving any data''
     \<or> framing_error e"
  by (rule recv_chunks_raises_cases [OF assms]) (blast intro: parse_received_messages)+

lemma contains_closed:
  "contains ''Connection closed'' ''Connection closed before receiving any data''"
  by code_simp

lemma not_contains_closed:
  "\<not> contains ''Connection closed'' ''Incomplete JSON response received''"
  "\<not> contains ''Connection closed'' ''Invalid response encoding''"
  "\<not> contains ''Connection closed'' ''No data received''"
  by code_simp+

lemma closed_case:
  assumes "e = Exception ''Connection closed before receiving any data''"
  shows "handle_failure e retry_count w2 =
               (if retry_count < 3 then
                  (case connect (sleep 0.5 (disconnect w2)) of
                     (True, w3) \<Rightarrow> (Retry, w3)
                   | (False, w3) \<Rightarrow> (GiveUp (communication_error e), w3\<lparr>sock := False\<rparr>))
                else (GiveUp (communication_error e), w2\<lparr>sock := False\<rparr>))"
  unfolding assms handle_failure_def on_other_error_def communication_error_def max_retries_def
    exc.case str_exc.simps
  using contains_closed by (simp only: simp_thms if_True numeral_3_eq_3)

lemma framing_case:
  assumes "framing_error e"
  shows "handle_failure e retry_count w2 = (GiveUp (communication_error e), w2\<lparr>sock := False\<rparr>)"
proof -
  from assms consider "e = Exception ''Incomplete JSON response received''"
    | "e = Exception ''Invalid response encoding''" | "e = Exception ''No data received''"
    unfolding framing_error_def by blast
  then show ?thesis
  proof cases
    case 1
    show ?thesis
      unfolding 1 handle_failure_def on_other_error_def communication_error_def exc.case
        str_exc.simps
      using not_contains_closed(1) by (simp only: simp_thms if_False)
  next
    case 2
    show ?thesis
      unfolding 2 handle_failure_def on_other_error_def communication_error_def exc.case
        str_exc.simps
      using not_contains_closed(2) by (simp only: simp_thms if_False)
  next
    case 3
    show ?thesis
      unfolding 3 handle_failure_def on_other_error_def communication_error_def exc.case
        str_exc.simps
      using not_contains_closed(3) by (simp only: simp_thms if_False)
  qed
qed

text \<open>
  Claim C5, as the code has it. Whatever \<^verbatim>\<open>receive_full_response\<close> raises is of one
  of three kinds, and the \<^verbatim>\<open>except\<close> clauses of \<^verbatim>\<open>send_command\<close> treat them
  differently. A \<^verbatim>\<open>ConnectionError\<close> from \<^verbatim>\<open>recv\<close> is a transport failure and
  takes the retry path with its progressive backoff. \<^verbatim>\<open>Connection closed before
  receiving any data\<close> is retried by the last clause: while fewer than three retries have
  been made the engine disconnects, sleeps half a second and reconnects, and it resends
  when the reconnection succeeds. The three framing errors proper are never retried: the
  call ends at once with \<^verbatim>\<open>Communication error with Sketchup: ...\<close>.
\<close>

theorem framing_failures:
  assumes "receive_full_response L w = (Inl e, w1)"
  shows "(\<exists>m. e = ConnectionError m)
           \<and> handle_failure e retry_count w2 = on_transport_error e retry_count w2
       \<or> e = Exception ''Connection closed before receiving any data''
           \<and> handle_failure e retry_count w2 =
               (if retry_count < 3 then
                  (case connect (sleep 0.5 (disconnect w2)) of
                     (True, w3) \<Rightarrow> (Retry, w3)
                   | (False, w3) \<Rightarrow> (GiveUp (communication_error e), w3\<lparr>sock := False\<rparr>))
                else (GiveUp (communication_error e), w2\<lparr>sock := False\<rparr>))
       \<or> framing_error e
           \<and> handle_failure e retry_count w2 =
               (GiveUp (communication_error e), w2\<lparr>sock := False\<rparr>)"
proof -
  from assms obtain t s where "recv_chunks L (clock w) [] (clock w) (recv_script w) = (Inl e, t, s)"
    by (auto simp: receive_full_response_def split: prod.splits)
  from recv_chunks_messages [OF this]
  consider (transport) m where "e = ConnectionError m"
    | (closed) "e = Exception ''Connection closed before receiving any data''"
    | (framing) "framing_error e"
    by blast
  then show ?thesis
  proof cases
    case transport
    then have "handle_failure e retry_count w2 = on_transport_error e retry_count w2"
      by (simp add: handle_failure_def)
    with transport show ?thesis by blast
  next
    case closed
    from closed_case [OF this] closed show ?thesis by blast
  next
    case framing
    from framing_case [OF this] framing show ?thesis by blast
  qed
qed

theorem framing_failures_witness:
  "receive_full_response cpython (connected\<lparr>recv_script := stalled\<rparr>)
     = (Inl (Exception ''Incomplete JSON response received''), connected\<lparr>clock := 121\<rparr>)
   \<and> handle_failure (Exception ''Incomplete JSON response received'') 0
         (connected\<lparr>clock := 121, connect_script := [True]\<rparr>)
       = (GiveUp (Exception ''Communication error with Sketchup: Incomplete JSON response received''),
          connected\<lparr>clock := 121, sock := False, connect_script := [True]\<rparr>)"
proof -
  let ?e = "Exception ''Incomplete JSON response received''"
  have a: "receive_full_response cpython (connected\<lparr>recv_script := stalled\<rparr>)
     = (Inl ?e, connected\<lparr>clock := 121\<rparr>)"
    by code_simp
  have n1: "\<not> (\<exists>m. ?e = ConnectionError m)" by simp
  have n2: "?e \<noteq> Exception ''Connection closed before receiving any data''" by simp
  have c: "communication_error ?e =
             Exception ''Communication error with Sketchup: Incomplete JSON response received''"
    by (simp add: communication_error_def)
  have u: "connected\<lparr>clock := 121, connect_script := [True], sock := False\<rparr>
             = connected\<lparr>clock := 121, sock := False, connect_script := [True]\<rparr>"
    by (simp add: connected_def)
  from framing_failures [OF a, of 0 "connected\<lparr>clock := 121, connect_script := [True]\<rparr>"] n1 n2
  have "handle_failure ?e 0 (connected\<lparr>clock := 121, connect_script := [True]\<rparr>)
          = (GiveUp (communication_error ?e),
             connected\<lparr>clock := 121, connect_script := [True], sock := False\<rparr>)"
    by blast
  with a c u show ?thesis by (simp only: simp_thms)
qed

text \<open>
  Claim C5 as stated fails. A peer that sends the start of a document and then stays
  silent until the ceiling is reached makes the call fail on its first attempt, with no
  disconnect, no sleep, no reconnection and no second request, although a reconnection
  would have succeeded. So does a peer that sends bytes that are not UTF-8 and closes.
\<close>

theorem framing_failure_not_retried_counterexample:
  "send_command cpython ''tools/call'' (Some call_params) (JInt 1)
     (connected\<lparr>probe_script := [True], send_script := [SendOk, SendOk],
        connect_script := [True], recv_script := stalled\<rparr>)
   = (Inl (Exception ''Communication error with Sketchup: Incomplete JSON response received''),
      connected\<lparr>clock := 121, sock := False, send_script := [SendOk], connect_script := [True],
        trace := [Sendall (build_request ''tools/call'' (Some call_params) (JInt 1)) SendOk]\<rparr>)
   \<and> send_command cpython ''tools/call'' (Some call_params) (JInt 1)
     (connected\<lparr>probe_script := [True], send_script := [SendOk, SendOk],
        connect_script := [True], recv_script := [(1, Chunk [CHR 0xFF]), (1, Chunk [])]\<rparr>)
   = (Inl (Exception ''Communication error with Sketchup: Invalid response encoding''),
      connected\<lparr>clock := 2, sock := False, send_script := [SendOk], connect_script := [True],
        trace := [Sendall (build_request ''tools/call'' (Some call_params) (JInt 1)) SendOk]\<rparr>)"
  by code_simp


subsection \<open>Transport failures and retries\<close>

lemma requests_append [simp]: "requests (as @ bs) = requests as @ requests bs"
  by (induction as rule: requests.induct) simp_all

lemma receive_trace: "receive_full_response L w = (r, w1) \<Longrightarrow> trace w1 = trace w"
  by (auto simp: receive_full_response_def split: prod.splits)

lemma inner_except_trace:
  "inner_except method params start operation_id e w = (r, w1) \<Longrightarrow> trace w1 = trace w"
  by (auto simp: inner_except_def split: exc.splits if_splits)

lemma one_round_trace:
  "one_round L method params request_id start operation_id w = (r, w1) \<Longrightarrow> trace w1 = trace w"
  unfolding one_round_def
  by (auto split: prod.splits sum.splits loads_result.splits step.splits
           dest!: receive_trace inner_except_trace)

lemma wait_response_trace:
  "trace (snd (wait_response L method params request_id tmo start operation_id w)) = trace w"
proof (induction L "method" params request_id tmo start operation_id w rule: wait_response.induct)
  case (1 L meth params request_id tmo start operation_id w)
  show ?case
  proof (cases "clock w - start < tmo")
    case False
    then show ?thesis by (subst wait_response.simps) simp
  next
    case True
    obtain r w1 where r: "one_round L meth params request_id start operation_id w = (r, w1)"
      by (cases "one_round L meth params request_id start operation_id w")
    from one_round_trace [OF r] have t: "trace w1 = trace w" .
    show ?thesis
    proof (cases r)
      case (Again op')
      from 1 [OF True r [symmetric] Again] t True r Again show ?thesis
        by (subst wait_response.simps) simp
    qed (use True r t in \<open>subst wait_response.simps, simp\<close>)+
  qed
qed

lemma disconnect_requests [simp]: "requests (trace (disconnect w)) = requests (trace w)"
  by (simp add: disconnect_def)

lemma sleep_requests [simp]: "requests (trace (sleep d w)) = requests (trace w)"
  by (simp add: sleep_def)

lemma new_socket_requests [simp]: "requests (trace (snd (new_socket w))) = requests (trace w)"
  by (auto simp: new_socket_def split: list.splits bool.splits)

lemma connect_requests [simp]: "requests (trace (snd (connect w))) = requests (trace w)"
  by (auto simp: connect_def split: list.splits bool.splits)

lemma attempt_requests:
  "requests (trace (snd (attempt L method params request_id w))) =
     requests (trace w) @ (if sock w then [build_request method params request_id] else [])"
  by (auto simp: attempt_def Let_def wait_response_trace split: send_result.splits)

lemma connect_requests':
  "connect w = (ok, w1) \<Longrightarrow> requests (trace w1) = requests (trace w)"
  using connect_requests [of w] by simp

lemma on_transport_error_requests [simp]:
  "requests (trace (snd (on_transport_error e n w))) = requests (trace w)"
  by (auto simp: on_transport_error_def split: prod.splits dest!: connect_requests')

lemma on_other_error_requests [simp]:
  "requests (trace (snd (on_other_error e n w))) = requests (trace w)"
  by (auto simp: on_other_error_def split: prod.splits bool.splits dest!: connect_requests')

lemma handle_failure_requests [simp]:
  "requests (trace (snd (handle_failure e n w))) = requests (trace w)"
  by (auto simp: handle_failure_def split: exc.splits)

lemma send_loop_requests:
  "\<exists>j. j \<le> 4 - retry_count \<and>
     requests (trace (snd (send_loop L method params request_id retry_count w))) =
       requests (trace w) @ replicate j (build_request method params request_id)"
proof (induction L "method" params request_id retry_count w rule: send_loop.induct)
  case (1 L meth params request_id retry_count w)
  let ?q = "build_request meth params request_id"
  show ?case
  proof (cases "retry_count \<le> max_retries")
    case False
    then have "send_loop L meth params request_id retry_count w = (Inr JNull, w)"
      by (subst send_loop.simps) simp
    then show ?thesis by (intro exI [where x = 0]) simp
  next
    case True
    obtain r w1 where a: "attempt L meth params request_id w = (r, w1)"
      by (cases "attempt L meth params request_id w")
    from attempt_requests [of L meth params request_id w] a
    obtain i where i: "i \<le> 1" "requests (trace w1) = requests (trace w) @ replicate i ?q"
      by (cases "sock w") (auto intro: that [of 1] that [of 0])
    show ?thesis
    proof (cases r)
      case (Inr v)
      with True a have "send_loop L meth params request_id retry_count w = (Inr v, w1)"
        by (subst send_loop.simps) simp
      with i True show ?thesis
        by (intro exI [where x = i]) (simp add: max_retries_def)
    next
      case (Inl e)
      obtain v w2 where h: "handle_failure e retry_count w1 = (v, w2)"
        by (cases "handle_failure e retry_count w1")
      from handle_failure_requests [of e retry_count w1] h
      have w2: "requests (trace w2) = requests (trace w1)" by simp
      show ?thesis
      proof (cases v)
        case (GiveUp e')
        with True a Inl h have "send_loop L meth params request_id retry_count w = (Inl e', w2)"
          by (subst send_loop.simps) simp
        with i w2 True show ?thesis
          by (intro exI [where x = i]) (simp add: max_retries_def)
      next
        case Retry
        with True a Inl h
        have s: "send_loop L meth params request_id retry_count w =
                   send_loop L meth params request_id (Suc retry_count) w2"
          by (subst send_loop.simps) simp
        from 1 [OF True a [symmetric] Inl h [symmetric] Retry]
        obtain j where j: "j \<le> 4 - Suc retry_count"
          "requests (trace (snd (send_loop L meth params request_id (Suc retry_count) w2))) =
             requests (trace w2) @ replicate j ?q"
          by blast
        from i j w2 s True show ?thesis
          by (intro exI [where x = "i + j"]) (simp add: replicate_add max_retries_def)
      qed
    qed
  qed
qed

lemma send_command_requests:
  "\<exists>j \<le> 4. requests (trace (snd (send_command L method params request_id w))) =
       requests (trace w) @ replicate j (build_request method params request_id)"
proof -
  obtain ok w1 where c: "connect w = (ok, w1)" by (cases "connect w")
  from connect_requests [of w] c have t: "requests (trace w1) = requests (trace w)" by simp
  show ?thesis
  proof (cases ok)
    case False
    with c t show ?thesis
      by (intro exI [where x = 0]) (simp add: send_command_def)
  next
    case True
    from send_loop_requests [of 0 L "method" params request_id w1] True c t
    show ?thesis by (auto simp: send_command_def)
  qed
qed


lemma one_round_frame:
  "one_round L method params request_id start operation_id w = (r, w1) \<Longrightarrow>
     \<exists>c s. w1 = w\<lparr>clock := c, recv_script := s\<rparr>"
  unfolding one_round_def receive_full_response_def inner_except_def
  by (auto split: prod.splits sum.splits loads_result.splits step.splits exc.splits if_splits)

lemma wait_response_frame_only:
  "\<exists>c s. snd (wait_response L method params request_id tmo start operation_id w)
           = w\<lparr>clock := c, recv_script := s\<rparr>"
proof (induction L "method" params request_id tmo start operation_id w rule: wait_response.induct)
  case (1 L meth params request_id tmo start operation_id w)
  have same: "w = w\<lparr>clock := clock w, recv_script := recv_script w\<rparr>" by simp
  show ?case
  proof (cases "clock w - start < tmo")
    case False
    then have "snd (wait_response L meth params request_id tmo start operation_id w) = w"
      by (subst wait_response.simps) simp
    with same show ?thesis by metis
  next
    case True
    obtain r w1 where r: "one_round L meth params request_id start operation_id w = (r, w1)"
      by (cases "one_round L meth params request_id start operation_id w")
    from one_round_frame [OF r] obtain c s where w1: "w1 = w\<lparr>clock := c, recv_script := s\<rparr>"
      by blast
    show ?thesis
    proof (cases r)
      case (Again op')
      from 1 [OF True r [symmetric] Again] obtain c' s' where
        "snd (wait_response L meth params request_id tmo start op' w1) = w1\<lparr>clock := c', recv_script := s'\<rparr>"
        by blast
      with True r Again w1 have "snd (wait_response L meth params request_id tmo start operation_id w)
          = w\<lparr>clock := c', recv_script := s'\<rparr>"
        by (subst wait_response.simps) simp
      then show ?thesis by blast
    next
      case (Returned v)
      with True r w1 have "snd (wait_response L meth params request_id tmo start operation_id w) = w\<lparr>clock := c, recv_script := s\<rparr>"
        by (subst wait_response.simps) simp
      then show ?thesis by blast
    next
      case (Raised e)
      with True r w1 have "snd (wait_response L meth params request_id tmo start operation_id w) = w\<lparr>clock := c, recv_script := s\<rparr>"
        by (subst wait_response.simps) simp
      then show ?thesis by blast
    next
      case (Break op')
      with True r w1 have "snd (wait_response L meth params request_id tmo start operation_id w) = w\<lparr>clock := c, recv_script := s\<rparr>"
        by (subst wait_response.simps) simp
      then show ?thesis by blast
    qed
  qed
qed

lemma one_round_raised:
  "one_round L method params request_id start operation_id w = (Raised e, w1) \<Longrightarrow>
     e \<noteq> SocketTimeout"
  unfolding one_round_def inner_except_def
  by (auto split: prod.splits sum.splits loads_result.splits step.splits exc.splits if_splits)

lemma timed_out_exception: "timed_out L operation_id tmo \<noteq> SocketTimeout"
  by (simp add: timed_out_def)

lemma wait_response_no_timeout:
  "fst (wait_response L method params request_id tmo start operation_id w) \<noteq> Inl SocketTimeout"
proof (induction L "method" params request_id tmo start operation_id w rule: wait_response.induct)
  case (1 L meth params request_id tmo start operation_id w)
  show ?case
  proof (cases "clock w - start < tmo")
    case False
    then show ?thesis by (subst wait_response.simps) (simp add: timed_out_exception)
  next
    case True
    obtain r w1 where r: "one_round L meth params request_id start operation_id w = (r, w1)"
      by (cases "one_round L meth params request_id start operation_id w")
    show ?thesis
    proof (cases r)
      case (Again op')
      from 1 [OF True r [symmetric] Again] True r Again show ?thesis
        by (subst wait_response.simps) simp
    next
      case (Raised e)
      with one_round_raised r have "e \<noteq> SocketTimeout" by blast
      with True r Raised show ?thesis by (subst wait_response.simps) simp
    qed (use True r in \<open>subst wait_response.simps, simp add: timed_out_exception\<close>)+
  qed
qed


lemma retry_world:
  assumes "sock w" and "connect_script w = True # cs"
  shows "connect (sleep d (disconnect w)) =
           (True, w\<lparr>clock := clock w + d, connect_script := cs,
                    trace := trace w @ [Closed, Slept d, Connected]\<rparr>)"
  using assms by (simp add: connect_def new_socket_def sleep_def disconnect_def)

lemma disconnect_extends: "prefix (trace w) (trace (disconnect w))"
  by (simp add: disconnect_def)

lemma new_socket_extends: "prefix (trace w) (trace (snd (new_socket w)))"
  by (auto simp: new_socket_def split: list.splits bool.splits)

lemma connect_extends: "prefix (trace w) (trace (snd (connect w)))"
proof -
  have "prefix (trace w) (trace (snd (new_socket (disconnect (w\<lparr>probe_script := ps\<rparr>)))))" for ps
    using prefix_order.trans [OF disconnect_extends new_socket_extends,
            of "w\<lparr>probe_script := ps\<rparr>"] by simp
  then show ?thesis
    by (auto simp: connect_def new_socket_extends split: list.splits bool.splits)
qed

lemma retry_extends: "prefix (trace w) (trace (snd (connect (sleep d (disconnect w)))))"
proof -
  have "prefix (trace w) (trace (sleep d (disconnect w)))"
    by (simp add: sleep_def disconnect_def)
  from prefix_order.trans [OF this connect_extends] show ?thesis .
qed

lemma retry_extends':
  "connect (sleep d (disconnect w)) = (ok, w1) \<Longrightarrow> prefix (trace w) (trace w1)"
  using retry_extends [of w d] by simp

lemma on_transport_error_extends:
  "prefix (trace w) (trace (snd (on_transport_error e n w)))"
  by (auto simp: on_transport_error_def split: prod.splits dest: retry_extends')

lemma on_other_error_extends:
  "prefix (trace w) (trace (snd (on_other_error e n w)))"
  by (auto simp: on_other_error_def split: prod.splits bool.splits dest: retry_extends'
           simp del: contains.simps)

lemma handle_failure_extends: "prefix (trace w) (trace (snd (handle_failure e n w)))"
  by (cases e)
     (simp_all add: handle_failure_def on_transport_error_extends on_other_error_extends)

lemma attempt_trace:
  "trace (snd (attempt L method params request_id w)) =
     (if sock w then trace w @ [Sendall (build_request method params request_id) (next_send w)]
      else trace w)"
  by (auto simp: attempt_def Let_def wait_response_trace split: send_result.splits)

lemma send_loop_extends:
  "prefix (trace w) (trace (snd (send_loop L method params request_id retry_count w)))"
proof (induction L "method" params request_id retry_count w rule: send_loop.induct)
  case (1 L meth params request_id retry_count w)
  show ?case
  proof (cases "retry_count \<le> max_retries")
    case False
    then show ?thesis by (subst send_loop.simps) simp
  next
    case True
    obtain r w1 where a: "attempt L meth params request_id w = (r, w1)"
      by (cases "attempt L meth params request_id w")
    from attempt_trace [of L meth params request_id w] a
    have p1: "prefix (trace w) (trace w1)" by (auto split: if_splits)
    show ?thesis
    proof (cases r)
      case (Inr v)
      with True a p1 show ?thesis by (subst send_loop.simps) simp
    next
      case (Inl e)
      obtain v w2 where h: "handle_failure e retry_count w1 = (v, w2)"
        by (cases "handle_failure e retry_count w1")
      from handle_failure_extends [of w1 e retry_count] h
      have p2: "prefix (trace w1) (trace w2)" by simp
      show ?thesis
      proof (cases v)
        case (GiveUp e')
        with True a Inl h prefix_order.trans [OF p1 p2] show ?thesis
          by (subst send_loop.simps) simp
      next
        case Retry
        from 1 [OF True a [symmetric] Inl h [symmetric] Retry]
        have "prefix (trace w2) (trace (snd (send_loop L meth params request_id (Suc retry_count) w2)))" .
        with True a Inl h Retry prefix_order.trans [OF p1 p2] show ?thesis
          by (subst send_loop.simps) (auto intro: prefix_order.trans)
      qed
    qed
  qed
qed

lemma send_loop_writes:
  assumes "sock w" and "retry_count \<le> 3"
  shows "prefix (trace w @ [Sendall (build_request method params request_id) (next_send w)])
           (trace (snd (send_loop L method params request_id retry_count w)))"
proof -
  let ?q = "Sendall (build_request method params request_id) (next_send w)"
  obtain r w1 where a: "attempt L method params request_id w = (r, w1)"
    by (cases "attempt L method params request_id w")
  from attempt_trace [of L "method" params request_id w] a assms(1)
  have t1: "trace w1 = trace w @ [?q]" by simp
  show ?thesis
  proof (cases r)
    case (Inr v)
    with assms(2) a t1 show ?thesis by (subst send_loop.simps) (simp add: max_retries_def)
  next
    case (Inl e)
    obtain v w2 where h: "handle_failure e retry_count w1 = (v, w2)"
      by (cases "handle_failure e retry_count w1")
    from handle_failure_extends [of w1 e retry_count] h t1
    have p2: "prefix (trace w @ [?q]) (trace w2)" by simp
    show ?thesis
    proof (cases v)
      case (GiveUp e')
      with assms(2) a Inl h p2 show ?thesis
        by (subst send_loop.simps) (simp add: max_retries_def)
    next
      case Retry
      from send_loop_extends [of w2 L "method" params request_id "Suc retry_count"] p2
      have "prefix (trace w @ [?q])
              (trace (snd (send_loop L method params request_id (Suc retry_count) w2)))"
        by (rule prefix_order.trans [rotated])
      with assms(2) a Inl h Retry show ?thesis
        by (subst send_loop.simps) (simp add: max_retries_def)
    qed
  qed
qed

lemma attempt_transport:
  assumes "attempt L method params request_id w = (Inl e, w1)" and "is_transport e"
  shows "sock w1 \<and> connect_script w1 = connect_script w \<and> next_send w1 = next_send (w\<lparr>send_script := tl (send_script w)\<rparr>)"
proof -
  from assms have s: "sock w"
    by (cases "sock w") (auto simp: attempt_def attribute_error_def)
  let ?w' = "w\<lparr>send_script := tl (send_script w),
                trace := trace w @ [Sendall (build_request method params request_id) (next_send w)]\<rparr>"
  obtain c s' where f: "snd (wait_response L method params request_id
                            (operation_timeout method params) (clock ?w') JNull ?w')
                        = ?w'\<lparr>clock := c, recv_script := s'\<rparr>"
    using wait_response_frame_only by blast
  from assms(1) s f show ?thesis
    by (cases "next_send w")
       (auto simp: attempt_def Let_def next_send_def split: prod.splits)
qed

lemma attempt_timeout:
  assumes "attempt L method params request_id w = (Inl SocketTimeout, w1)"
  shows "next_send w = SendTimeout"
  using assms wait_response_no_timeout
    [of L "method" params request_id "operation_timeout method params"]
  by (cases "sock w"; cases "next_send w")
     (auto simp: attempt_def Let_def attribute_error_def split: prod.splits dest: arg_cong [where f = fst])


lemma recv_chunks_rest:
  "recv_chunks L start chunks t s = (r, t', s') \<Longrightarrow> set s' \<subseteq> set s"
proof (induction L start chunks t s arbitrary: r t' s' rule: recv_chunks.induct)
  case (1 L start chunks t)
  then show ?case by (auto split: if_splits)
next
  case (2 L start chunks t d r0 rest)
  show ?case
  proof (cases "t - start < max_response_time")
    case False
    with 2(5) show ?thesis by simp
  next
    case True
    show ?thesis
    proof (cases r0)
      case (Chunk c)
      with True 2(1,2)[OF True Chunk] 2(5) show ?thesis
        by (auto split: if_splits loads_result.splits)
    next
      case RecvTimeout
      with True 2(3,4)[OF True RecvTimeout] 2(5) show ?thesis
        by (auto split: if_splits loads_result.splits)
    next
      case (RecvConnError m)
      with True 2(5) show ?thesis
        by (auto split: if_splits loads_result.splits)
    qed
  qed
qed

lemma recv_chunks_conn_error:
  "recv_chunks L start chunks t s = (Inl (ConnectionError m), t', s') \<Longrightarrow>
     \<exists>d. (d, RecvConnError m) \<in> set s"
proof (induction L start chunks t s arbitrary: t' s' rule: recv_chunks.induct)
  case (1 L start chunks t)
  then show ?case by (auto simp: parse_received_def split: if_splits loads_result.splits)
next
  case (2 L start chunks t d r0 rest)
  show ?case
  proof (cases "t - start < max_response_time")
    case False
    with 2(5) show ?thesis by (auto simp: parse_received_def split: if_splits loads_result.splits)
  next
    case True
    show ?thesis
    proof (cases r0)
      case (Chunk c)
      with True 2(1,2)[OF True Chunk] 2(5) show ?thesis
        by (auto simp: parse_received_def split: if_splits loads_result.splits)
    next
      case RecvTimeout
      with True 2(3,4)[OF True RecvTimeout] 2(5) show ?thesis
        by (auto simp: parse_received_def split: if_splits loads_result.splits)
    next
      case (RecvConnError m')
      with True 2(5) show ?thesis
        by (auto split: if_splits loads_result.splits)
    qed
  qed
qed

lemma one_round_rest:
  "one_round L method params request_id start operation_id w = (r, w1) \<Longrightarrow>
     set (recv_script w1) \<subseteq> set (recv_script w)"
  unfolding one_round_def receive_full_response_def inner_except_def
  by (auto split: prod.splits sum.splits loads_result.splits step.splits exc.splits if_splits
           dest!: recv_chunks_rest)

lemma one_round_conn_error:
  "one_round L method params request_id start operation_id w = (Raised (ConnectionError m), w1)
     \<Longrightarrow> \<exists>d. (d, RecvConnError m) \<in> set (recv_script w)"
  unfolding one_round_def receive_full_response_def inner_except_def
  by (auto split: prod.splits sum.splits loads_result.splits step.splits exc.splits if_splits
           dest: recv_chunks_conn_error handle_response_fail)

lemma wait_response_conn_error:
  "fst (wait_response L method params request_id tmo start operation_id w)
     = Inl (ConnectionError m) \<Longrightarrow> \<exists>d. (d, RecvConnError m) \<in> set (recv_script w)"
proof (induction L "method" params request_id tmo start operation_id w rule: wait_response.induct)
  case (1 L meth params request_id tmo start operation_id w)
  show ?case
  proof (cases "clock w - start < tmo")
    case False
    with 1(2) show ?thesis by (subst (asm) wait_response.simps) (simp add: timed_out_def split: if_splits)
  next
    case True
    obtain r w1 where r: "one_round L meth params request_id start operation_id w = (r, w1)"
      by (cases "one_round L meth params request_id start operation_id w")
    show ?thesis
    proof (cases r)
      case (Again op')
      from 1(2) True r Again
      have "fst (wait_response L meth params request_id tmo start op' w1) = Inl (ConnectionError m)"
        by (subst (asm) wait_response.simps) simp
      from 1(1) [OF True r [symmetric] Again this] one_round_rest [OF r]
      show ?thesis by blast
    next
      case (Raised e)
      with 1(2) True r have "e = ConnectionError m"
        by (subst (asm) wait_response.simps) simp
      with r Raised one_round_conn_error show ?thesis by blast
    next
      case (Returned v)
      with 1(2) True r show ?thesis by (subst (asm) wait_response.simps) simp
    next
      case (Break op')
      with 1(2) True r show ?thesis
        by (subst (asm) wait_response.simps) (simp add: timed_out_def split: if_splits)
    qed
  qed
qed

lemma attempt_conn_error:
  assumes "attempt L method params request_id w = (Inl (ConnectionError m), w1)"
  shows "next_send w = SendConnError m
       \<or> next_send w = SendOk \<and> (\<exists>d. (d, RecvConnError m) \<in> set (recv_script w))"
proof (cases "next_send w")
  case SendOk
  let ?w' = "w\<lparr>send_script := tl (send_script w),
                trace := trace w @ [Sendall (build_request method params request_id) (next_send w)]\<rparr>"
  from assms SendOk have "sock w"
    by (cases "sock w") (auto simp: attempt_def attribute_error_def)
  with assms SendOk
  have "fst (wait_response L method params request_id (operation_timeout method params)
               (clock ?w') JNull ?w') = Inl (ConnectionError m)"
    by (simp add: attempt_def Let_def)
  from wait_response_conn_error [OF this] SendOk show ?thesis by simp
next
  case SendTimeout
  with assms show ?thesis
    by (cases "sock w") (auto simp: attempt_def Let_def attribute_error_def)
next
  case (SendConnError m')
  with assms show ?thesis
    by (cases "sock w") (auto simp: attempt_def Let_def attribute_error_def)
qed


text \<open>
  Claim C3, as the code has it. An attempt ends in a transport failure, a
  \<^verbatim>\<open>socket.timeout\<close> or a \<^verbatim>\<open>ConnectionError\<close>, while \<open>retry_count\<close> retries
  have been made. Such a timeout is always the timeout of \<^verbatim>\<open>sendall\<close>, and such a
  connection error comes from \<^verbatim>\<open>sendall\<close> or from a \<^verbatim>\<open>recv\<close>: a timeout of
  \<^verbatim>\<open>recv\<close> never gets here. Below three retries the engine disconnects, sleeps
  \<^verbatim>\<open>min((retry_count + 1) * 0.5, 2.0)\<close> seconds, which is half a second per retry
  made, calls \<^verbatim>\<open>connect\<close>, and the loop runs again one retry further; when the
  reconnection succeeds, the next things the call does are to close, to sleep, to connect
  and to write the same envelope again. At three retries the call fails with
  \<^verbatim>\<open>Connection to Sketchup lost after 4 attempts\<close>. And whatever happens in a call,
  it hands at most four requests to \<^verbatim>\<open>sendall\<close>, each of them the envelope built
  from its arguments.
\<close>

theorem transport_retries:
  assumes "attempt L method params request_id w = (Inl e, w1)" and "is_transport e"
  shows "(e = SocketTimeout \<longrightarrow> next_send w = SendTimeout)
       \<and> (\<forall>m. e = ConnectionError m \<longrightarrow>
              next_send w = SendConnError m
              \<or> next_send w = SendOk \<and> (\<exists>d. (d, RecvConnError m) \<in> set (recv_script w)))
       \<and> (retry_count < 3 \<longrightarrow>
            send_loop L method params request_id retry_count w =
              send_loop L method params request_id (Suc retry_count)
                (snd (connect (sleep (min (of_nat (Suc retry_count) * 0.5) 2.0) (disconnect w1))))
            \<and> min (of_nat (Suc retry_count) * 0.5) (2.0 :: rat) = of_nat (Suc retry_count) / 2)
       \<and> (retry_count < 3 \<and> connect_script w1 = True # cs \<longrightarrow>
            prefix (trace w1 @ [Closed, Slept (min (of_nat (Suc retry_count) * 0.5) 2.0), Connected,
                                Sendall (build_request method params request_id) (next_send w1)])
              (trace (snd (send_loop L method params request_id retry_count w))))
       \<and> (retry_count = 3 \<longrightarrow>
            send_loop L method params request_id retry_count w =
              (Inl (Exception (''Connection to Sketchup lost after 4 attempts: '' @ str_exc e)),
               w1\<lparr>sock := False\<rparr>))
       \<and> (\<exists>j \<le> 4. requests (trace (snd (send_command L method params request_id w0))) =
              requests (trace w0) @ replicate j (build_request method params request_id))"
proof -
  let ?d = "min (of_nat (Suc retry_count) * 0.5) (2.0 :: rat)"
  from assms(2) have h: "handle_failure e retry_count w1 = on_transport_error e retry_count w1"
    by (cases e) (simp_all add: handle_failure_def)
  have origin1: "e = SocketTimeout \<longrightarrow> next_send w = SendTimeout"
    using assms(1) by (auto dest: attempt_timeout)
  have origin2: "\<forall>m. e = ConnectionError m \<longrightarrow>
              next_send w = SendConnError m
              \<or> next_send w = SendOk \<and> (\<exists>d. (d, RecvConnError m) \<in> set (recv_script w))"
    using assms(1) by (auto dest: attempt_conn_error)
  have retry: "send_loop L method params request_id retry_count w =
              send_loop L method params request_id (Suc retry_count)
                (snd (connect (sleep ?d (disconnect w1))))"
    if "retry_count < 3"
    using that assms(1) h
    by (subst send_loop.simps)
       (simp add: on_transport_error_def max_retries_def split: prod.splits)
  have backoff: "?d = of_nat (Suc retry_count) / 2"
    if "retry_count < 3"
  proof -
    from that have "(of_nat (Suc retry_count) :: rat) \<le> 3"
      by (metis Suc_leI of_nat_le_iff of_nat_numeral)
    then show ?thesis by (simp add: min_def)
  qed
  have resend: "prefix (trace w1 @ [Closed, Slept ?d, Connected,
                                Sendall (build_request method params request_id) (next_send w1)])
              (trace (snd (send_loop L method params request_id retry_count w)))"
    if "retry_count < 3" and cs: "connect_script w1 = True # cs"
  proof -
    from attempt_transport [OF assms] have s: "sock w1" by simp
    let ?w2 = "w1\<lparr>clock := clock w1 + ?d, connect_script := cs,
                    trace := trace w1 @ [Closed, Slept ?d, Connected]\<rparr>"
    from retry_world [OF s cs, of ?d]
    have w2: "snd (connect (sleep ?d (disconnect w1))) = ?w2" by simp
    have "sock ?w2" using s by simp
    moreover have "Suc retry_count \<le> 3" using that(1) by simp
    ultimately have "prefix (trace ?w2 @ [Sendall (build_request method params request_id) (next_send ?w2)])
              (trace (snd (send_loop L method params request_id (Suc retry_count) ?w2)))"
      by (rule send_loop_writes)
    moreover have "next_send ?w2 = next_send w1" by (simp add: next_send_def)
    ultimately show ?thesis using retry [OF that(1)] w2 by simp
  qed
  have give_up: "send_loop L method params request_id retry_count w =
              (Inl (Exception (''Connection to Sketchup lost after 4 attempts: '' @ str_exc e)),
               w1\<lparr>sock := False\<rparr>)"
    if "retry_count = 3"
    using that assms(1) h
    by (subst send_loop.simps) (simp add: on_transport_error_def max_retries_def)
  from origin1 origin2 retry backoff resend give_up
    send_command_requests [of L "method" params request_id w0]
  show ?thesis by blast
qed

text \<open>
  The examples: four \<^verbatim>\<open>sendall\<close> calls that fail in turn, and the scenario of the
  specification, where the connection drops twice and the third attempt succeeds after
  delays of 0.5 and 1 second.
\<close>

theorem transport_retries_witness:
  "attempt cpython ''tools/call'' (Some call_params) (JInt 1)
     (connected\<lparr>send_script := [reset, SendTimeout, broken, reset],
        connect_script := [True, True, True]\<rparr>)
   = (Inl (ConnectionError ''[Errno 104] Connection reset by peer''),
      connected\<lparr>send_script := [SendTimeout, broken, reset], connect_script := [True, True, True],
        trace := [Sendall request1 reset]\<rparr>)
   \<and> send_loop cpython ''tools/call'' (Some call_params) (JInt 1) 0
     (connected\<lparr>send_script := [reset, SendTimeout, broken, reset],
        connect_script := [True, True, True]\<rparr>)
   = send_loop cpython ''tools/call'' (Some call_params) (JInt 1) 1
     (connected\<lparr>clock := 0.5, send_script := [SendTimeout, broken, reset],
        connect_script := [True, True],
        trace := [Sendall request1 reset, Closed, Slept 0.5, Connected]\<rparr>)
   \<and> prefix [Sendall request1 reset, Closed, Slept 0.5, Connected, Sendall request1 SendTimeout]
       (trace (snd (send_loop cpython ''tools/call'' (Some call_params) (JInt 1) 0
          (connected\<lparr>send_script := [reset, SendTimeout, broken, reset],
             connect_script := [True, True, True]\<rparr>))))
   \<and> send_loop cpython ''tools/call'' (Some call_params) (JInt 1) 0
     (connected\<lparr>send_script := [reset, SendTimeout, broken, reset],
        connect_script := [True, True, True]\<rparr>)
   = (Inl (Exception
        ''Connection to Sketchup lost after 4 attempts: [Errno 104] Connection reset by peer''),
      connected\<lparr>clock := 3, sock := False,
        trace := [Sendall request1 reset, Closed, Slept 0.5, Connected,
                  Sendall request1 SendTimeout, Closed, Slept 1, Connected,
                  Sendall request1 broken, Closed, Slept 1.5, Connected,
                  Sendall request1 reset]\<rparr>)"
proof -
  let ?w = "connected\<lparr>send_script := [reset, SendTimeout, broken, reset],
              connect_script := [True, True, True]\<rparr>"
  let ?w1 = "connected\<lparr>send_script := [SendTimeout, broken, reset],
               connect_script := [True, True, True], trace := [Sendall request1 reset]\<rparr>"
  let ?e = "ConnectionError ''[Errno 104] Connection reset by peer''"
  have a1: "attempt cpython ''tools/call'' (Some call_params) (JInt 1) ?w = (Inl ?e, ?w1)"
    by code_simp
  have a2: "is_transport ?e" by simp
  have a3: "connect_script ?w1 = True # [True, True]" by simp
  have d: "min (of_nat (Suc 0) * 0.5) (2.0 :: rat) = 0.5" by simp
  have w2: "snd (connect (sleep (min (of_nat (Suc 0) * 0.5) 2.0) (disconnect ?w1)))
             = connected\<lparr>clock := 0.5, send_script := [SendTimeout, broken, reset],
                 connect_script := [True, True],
                 trace := [Sendall request1 reset, Closed, Slept 0.5, Connected]\<rparr>"
    by code_simp
  have q: "trace ?w1 @ [Closed, Slept (min (of_nat (Suc 0) * 0.5) 2.0), Connected,
                        Sendall (build_request ''tools/call'' (Some call_params) (JInt 1))
                          (next_send ?w1)]
           = [Sendall request1 reset, Closed, Slept 0.5, Connected, Sendall request1 SendTimeout]"
    unfolding d by (simp add: next_send_def request1_def)
  have all: "send_loop cpython ''tools/call'' (Some call_params) (JInt 1) 0 ?w
   = (Inl (Exception
        ''Connection to Sketchup lost after 4 attempts: [Errno 104] Connection reset by peer''),
      connected\<lparr>clock := 3, sock := False,
        trace := [Sendall request1 reset, Closed, Slept 0.5, Connected,
                  Sendall request1 SendTimeout, Closed, Slept 1, Connected,
                  Sendall request1 broken, Closed, Slept 1.5, Connected,
                  Sendall request1 reset]\<rparr>)"
    by code_simp
  have lt: "(0 :: nat) < 3" by simp
  from transport_retries [OF a1 a2, of 0 "[True, True]" ?w] lt a3
  have r: "send_loop cpython ''tools/call'' (Some call_params) (JInt 1) 0 ?w =
          send_loop cpython ''tools/call'' (Some call_params) (JInt 1) (Suc 0)
            (snd (connect (sleep (min (of_nat (Suc 0) * 0.5) 2.0) (disconnect ?w1))))"
    and p: "prefix (trace ?w1 @ [Closed, Slept (min (of_nat (Suc 0) * 0.5) 2.0), Connected,
                        Sendall (build_request ''tools/call'' (Some call_params) (JInt 1))
                          (next_send ?w1)])
              (trace (snd (send_loop cpython ''tools/call'' (Some call_params) (JInt 1) 0 ?w)))"
    by blast+
  from r w2 have r': "send_loop cpython ''tools/call'' (Some call_params) (JInt 1) 0 ?w
   = send_loop cpython ''tools/call'' (Some call_params) (JInt 1) 1
     (connected\<lparr>clock := 0.5, send_script := [SendTimeout, broken, reset],
        connect_script := [True, True],
        trace := [Sendall request1 reset, Closed, Slept 0.5, Connected]\<rparr>)"
    by (simp only: One_nat_def)
  from p q have p': "prefix [Sendall request1 reset, Closed, Slept 0.5, Connected,
                            Sendall request1 SendTimeout]
       (trace (snd (send_loop cpython ''tools/call'' (Some call_params) (JInt 1) 0 ?w)))"
    by (simp only:)
  from a1 r' p' all show ?thesis by (simp only: simp_thms)
qed

theorem two_drops_then_success_example:
  "send_command cpython ''tools/call'' (Some call_params) (JInt 1)
     (connected\<lparr>probe_script := [True], send_script := [reset, reset, SendOk],
        connect_script := [True, True],
        recv_script := [(1, Chunk ''{\"result\": {\"success\": true}, \"id\": 1}'')]\<rparr>)
   = (Inr (JObj [(''success'', JBool True)]),
      connected\<lparr>clock := 2.5,
        trace := [Sendall request1 reset, Closed, Slept 0.5, Connected,
                  Sendall request1 reset, Closed, Slept 1, Connected,
                  Sendall request1 SendOk]\<rparr>)"
  by code_simp

text \<open>
  Claim C3 as stated fails. A timeout of \<^verbatim>\<open>recv\<close> is no transport failure for the
  retry loop: with a peer that takes the request and stays silent for 30 seconds,
  \<^verbatim>\<open>receive_full_response\<close> turns the timeout into \<^verbatim>\<open>No data received\<close> and the
  call fails after its first attempt, with no disconnect, no sleep and no second request,
  although a connection could be made again and the answer was on its way. And a retry
  does not always resend: when the reconnection fails, the next round finds no socket and
  the call ends after one request and one sleep, not after four attempts.
\<close>

theorem recv_timeout_not_retried_counterexample:
  "send_command cpython ''tools/call'' (Some call_params) (JInt 1)
     (connected\<lparr>probe_script := [True], send_script := [SendOk, SendOk],
        connect_script := [True],
        recv_script := [(30, RecvTimeout), (1, Chunk ''{\"result\": {\"success\": true}, \"id\": 1}'')]\<rparr>)
   = (Inl (Exception ''Communication error with Sketchup: No data received''),
      connected\<lparr>clock := 30, sock := False, send_script := [SendOk], connect_script := [True],
        recv_script := [(1, Chunk ''{\"result\": {\"success\": true}, \"id\": 1}'')],
        trace := [Sendall request1 SendOk]\<rparr>)
   \<and> send_command cpython ''tools/call'' (Some call_params) (JInt 1)
     (connected\<lparr>probe_script := [True], send_script := [reset, SendOk],
        connect_script := [False, True],
        recv_script := [(1, Chunk ''{\"result\": {\"success\": true}, \"id\": 1}'')]\<rparr>)
   = (Inl (communication_error (attribute_error JNull ''settimeout'')),
      connected\<lparr>clock := 0.5, sock := False, send_script := [SendOk], connect_script := [True],
        recv_script := [(1, Chunk ''{\"result\": {\"success\": true}, \"id\": 1}'')],
        trace := [Sendall request1 reset, Closed, Slept 0.5]\<rparr>)
   \<and> str_exc (communication_error (attribute_error JNull ''settimeout''))
       = ''Communication error with Sketchup: '' @ quoted ''NoneType''
         @ '' object has no attribute '' @ quoted ''settimeout''"
  by code_simp

subsection \<open>Errors reported by the peer\<close>

text \<open>
  \<open>peer_message L err\<close> is the message of a peer error, as line 258 builds it from the
  \<^verbatim>\<open>"error"\<close> object. A peer error whose message does not contain the words
  \<^verbatim>\<open>Connection closed\<close> ends the call on the spot: one request is written, nothing is
  retried, and the exception carries the peer's message.
\<close>

lemma operation_timeout_pos: "0 < operation_timeout method params"
  by (simp add: operation_timeout_def Let_def)

lemma peer_error_fails_once:
  assumes "loads L data = Parsed (JObj response)" and "data \<noteq> []"
    and "map_of response ''error'' = Some (JObj err)"
    and "\<not> contains ''Connection closed'' (peer_message L err)"
    and "sock w" and "probe_script w = True # ps" and "send_script w = SendOk # ss"
    and "recv_script w = (d, Chunk data) # rest"
  shows "send_command L method params request_id w =
           (Inl (Exception (''Communication error with Sketchup: '' @ peer_message L err)),
            w\<lparr>clock := clock w + d, sock := False, probe_script := ps, send_script := ss,
              recv_script := rest,
              trace := trace w @ [Sendall (build_request method params request_id) SendOk]\<rparr>)"
proof -
  let ?w0 = "w\<lparr>probe_script := ps\<rparr>"
  let ?w1 = "?w0\<lparr>send_script := tl (send_script ?w0),
                  trace := trace ?w0 @ [Sendall (build_request method params request_id) (next_send ?w0)]\<rparr>"
  let ?e = "Exception (peer_message L err)"
  have c: "connect w = (True, ?w0)" using assms(5,6) by (rule connect_live)
  have n: "next_send ?w0 = SendOk" using assms(7) by (simp add: next_send_def)
  have h: "handle_response L request_id (JObj response) JNull = Fail ?e"
    using assms(3)
    by (simp add: handle_response_def py_item_def peer_message_def py_str_def split: option.splits)
  have t: "clock ?w1 - clock ?w1 < operation_timeout method params"
    by (simp add: operation_timeout_pos)
  have s: "recv_script ?w1 = (d, Chunk data) # rest" using assms(8) by simp
  from wait_response_frame [OF t s assms(2,1), of "method" params request_id JNull] h
  have "wait_response L method params request_id (operation_timeout method params) (clock ?w1)
          JNull ?w1 = (Inl ?e, ?w1\<lparr>clock := clock ?w1 + d, recv_script := rest\<rparr>)"
    by simp
  then have a: "attempt L method params request_id ?w0 =
                  (Inl ?e, ?w1\<lparr>clock := clock ?w1 + d, recv_script := rest\<rparr>)"
    using assms(5) n by (simp add: attempt_def Let_def)
  have f: "handle_failure ?e 0 (?w1\<lparr>clock := clock ?w1 + d, recv_script := rest\<rparr>) =
             (GiveUp (Exception (''Communication error with Sketchup: '' @ peer_message L err)),
              ?w1\<lparr>clock := clock ?w1 + d, recv_script := rest, sock := False\<rparr>)"
    using assms(4) by (simp add: handle_failure_def on_other_error_def del: contains.simps)
  have "send_loop L method params request_id 0 ?w0 =
          (Inl (Exception (''Communication error with Sketchup: '' @ peer_message L err)),
           ?w1\<lparr>clock := clock ?w1 + d, recv_script := rest, sock := False\<rparr>)"
    using a f by (subst send_loop.simps) (simp add: max_retries_def)
  with c n assms(7) show ?thesis by (simp add: send_command_def)
qed


text \<open>
  Claim C2 says that no peer-reported error is ever retried. The code decides by the text
  of the exception (line 329), so a peer error whose message contains
  \<^verbatim>\<open>Connection closed\<close> is taken for a closed connection. Here the peer answers every
  request with such an error: the engine disconnects, sleeps, reconnects and resends
  three times, four requests in all, before the call fails.
\<close>

theorem peer_error_is_retried:
  "send_command cpython ''tools/call'' (Some call_params) (JInt 1)
     (connected\<lparr>probe_script := [True], send_script := [SendOk, SendOk, SendOk, SendOk],
        connect_script := [True, True, True],
        recv_script := [(1, Chunk peer_closed), (1, Chunk peer_closed), (1, Chunk peer_closed),
                        (1, Chunk peer_closed)]\<rparr>)
   = (Inl (Exception ''Communication error with Sketchup: Connection closed by user''),
      connected\<lparr>clock := 5.5, sock := False,
        trace := [Sendall request1 SendOk, Closed, Slept 0.5, Connected,
                  Sendall request1 SendOk, Closed, Slept 0.5, Connected,
                  Sendall request1 SendOk, Closed, Slept 0.5, Connected,
                  Sendall request1 SendOk]\<rparr>)"
  by code_simp


subsection \<open>The dimensions of a new component\<close>

lemma pad_short:
  "pad [] = [1, 1, 1]" "pad [a] = [a, a, a]" "pad [a, b] = [a, b, b]"
  by (simp_all add: pad.simps)

lemma pad_long: "3 \<le> length ds \<Longrightarrow> pad ds = ds"
  by (subst pad.simps) simp

lemma normalize_is_spec: "normalize_dimensions dimensions type = spec_dimensions dimensions type"
proof (cases dimensions)
  case None
  then show ?thesis by (simp add: normalize_dimensions_def spec_dimensions_def)
next
  case (Some ds)
  show ?thesis
  proof (cases ds)
    case Nil
    with Some show ?thesis
      by (simp add: normalize_dimensions_def spec_dimensions_def pad_short)
  next
    case (Cons a as)
    note c1 = this
    show ?thesis
    proof (cases as)
      case Nil
      with Some c1 show ?thesis
        by (simp add: normalize_dimensions_def spec_dimensions_def pad_short)
    next
      case (Cons b bs)
      note c2 = this
      show ?thesis
      proof (cases bs)
        case Nil
        with Some c1 c2 show ?thesis
          by (simp add: normalize_dimensions_def spec_dimensions_def pad_short)
      next
        case (Cons c cs)
        with Some c1 c2 show ?thesis
          by (simp add: normalize_dimensions_def spec_dimensions_def)
      qed
    qed
  qed
qed

lemma clamped: "list_all (\<lambda>d. 0.1 \<le> d) (map (\<lambda>d. max 0.1 d) (xs :: rat list))"
  by (induction xs) (simp_all add: le_max_iff_disj)

lemma normalize_clamped: "list_all (\<lambda>d. 0.1 \<le> d) (normalize_dimensions dimensions type)"
  unfolding normalize_dimensions_def by (rule clamped)

lemma get_sketchup_connection_requests:
  "get_sketchup_connection w = (r, w1) \<Longrightarrow> requests (trace w1) = requests (trace w)"
  by (auto simp: get_sketchup_connection_def split: if_splits prod.splits bool.splits
           dest!: connect_requests')

lemma create_component_requests:
  "\<exists>j \<le> 4. requests (trace (snd (create_component L request_id type position dimensions
                                       direction origin_mode w))) =
       requests (trace w) @
       replicate j (build_request ''tools/call''
                      (Some (component_params type position
                               (normalize_dimensions dimensions type) direction origin_mode))
                      request_id)"
proof -
  let ?p = "Some (component_params type position (normalize_dimensions dimensions type)
                    direction origin_mode)"
  let ?q = "build_request ''tools/call'' ?p request_id"
  let ?out = "create_component L request_id type position dimensions direction origin_mode w"
  consider (invalid) "direction \<notin> set valid_directions \<or> origin_mode \<notin> set valid_origin_modes"
    | (valid) "direction \<in> set valid_directions" "origin_mode \<in> set valid_origin_modes"
    by blast
  then show ?thesis
  proof cases
    case invalid
    then have "snd ?out = w"
      by (auto simp: create_component_def create_component_body_def)
    then show ?thesis by (intro exI [where x = 0]) simp
  next
    case valid
    obtain r w1 where g: "get_sketchup_connection w = (r, w1)"
      by (cases "get_sketchup_connection w")
    from get_sketchup_connection_requests [OF g]
    have t1: "requests (trace w1) = requests (trace w)" .
    show ?thesis
    proof (cases r)
      case (Inl e)
      with valid g have "snd ?out = w1"
        by (simp add: create_component_def create_component_body_def)
      with t1 show ?thesis by (intro exI [where x = 0]) simp
    next
      case (Inr u)
      obtain r2 w2 where s: "send_command L ''tools/call'' ?p request_id w1 = (r2, w2)"
        by (cases "send_command L ''tools/call'' ?p request_id w1")
      from send_command_requests [of L "''tools/call''" ?p request_id w1] s
      obtain j where j: "j \<le> 4" "requests (trace w2) = requests (trace w1) @ replicate j ?q"
        by auto
      from valid g Inr s have "snd ?out = w2"
        by (cases r2) (simp_all add: create_component_def create_component_body_def
                         split: sum.splits)
      with j t1 show ?thesis by (intro exI [where x = j]) simp
    qed
  qed
qed

text \<open>
  Claim C9. The dimensions computed by \<^verbatim>\<open>create_component\<close> are those of the claim's
  words, each at least 0.1; they are the \<^verbatim>\<open>"dimensions"\<close> argument of the request;
  and every request the tool writes to the peer, at most four with the retries, is the
  envelope with these arguments.
\<close>

theorem dimensions_normalized:
  "normalize_dimensions dimensions type = spec_dimensions dimensions type
   \<and> list_all (\<lambda>d. 0.1 \<le> d) (spec_dimensions dimensions type)
   \<and> py_get (params_get (Some (component_params type position
                                   (spec_dimensions dimensions type) direction origin_mode))
                ''arguments'') ''dimensions'' JNull
       = Inr (floats (spec_dimensions dimensions type))
   \<and> (\<exists>j \<le> 4. requests (trace (snd (create_component L request_id type position dimensions
                                           direction origin_mode w))) =
         requests (trace w) @
         replicate j (build_request ''tools/call''
                        (Some (component_params type position
                                 (spec_dimensions dimensions type) direction origin_mode))
                        request_id))"
  using normalize_clamped [of dimensions type]
    create_component_requests [of L request_id type position dimensions direction origin_mode w]
  by (simp add: normalize_is_spec component_params_def params_get_def)

theorem dimensions_normalized_witness:
  "spec_dimensions (Some [2, 0.05]) ''cylinder'' = [2, 2, 0.1]
   \<and> spec_dimensions (Some [4]) ''cube'' = [4, 4, 4]
   \<and> spec_dimensions None ''cube'' = [1, 1, 1]
   \<and> requests (trace (snd (create_component cpython (JInt 1) ''cylinder'' None (Some [2, 0.05])
         ''up'' ''center''
         (connected\<lparr>probe_script := [True], send_script := [SendOk],
            recv_script := [(1, Chunk ''{\"result\": {\"success\": true, \"id\": 7}, \"id\": 1}'')]\<rparr>))))
     = [build_request ''tools/call''
          (Some (component_params ''cylinder'' None [2, 2, 0.1] ''up'' ''center'')) (JInt 1)]"
proof -
  let ?w = "connected\<lparr>probe_script := [True], send_script := [SendOk],
            recv_script := [(1, Chunk ''{\"result\": {\"success\": true, \"id\": 7}, \"id\": 1}'')]\<rparr>"
  have s1: "spec_dimensions (Some [2, 0.05]) ''cylinder'' = [2, 2, 0.1]"
    by (simp add: spec_dimensions_def)
  have s2: "spec_dimensions (Some [4]) ''cube'' = [4, 4, 4]"
    by (simp add: spec_dimensions_def)
  have s3: "spec_dimensions None ''cube'' = [1, 1, 1]"
    by (simp add: spec_dimensions_def)
  have n: "normalize_dimensions (Some [2, 0.05]) ''cylinder'' = [2, 2, 0.1]"
    using dimensions_normalized [of "Some [2, 0.05]" "''cylinder''"] s1 by simp
  have "requests (trace (snd (create_component cpython (JInt 1) ''cylinder'' None (Some [2, 0.05])
         ''up'' ''center'' ?w)))
     = [build_request ''tools/call''
          (Some (component_params ''cylinder'' None
                   (normalize_dimensions (Some [2, 0.05]) ''cylinder'') ''up'' ''center'')) (JInt 1)]"
    by code_simp
  with n s1 s2 s3 show ?thesis by simp
qed


subsection \<open>What the tools return\<close>

lemma bind_exc_Inr:
  "bind_exc m f = Inr y \<Longrightarrow> \<exists>x. m = Inr x \<and> f x = Inr y"
  by (cases m) (simp_all add: bind_exc_def)


lemma message_payload_report [simp]: "message_report (message_payload m details)"
  by (simp add: message_report_def has_message_def message_payload_def)

lemma error_payload_report [simp]: "message_report (error_payload m)"
  by (simp add: message_report_def has_message_def error_payload_def)

lemma component_failed_report: "component_failed L result = Inr out \<Longrightarrow> message_report out"
  by (auto simp: component_failed_def message_payload_def [symmetric] dest!: bind_exc_Inr)

lemma component_report_report:
  "component_report L type direction origin_mode result = Inr out \<Longrightarrow> message_report out"
  by (auto simp: component_report_def message_payload_def [symmetric] split: if_splits
           dest!: bind_exc_Inr intro: component_failed_report)

lemma create_component_caught:
  "fst (create_component_body L request_id type position dimensions direction origin_mode w)
     = Inl e \<Longrightarrow>
   fst (create_component L request_id type position dimensions direction origin_mode w)
     = error_payload (''Error creating component: '' @ str_exc e)"
  by (auto simp: create_component_def error_payload_def split: prod.splits)

lemma create_component_report:
  "message_report (fst (create_component L request_id type position dimensions direction
                       origin_mode w))"
proof -
  obtain r w1 where b: "create_component_body L request_id type position dimensions direction
                          origin_mode w = (r, w1)"
    by (cases "create_component_body L request_id type position dimensions direction origin_mode w")
  show ?thesis
  proof (cases r)
    case (Inl e)
    with b create_component_caught [of L request_id type position dimensions direction origin_mode w e]
    show ?thesis by simp
  next
    case (Inr out)
    with b have "message_report out"
      by (auto simp: create_component_body_def split: if_splits prod.splits sum.splits
               dest: component_report_report)
    with b Inr show ?thesis by (simp add: create_component_def)
  qed
qed

lemma transform_report_report:
  "transform_report L ident applied result = Inr out \<Longrightarrow> message_report out"
  by (auto simp: transform_report_def message_payload_def [symmetric] error_payload_def [symmetric]
           split: if_splits dest!: bind_exc_Inr)

lemma transform_component_caught:
  "fst (transform_component_body L request_id ident position rotation scale w) = Inl e \<Longrightarrow>
   fst (transform_component L request_id ident position rotation scale w)
     = error_payload (''Error transforming component ID '' @ quoted ident @ '': '' @ str_exc e)"
  by (auto simp: transform_component_def error_payload_def split: prod.splits)

lemma transform_component_report:
  "message_report (fst (transform_component L request_id ident position rotation scale w))"
proof -
  obtain r w1 where b: "transform_component_body L request_id ident position rotation scale w
                          = (r, w1)"
    by (cases "transform_component_body L request_id ident position rotation scale w")
  show ?thesis
  proof (cases r)
    case (Inl e)
    with b transform_component_caught [of L request_id ident position rotation scale w e]
    show ?thesis by simp
  next
    case (Inr out)
    have n: "message_report (no_transformation ident)"
      by (simp add: no_transformation_def message_payload_def [symmetric])
    from b Inr have "message_report out"
      by (auto simp: transform_component_body_def Let_def n 
               split: if_splits prod.splits sum.splits
               dest: transform_report_report)
    with b Inr show ?thesis by (simp add: transform_component_def)
  qed
qed

lemma standard_report_report:
  "standard_report L result success_message default_reason failure_text empty_text = Inr out
     \<Longrightarrow> message_report out"
  by (auto simp: standard_report_def split: if_splits dest!: bind_exc_Inr)

lemma run_tool_report:
  assumes "\<And>result out. report result = Inr out \<Longrightarrow> message_report out"
    and "\<And>e. message_report (handler e)"
  shows "message_report (fst (run_tool L request_id name arguments report handler w))"
  using assms by (auto simp: run_tool_def split: prod.splits sum.splits)

lemma run_tool_caught:
  "fst (call_tool L request_id name arguments w) = Inl e \<Longrightarrow>
     fst (run_tool L request_id name arguments report handler w) = handler e"
  by (auto simp: run_tool_def split: prod.splits)

lemma ruby_response_success: "ruby_response result = Inr out \<Longrightarrow> has_success out"
  by (auto simp: ruby_response_def has_success_def split: json.splits list.splits
           dest!: bind_exc_Inr)


lemma plain_tool_output:
  "fst (plain_tool L request_id name arguments error_text w) =
     plain_output error_text (fst (call_tool L request_id name arguments w))"
  by (simp add: plain_tool_def run_tool_def plain_output_def split: prod.splits sum.splits)


lemma plain_tool_kind:
  "plain_kind error_text (fst (plain_tool L request_id name arguments error_text w))"
  by (simp add: plain_tool_output plain_output_def plain_kind_def split: sum.splits)

lemma create_mortise_tenon_plain:
  "create_mortise_tenon L request_id mortise_id tenon_id width height depth
       offset_x offset_y offset_z w =
     plain_tool L request_id ''create_mortise_tenon''
       [(''mortise_id'', JStr mortise_id), (''tenon_id'', JStr tenon_id),
        (''width'', JFloat width), (''height'', JFloat height), (''depth'', JFloat depth),
        (''offset_x'', JFloat offset_x), (''offset_y'', JFloat offset_y),
        (''offset_z'', JFloat offset_z)]
       ''Error creating mortise and tenon joint: '' w"
  by (simp add: create_mortise_tenon_def create_mortise_tenon_body_def plain_tool_def
        run_tool_def call_tool_def mortise_tenon_params_def split: prod.splits sum.splits)


text \<open>
  Claim C7, as the code has it. No tool lets an exception escape: each returns a string
  whatever the input and the outcome of the call. \<^verbatim>\<open>create_component\<close>,
  \<^verbatim>\<open>delete_component\<close>, \<^verbatim>\<open>transform_component\<close>, \<^verbatim>\<open>get_selection\<close>,
  \<^verbatim>\<open>set_material\<close> and \<^verbatim>\<open>export_scene\<close> always return the serialisation of a
  JSON object with a message and with details, in which an error flag is either absent
  or true next to null details. When the connection or the call raises, and for
  \<^verbatim>\<open>create_component\<close> and \<^verbatim>\<open>transform_component\<close> when anything in the
  \<^verbatim>\<open>try\<close> block raises, that object is the failure payload: the tool's error text
  with the text of the exception as the message, the error flag and null details.
  \<^verbatim>\<open>eval_ruby\<close> always returns a JSON object with a success flag, and when the
  connection or the call raises, the flag \<^verbatim>\<open>false\<close> with the text of the exception.
  The tools of the plain kind, \<^verbatim>\<open>create_mortise_tenon\<close> and the fourteen defined
  through \<open>plain_tool\<close>, return the serialised result of the peer when the call returns,
  and when the connection or the call raises, a plain sentence: their error text followed
  by the text of the exception. The last fourteen lines name those tools, each with its
  own error text.
\<close>

theorem tool_outputs:
  "message_report (fst (create_component L request_id type position dimensions direction
                          origin_mode w))
   \<and> message_report (fst (delete_component L request_id ident w))
   \<and> message_report (fst (transform_component L request_id ident place rotation scale w))
   \<and> message_report (fst (get_selection L request_id w))
   \<and> message_report (fst (set_material L request_id ident material w))
   \<and> message_report (fst (export_scene L request_id format w))
   \<and> (fst (create_component_body L request_id type position dimensions direction origin_mode w)
         = Inl e \<longrightarrow>
       fst (create_component L request_id type position dimensions direction origin_mode w)
         = error_payload (''Error creating component: '' @ str_exc e))
   \<and> (fst (call_tool L request_id ''delete_component'' [(''id'', JStr ident)] w) = Inl e \<longrightarrow>
       fst (delete_component L request_id ident w)
         = error_payload (''Error deleting component ID '' @ quoted ident @ '': '' @ str_exc e))
   \<and> (fst (transform_component_body L request_id ident place rotation scale w) = Inl e \<longrightarrow>
       fst (transform_component L request_id ident place rotation scale w)
         = error_payload (''Error transforming component ID '' @ quoted ident @ '': ''
                          @ str_exc e))
   \<and> (fst (call_tool L request_id ''get_selection'' [] w) = Inl e \<longrightarrow>
       fst (get_selection L request_id w)
         = error_payload (''Error getting selection: '' @ str_exc e))
   \<and> (fst (call_tool L request_id ''set_material''
              [(''id'', JStr ident), (''material'', JStr material)] w) = Inl e \<longrightarrow>
       fst (set_material L request_id ident material w)
         = error_payload (''Error setting material for component ID '' @ quoted ident @ '': ''
                          @ str_exc e))
   \<and> (fst (call_tool L request_id ''export'' [(''format'', JStr format)] w) = Inl e \<longrightarrow>
       fst (export_scene L request_id format w)
         = error_payload (''Error exporting scene in '' @ upper_of L format @ '' format: ''
                          @ str_exc e))
   \<and> has_success (fst (eval_ruby L request_id code w))
   \<and> (fst (call_tool L request_id ''eval_ruby'' [(''code'', JStr code)] w) = Inl e \<longrightarrow>
       fst (eval_ruby L request_id code w)
         = Json (JObj [(''success'', JBool False), (''error'', JStr (str_exc e))]))
   \<and> fst (plain_tool L request_id name arguments error_text w) =
       plain_output error_text (fst (call_tool L request_id name arguments w))
   \<and> create_mortise_tenon L request_id mortise_id tenon_id width height depth
         offset_x offset_y offset_z w =
       plain_tool L request_id ''create_mortise_tenon''
         [(''mortise_id'', JStr mortise_id), (''tenon_id'', JStr tenon_id),
          (''width'', JFloat width), (''height'', JFloat height), (''depth'', JFloat depth),
          (''offset_x'', JFloat offset_x), (''offset_y'', JFloat offset_y),
          (''offset_z'', JFloat offset_z)]
         ''Error creating mortise and tenon joint: '' w
   \<and> plain_kind ''Error creating dovetail joint: ''
         (fst (create_dovetail L request_id tail_id pin_id width height depth angle num_tails
                 offset_x offset_y offset_z w))
   \<and> plain_kind ''Error creating finger joint: ''
         (fst (create_finger_joint L request_id board1_id board2_id width height depth
                 num_fingers offset_x offset_y offset_z w))
   \<and> plain_kind ''Error calculating distance: ''
         (fst (calculate_distance L request_id point1 point2 w))
   \<and> plain_kind ''Error measuring components: ''
         (fst (measure_components L request_id component_ids type w))
   \<and> plain_kind ''Error inspecting component: ''
         (fst (inspect_component L request_id component_id w))
   \<and> plain_kind ''Error creating reference markers: ''
         (fst (create_reference_markers L request_id points marker_size color label_prefix w))
   \<and> plain_kind ''Error clearing reference markers: ''
         (fst (clear_reference_markers L request_id label_prefix w))
   \<and> plain_kind ''Error snapping/aligning component: ''
         (fst (snap_align_component L request_id source_component_id target_component_id
                 alignment_type offset w))
   \<and> plain_kind ''Error creating grid system: ''
         (fst (create_grid_system L request_id origin x_spacing y_spacing x_count y_count
                 marker_size show_labels color label_prefix w))
   \<and> plain_kind ''Error querying components: ''
         (fst (query_all_components L request_id include_details type_filter w))
   \<and> plain_kind ''Error positioning component relatively: ''
         (fst (position_relative_to_component L request_id source_component_id
                 reference_component_id relative_position offset w))
   \<and> plain_kind ''Error positioning component between others: ''
         (fst (position_between_components L request_id source_component_id component1_id
                 component2_id ratio offset w))
   \<and> plain_kind ''Error showing component bounds: ''
         (fst (show_component_bounds L request_id component_ids show_wireframe color
                 label_prefix w))
   \<and> plain_kind ''Error previewing position: ''
         (fst (preview_position L request_id type position dimensions w))"
proof -
  have d: "message_report (fst (delete_component L request_id ident w))"
    unfolding delete_component_def
    by (rule run_tool_report) (auto dest: standard_report_report)
  have g: "message_report (fst (get_selection L request_id w))"
    unfolding get_selection_def
    by (rule run_tool_report) (auto dest: standard_report_report)
  have m: "message_report (fst (set_material L request_id ident material w))"
    unfolding set_material_def
    by (rule run_tool_report) (auto dest: standard_report_report)
  have x: "message_report (fst (export_scene L request_id format w))"
    unfolding export_scene_def
    by (rule run_tool_report) (auto dest: standard_report_report)
  have r: "has_success (fst (eval_ruby L request_id code w))"
    unfolding eval_ruby_def run_tool_def
    by (auto simp: has_success_def split: prod.splits sum.splits dest: ruby_response_success)
  have d': "fst (call_tool L request_id ''delete_component'' [(''id'', JStr ident)] w) = Inl e \<longrightarrow>
       fst (delete_component L request_id ident w)
         = error_payload (''Error deleting component ID '' @ quoted ident @ '': '' @ str_exc e)"
    unfolding delete_component_def by (simp add: run_tool_caught)
  have g': "fst (call_tool L request_id ''get_selection'' [] w) = Inl e \<longrightarrow>
       fst (get_selection L request_id w)
         = error_payload (''Error getting selection: '' @ str_exc e)"
    unfolding get_selection_def by (simp add: run_tool_caught)
  have m': "fst (call_tool L request_id ''set_material''
              [(''id'', JStr ident), (''material'', JStr material)] w) = Inl e \<longrightarrow>
       fst (set_material L request_id ident material w)
         = error_payload (''Error setting material for component ID '' @ quoted ident @ '': ''
                          @ str_exc e)"
    unfolding set_material_def by (simp add: run_tool_caught)
  have x': "fst (call_tool L request_id ''export'' [(''format'', JStr format)] w) = Inl e \<longrightarrow>
       fst (export_scene L request_id format w)
         = error_payload (''Error exporting scene in '' @ upper_of L format @ '' format: ''
                          @ str_exc e)"
    unfolding export_scene_def by (simp add: run_tool_caught)
  have r': "fst (call_tool L request_id ''eval_ruby'' [(''code'', JStr code)] w) = Inl e \<longrightarrow>
       fst (eval_ruby L request_id code w)
         = Json (JObj [(''success'', JBool False), (''error'', JStr (str_exc e))])"
    unfolding eval_ruby_def by (simp add: run_tool_caught)
  have plain:
    "plain_kind ''Error creating dovetail joint: ''
         (fst (create_dovetail L request_id tail_id pin_id width height depth angle num_tails
                 offset_x offset_y offset_z w))"
    "plain_kind ''Error creating finger joint: ''
         (fst (create_finger_joint L request_id board1_id board2_id width height depth
                 num_fingers offset_x offset_y offset_z w))"
    "plain_kind ''Error calculating distance: ''
         (fst (calculate_distance L request_id point1 point2 w))"
    "plain_kind ''Error measuring components: ''
         (fst (measure_components L request_id component_ids type w))"
    "plain_kind ''Error inspecting component: ''
         (fst (inspect_component L request_id component_id w))"
    "plain_kind ''Error creating reference markers: ''
         (fst (create_reference_markers L request_id points marker_size color label_prefix w))"
    "plain_kind ''Error clearing reference markers: ''
         (fst (clear_reference_markers L request_id label_prefix w))"
    "plain_kind ''Error snapping/aligning component: ''
         (fst (snap_align_component L request_id source_component_id target_component_id
                 alignment_type offset w))"
    "plain_kind ''Error creating grid system: ''
         (fst (create_grid_system L request_id origin x_spacing y_spacing x_count y_count
                 marker_size show_labels color label_prefix w))"
    "plain_kind ''Error querying components: ''
         (fst (query_all_components L request_id include_details type_filter w))"
    "plain_kind ''Error positioning component relatively: ''
         (fst (position_relative_to_component L request_id source_component_id
                 reference_component_id relative_position offset w))"
    "plain_kind ''Error positioning component between others: ''
         (fst (position_between_components L request_id source_component_id component1_id
                 component2_id ratio offset w))"
    "plain_kind ''Error showing component bounds: ''
         (fst (show_component_bounds L request_id component_ids show_wireframe color
                 label_prefix w))"
    "plain_kind ''Error previewing position: ''
         (fst (preview_position L request_id type position dimensions w))"
    unfolding create_dovetail_def create_finger_joint_def calculate_distance_def
      measure_components_def inspect_component_def create_reference_markers_def
      clear_reference_markers_def snap_align_component_def create_grid_system_def
      query_all_components_def position_relative_to_component_def
      position_between_components_def show_component_bounds_def preview_position_def
    by (rule plain_tool_kind)+
  show ?thesis
    by (intro conjI impI d g m x r d' [rule_format] g' [rule_format] m' [rule_format]
          x' [rule_format] r' [rule_format] create_component_report transform_component_report
          create_component_caught transform_component_caught
          plain_tool_output create_mortise_tenon_plain plain)
qed

theorem tool_outputs_witness:
  "fst (create_component_body cpython (JInt 1) ''cube'' None None ''up'' ''center'' offline)
     = Inl (Exception ''Could not connect to Sketchup. Make sure the Sketchup extension is running.'')
   \<and> fst (create_component cpython (JInt 1) ''cube'' None None ''up'' ''center'' offline)
     = Json (JObj [(''message'',
                    JStr ''Error creating component: Could not connect to Sketchup. Make sure the Sketchup extension is running.''),
                   (''error'', JBool True), (''details'', JNull)])
   \<and> message_report (fst (create_component cpython (JInt 1) ''cube'' None None ''up'' ''center''
                          offline))
   \<and> fst (create_dovetail cpython (JInt 1) ''a'' ''b'' 1 1 1 15 3 0 0 0
            (connected\<lparr>probe_script := [True], send_script := [SendOk],
               recv_script := [(1, Chunk ''{\"result\": {\"success\": true}, \"id\": 1}'')]\<rparr>))
       = Json (JObj [(''success'', JBool True)])"
proof -
  let ?w = "connected\<lparr>probe_script := [True], send_script := [SendOk],
               recv_script := [(1, Chunk ''{\"result\": {\"success\": true}, \"id\": 1}'')]\<rparr>"
  let ?args = "[(''tail_id'', JStr ''a''), (''pin_id'', JStr ''b''), (''width'', JFloat 1),
        (''height'', JFloat 1), (''depth'', JFloat 1), (''angle'', JFloat 15),
        (''num_tails'', JInt 3), (''offset_x'', JFloat 0),
        (''offset_y'', JFloat 0), (''offset_z'', JFloat 0)]"
  let ?e = "Exception ''Could not connect to Sketchup. Make sure the Sketchup extension is running.''"
  have a: "fst (create_component_body cpython (JInt 1) ''cube'' None None ''up'' ''center'' offline)
     = Inl ?e"
    by code_simp
  have b: "plain_output ''Error creating dovetail joint: ''
             (fst (call_tool cpython (JInt 1) ''create_dovetail'' ?args ?w))
          = Json (JObj [(''success'', JBool True)])"
    by code_simp
  note caught = tool_outputs [of cpython "JInt 1" "''cube''" None None "''up''" "''center''"
      offline _ _ _ _ _ _ ?e]
  from caught
  have h1: "message_report (fst (create_component cpython (JInt 1) ''cube'' None None ''up''
                               ''center'' offline))"
    by (rule conjunct1)
  from caught [THEN conjunct2, THEN conjunct2, THEN conjunct2, THEN conjunct2, THEN conjunct2,
      THEN conjunct2, THEN conjunct1] a
  have h0: "fst (create_component cpython (JInt 1) ''cube'' None None ''up'' ''center'' offline)
             = error_payload (''Error creating component: '' @ str_exc ?e)"
    by (rule mp)
  note plain = tool_outputs [of cpython "JInt 1" _ _ _ _ _ ?w _ _ _ _ _ _ _ _
      "''create_dovetail''" ?args "''Error creating dovetail joint: ''"]
  from plain [THEN conjunct2, THEN conjunct2, THEN conjunct2, THEN conjunct2, THEN conjunct2,
      THEN conjunct2, THEN conjunct2, THEN conjunct2, THEN conjunct2, THEN conjunct2,
      THEN conjunct2, THEN conjunct2, THEN conjunct2, THEN conjunct2, THEN conjunct1] b
  have c: "fst (create_dovetail cpython (JInt 1) ''a'' ''b'' 1 1 1 15 3 0 0 0 ?w)
       = Json (JObj [(''success'', JBool True)])"
    by (simp add: create_dovetail_def)
  from h1 h0 have h: "message_report (fst (create_component cpython (JInt 1) ''cube'' None None ''up''
                               ''center'' offline))
         \<and> fst (create_component cpython (JInt 1) ''cube'' None None ''up'' ''center'' offline)
             = error_payload (''Error creating component: '' @ str_exc ?e)"
    by (rule conjI)
  from h have h2: "fst (create_component cpython (JInt 1) ''cube'' None None ''up'' ''center'' offline)
     = Json (JObj [(''message'',
                    JStr ''Error creating component: Could not connect to Sketchup. Make sure the Sketchup extension is running.''),
                   (''error'', JBool True), (''details'', JNull)])"
    by (simp add: error_payload_def)
  from a h h2 c show ?thesis by blast
qed

text \<open>
  Claim C7 as stated fails. With no peer listening, \<^verbatim>\<open>create_mortise_tenon\<close>
  returns a plain sentence, which is not a JSON document. A failure that the peer reports
  in its result comes out of \<^verbatim>\<open>delete_component\<close> as a message with the details
  and without an error flag. The failure payload of \<^verbatim>\<open>eval_ruby\<close> has a success
  flag and the text of the exception, but no message.
\<close>

theorem plain_text_error_counterexample:
  "create_mortise_tenon cpython (JInt 1) ''a'' ''b'' 1 1 1 0 0 0 offline
     = (Text ''Error creating mortise and tenon joint: Could not connect to Sketchup. Make sure the Sketchup extension is running.'',
        offline)
   \<and> loads cpython ''Error creating mortise and tenon joint: Could not connect to Sketchup. Make sure the Sketchup extension is running.''
       = BadJSON ''Expecting value''
   \<and> fst (delete_component cpython (JInt 1) ''42''
            (connected\<lparr>probe_script := [True], send_script := [SendOk],
               recv_script := [(1, Chunk ''{\"result\": {\"success\": false, \"message\": \"no such entity\"}, \"id\": 1}'')]\<rparr>))
       = Json (JObj [(''message'', JStr (''Failed to delete component with ID '' @ quoted ''42''
                                          @ ''. Reason: no such entity'')),
                     (''details'', JObj [(''success'', JBool False),
                                         (''message'', JStr ''no such entity'')])])
   \<and> fst (eval_ruby cpython (JInt 1) ''1 + 1'' offline)
       = Json (JObj [(''success'', JBool False),
                     (''error'', JStr ''Could not connect to Sketchup. Make sure the Sketchup extension is running.'')])"
  by code_simp

subsection \<open>A transformation that transforms nothing\<close>

text \<open>
  Claim C10. When \<^verbatim>\<open>transform_component\<close> is called without position, rotation and
  scale and \<^verbatim>\<open>get_sketchup_connection\<close> succeeds, the tool returns the success payload
  with \<^verbatim>\<open>"changes_applied": false\<close>. The world is left as
  \<^verbatim>\<open>get_sketchup_connection\<close> left it: no request has been written, the streams to
  and from the peer are untouched, and when a connection was already held nothing has
  changed at all.
\<close>

theorem no_transformation_no_request:
  assumes "fst (get_sketchup_connection w) = Inr ()"
  shows "transform_component L request_id ident None None None w =
           (Json (JObj [(''message'',
                         JStr ''No transformation (position, rotation, or scale) provided. Component not changed.''),
                        (''details'', JObj [(''success'', JBool True), (''id'', JStr ident),
                                            (''changes_applied'', JBool False)])]),
            snd (get_sketchup_connection w))
       \<and> requests (trace (snd (get_sketchup_connection w))) = requests (trace w)
       \<and> recv_script (snd (get_sketchup_connection w)) = recv_script w
       \<and> send_script (snd (get_sketchup_connection w)) = send_script w
       \<and> (global_conn w \<and> sock w \<longrightarrow> snd (get_sketchup_connection w) = w)"
proof -
  obtain r w1 where g: "get_sketchup_connection w = (r, w1)"
    by (cases "get_sketchup_connection w")
  with assms have r: "r = Inr ()" by simp
  have out: "transform_component L request_id ident None None None w =
           (Json (JObj [(''message'',
                         JStr ''No transformation (position, rotation, or scale) provided. Component not changed.''),
                        (''details'', JObj [(''success'', JBool True), (''id'', JStr ident),
                                            (''changes_applied'', JBool False)])]), w1)"
    using g r
    by (simp add: transform_component_def transform_component_body_def no_transformation_def
          transform_argument_def applied_transformation_def)
  have scripts: "recv_script w1 = recv_script w \<and> send_script w1 = send_script w"
    using g
    by (auto simp: get_sketchup_connection_def connect_def new_socket_def disconnect_def
             split: if_splits list.splits bool.splits)
  have same: "global_conn w \<and> sock w \<longrightarrow> w1 = w"
    using g by (auto simp: get_sketchup_connection_def)
  from out scripts same get_sketchup_connection_requests [OF g] g show ?thesis by simp
qed

theorem no_transformation_no_request_witness:
  "fst (get_sketchup_connection (offline\<lparr>connect_script := [True]\<rparr>)) = Inr ()
   \<and> transform_component cpython (JInt 1) ''42'' None None None
        (offline\<lparr>connect_script := [True], send_script := [SendOk],
           recv_script := [(1, Chunk ''{\"result\": {\"success\": true}, \"id\": 1}'')]\<rparr>)
     = (Json (JObj [(''message'',
                     JStr ''No transformation (position, rotation, or scale) provided. Component not changed.''),
                    (''details'', JObj [(''success'', JBool True), (''id'', JStr ''42''),
                                        (''changes_applied'', JBool False)])]),
        connected\<lparr>send_script := [SendOk],
           recv_script := [(1, Chunk ''{\"result\": {\"success\": true}, \"id\": 1}'')],
           trace := [Connected]\<rparr>)"
proof -
  let ?w = "offline\<lparr>connect_script := [True], send_script := [SendOk],
           recv_script := [(1, Chunk ''{\"result\": {\"success\": true}, \"id\": 1}'')]\<rparr>"
  have a: "fst (get_sketchup_connection ?w) = Inr ()" by code_simp
  have a': "fst (get_sketchup_connection (offline\<lparr>connect_script := [True]\<rparr>)) = Inr ()"
    by code_simp
  have w1: "snd (get_sketchup_connection ?w) =
              connected\<lparr>send_script := [SendOk],
                recv_script := [(1, Chunk ''{\"result\": {\"success\": true}, \"id\": 1}'')],
                trace := [Connected]\<rparr>"
    by code_simp
  from no_transformation_no_request [OF a, of cpython "JInt 1" "''42''"] w1 a'
  show ?thesis by simp
qed


end
